(* ===== verification/Prelude.thy ===== *)
theory Prelude
  imports Main "HOL-Library.Sublist"
begin

text \<open>
  Shared vocabulary of the development: the Python built-ins on strings that the
  gateway code calls (\<open>str.lower\<close>, \<open>str.startswith\<close>, the \<open>in\<close> operator on
  strings, \<open>or\<close> on strings, slicing, \<open>str(int)\<close>), the \<open>for\<close> loop over a
  list whose body may raise, and the generic lemmas on lists and sums that the
  component theories share.  The collection \<open>py_simps\<close> holds the evaluation
  rules of these built-ins, so that \<open>simp add: py_simps\<close> evaluates them on
  concrete strings.
\<close>

named_theorems py_simps "evaluation rules of the modelled Python built-ins"

section \<open>Strings\<close>

text \<open>
  Python's \<open>str.lower\<close> on the ASCII range: the letters \<open>A\<close>..\<open>Z\<close> move up by 32,
  every other character is unchanged.  (Python lowercases non-ASCII letters as
  well; the model reads strings as byte strings, see the root header.)
\<close>

definition py_lower_char :: "char \<Rightarrow> char" where
  "py_lower_char c =
     (let n = (of_char c :: nat) in if 65 \<le> n \<and> n \<le> 90 then char_of (n + 32) else c)"

definition py_lower :: "string \<Rightarrow> string" where
  "py_lower s = map py_lower_char s"

text \<open>\<open>s.startswith(p)\<close>, written as the loop that compares character by character.\<close>

fun py_startswith :: "string \<Rightarrow> string \<Rightarrow> bool" where
  "py_startswith s [] = True"
| "py_startswith [] (c # cs) = False"
| "py_startswith (d # ds) (c # cs) = (d = c \<and> py_startswith ds cs)"

text \<open>\<open>needle in hay\<close> for strings: some suffix of \<open>hay\<close> starts with \<open>needle\<close>.\<close>

fun py_contains :: "string \<Rightarrow> string \<Rightarrow> bool" where
  "py_contains n [] = (n = [])"
| "py_contains n (h # hs) = (py_startswith (h # hs) n \<or> py_contains n hs)"

text \<open>\<open>a or b\<close> on strings: the first operand when it is truthy (non-empty).\<close>

definition py_or :: "string \<Rightarrow> string \<Rightarrow> string" where
  "py_or a b = (if a \<noteq> [] then a else b)"

text \<open>\<open>str(n)\<close> for a non-negative integer: its decimal digits.\<close>

fun py_str_nat :: "nat \<Rightarrow> string" where
  "py_str_nat n =
     (if n < 10 then [char_of (48 + n)]
      else py_str_nat (n div 10) @ [char_of (48 + n mod 10)])"

declare py_str_nat.simps [simp del]

text \<open>\<open>str(i)\<close> for any integer: a minus sign before the digits of a negative one.\<close>

definition py_str_int :: "int \<Rightarrow> string" where
  "py_str_int i = (if 0 \<le> i then py_str_nat (nat i) else ''-'' @ py_str_nat (nat (- i)))"

text \<open>
  \<open>xs[:n]\<close>: the first \<open>n\<close> items; a negative \<open>n\<close> counts from the end, so all
  but the last \<open>-n\<close> items are kept (none when \<open>-n\<close> exceeds the length).
\<close>

definition py_slice_to :: "'a list \<Rightarrow> int \<Rightarrow> 'a list" where
  "py_slice_to xs n = (if 0 \<le> n then take (nat n) xs else take (nat (int (length xs) + n)) xs)"

section \<open>Loops whose body may raise\<close>

text \<open>
  \<open>out = []; for x in xs: out.append(f(x))\<close> where \<open>f\<close> may raise: the first
  exception ends the loop and propagates.
\<close>

fun py_map :: "('a \<Rightarrow> 'e + 'b) \<Rightarrow> 'a list \<Rightarrow> 'e + 'b list" where
  "py_map f [] = Inr []"
| "py_map f (x # xs) =
     (case f x of
        Inl e \<Rightarrow> Inl e
      | Inr y \<Rightarrow> (case py_map f xs of Inl e \<Rightarrow> Inl e | Inr ys \<Rightarrow> Inr (y # ys)))"

section \<open>Exceptions threaded with state\<close>

text \<open>
  A handler step returns its value or the exception it raises, together with the
  state reached so far; an exception skips the rest of the handler and keeps the
  state (requests already sent stay sent).
\<close>

definition py_bind :: "('e + 'a) \<times> 's \<Rightarrow> ('a \<Rightarrow> 's \<Rightarrow> ('e + 'b) \<times> 's) \<Rightarrow> ('e + 'b) \<times> 's" where
  "py_bind m f = (case m of (Inl e, s) \<Rightarrow> (Inl e, s) | (Inr a, s) \<Rightarrow> f a s)"

lemma py_bind_Inl [simp]: "py_bind (Inl e, s) f = (Inl e, s)"
  by (simp add: py_bind_def)

lemma py_bind_Inr [simp]: "py_bind (Inr a, s) f = f a s"
  by (simp add: py_bind_def)

section \<open>Dictionaries\<close>

text \<open>
  A Python \<open>dict\<close> as an association list in insertion order (the order in which
  Python iterates it).  \<open>d.get(k, default)\<close> and \<open>k in d\<close> read the first entry
  with key \<open>k\<close>; \<open>d[k] = v\<close> overwrites the entry in place when the key is present
  and appends it otherwise, as CPython does.
\<close>

definition dict_get :: "('k \<times> 'v) list \<Rightarrow> 'k \<Rightarrow> 'v \<Rightarrow> 'v" where
  "dict_get d k dflt = (case map_of d k of Some v \<Rightarrow> v | None \<Rightarrow> dflt)"

definition dict_has :: "('k \<times> 'v) list \<Rightarrow> 'k \<Rightarrow> bool" where
  "dict_has d k = (map_of d k \<noteq> None)"

fun dict_set :: "('k \<times> 'v) list \<Rightarrow> 'k \<Rightarrow> 'v \<Rightarrow> ('k \<times> 'v) list" where
  "dict_set [] k v = [(k, v)]"
| "dict_set ((k', v') # d) k v = (if k' = k then (k, v) # d else (k', v') # dict_set d k v)"

text \<open>\<open>{**d, **kvs}\<close> and \<open>d.update(kvs)\<close>: the entries of \<open>kvs\<close> set one after another.\<close>

definition dict_update :: "('k \<times> 'v) list \<Rightarrow> ('k \<times> 'v) list \<Rightarrow> ('k \<times> 'v) list" where
  "dict_update d kvs = foldl (\<lambda>acc kv. dict_set acc (fst kv) (snd kv)) d kvs"

section \<open>Lemmas on the built-ins\<close>

lemma py_startswith_prefix [simp]: "py_startswith s p \<longleftrightarrow> prefix p s"
  by (induction s p rule: py_startswith.induct) auto

lemma py_contains_sublist: "py_contains n h \<longleftrightarrow> sublist n h"
  by (induction h) (auto simp: sublist_Cons_right)

lemma py_contains_Nil [simp]: "py_contains [] h"
  by (simp add: py_contains_sublist)

lemma py_contains_append [intro]: "py_contains n (ps @ n @ ss)"
  by (simp add: py_contains_sublist)

lemma char_of_eq_iff_rev: "c = char_of n \<longleftrightarrow> take_bit 8 n = of_char c" for n :: nat
  by (metis char_of_eq_iff)

lemmas [py_simps] = char_of_eq_iff char_of_eq_iff_rev py_lower_char_def py_str_nat.simps

lemma py_lower_char_idem [simp]: "py_lower_char (py_lower_char c) = py_lower_char c"
proof -
  let ?n = "of_char c :: nat"
  have "?n < 256" by simp
  show ?thesis
  proof (cases "65 \<le> ?n \<and> ?n \<le> 90")
    case True
    then have "of_char (char_of (?n + 32) :: char) = (?n + 32 :: nat)"
      by simp
    with True show ?thesis by (simp add: py_lower_char_def Let_def)
  next
    case False
    then have "py_lower_char c = c" by (auto simp: py_lower_char_def Let_def)
    then show ?thesis by simp
  qed
qed

lemma py_lower_idem [simp]: "py_lower (py_lower s) = py_lower s"
  by (simp add: py_lower_def)

lemma py_lower_length [simp]: "length (py_lower s) = length s"
  by (simp add: py_lower_def)

lemma py_lower_Nil [simp, py_simps]: "py_lower [] = []"
  by (simp add: py_lower_def)

lemma py_lower_Cons [py_simps]: "py_lower (c # cs) = py_lower_char c # py_lower cs"
  by (simp add: py_lower_def)

lemma py_lower_append [simp]: "py_lower (a @ b) = py_lower a @ py_lower b"
  by (simp add: py_lower_def)

lemma py_or_nonempty [simp]: "a \<noteq> [] \<Longrightarrow> py_or a b = a"
  by (simp add: py_or_def)

lemma py_or_empty [simp]: "py_or [] b = b"
  by (simp add: py_or_def)

lemma dict_get_Nil [simp]: "dict_get [] k dflt = dflt"
  by (simp add: dict_get_def)

lemma dict_get_Cons [simp]:
  "dict_get ((k', v') # d) k dflt = (if k' = k then v' else dict_get d k dflt)"
  by (simp add: dict_get_def)

lemma dict_has_Nil [simp]: "\<not> dict_has [] k"
  by (simp add: dict_has_def)

lemma dict_has_Cons [simp]: "dict_has ((k', v') # d) k \<longleftrightarrow> k' = k \<or> dict_has d k"
  by (simp add: dict_has_def)

lemma dict_has_iff: "dict_has d k \<longleftrightarrow> k \<in> set (map fst d)"
  by (induction d) auto

lemma dict_get_set_same [simp]: "dict_get (dict_set d k v) k dflt = v"
  by (induction d k v rule: dict_set.induct) auto

lemma dict_get_set_other [simp]:
  "k \<noteq> k2 \<Longrightarrow> dict_get (dict_set d k v) k2 dflt = dict_get d k2 dflt"
  by (induction d k v rule: dict_set.induct) auto

lemma dict_has_set [simp]: "dict_has (dict_set d k v) k2 \<longleftrightarrow> k2 = k \<or> dict_has d k2"
  by (induction d k v rule: dict_set.induct) auto

lemma keys_dict_set:
  "map fst (dict_set d k v) = (if k \<in> set (map fst d) then map fst d else map fst d @ [k])"
  by (induction d k v rule: dict_set.induct) auto

lemma distinct_keys_dict_set [intro]:
  "distinct (map fst d) \<Longrightarrow> distinct (map fst (dict_set d k v))"
  by (simp add: keys_dict_set)

lemma set_dict_set_subset: "set (dict_set d k v) \<subseteq> insert (k, v) (set d)"
  by (induction d k v rule: dict_set.induct) auto

lemma py_slice_to_prefix: "prefix (py_slice_to xs n) xs"
  by (simp add: py_slice_to_def take_is_prefix)

lemma py_slice_to_nonneg [simp]: "0 \<le> n \<Longrightarrow> py_slice_to xs n = take (nat n) xs"
  by (simp add: py_slice_to_def)

lemma py_map_Inr_length:
  "py_map f xs = Inr ys \<Longrightarrow> length ys = length xs"
  by (induction xs arbitrary: ys) (auto split: sum.splits)

lemma py_map_Inr_nth:
  "py_map f xs = Inr ys \<Longrightarrow> i < length xs \<Longrightarrow> f (xs ! i) = Inr (ys ! i)"
proof (induction xs arbitrary: ys i)
  case Nil
  then show ?case by simp
next
  case (Cons x xs)
  then obtain y ys' where fx: "f x = Inr y" and rest: "py_map f xs = Inr ys'"
    and ys: "ys = y # ys'"
    by (auto split: sum.splits)
  show ?case
  proof (cases i)
    case 0
    with fx ys show ?thesis by simp
  next
    case (Suc j)
    with Cons.prems have "j < length xs" by simp
    with Cons.IH [OF rest] Suc ys show ?thesis by simp
  qed
qed

lemma py_map_all_Inr:
  "(\<forall>x \<in> set xs. \<exists>y. f x = Inr y) \<Longrightarrow> py_map f xs = Inr (map (\<lambda>x. projr (f x)) xs)"
  by (induction xs) auto

lemma py_map_map: "py_map (\<lambda>x. Inr (g x)) xs = Inr (map g xs)"
  by (induction xs) auto

lemma py_map_Inl_ex:
  "py_map f xs = Inl e \<Longrightarrow> \<exists>x \<in> set xs. f x = Inl e"
  by (induction xs) (auto split: sum.splits)

lemma py_map_seq:
  assumes "\<And>x y. f x = Inr y \<Longrightarrow> \<exists>z. g y = Inr z"
  shows "py_map (\<lambda>x. case f x of Inl e \<Rightarrow> Inl e | Inr y \<Rightarrow> map_sum id h (g y)) xs =
         (case py_map f xs of Inl e \<Rightarrow> Inl e | Inr ys \<Rightarrow> map_sum id (map h) (py_map g ys))"
  using assms by (induction xs) (fastforce split: sum.splits)+

end
