(* ===== verification/Py_Json.thy ===== *)
theory Py_Json
  imports Prelude
begin

text \<open>
  The Python values the gateway code handles: JSON documents as \<open>json.loads\<close>
  and \<open>response.json()\<close> produce them (\<open>None\<close> is \<open>JNull\<close>, a dict is
  \<open>JObj\<close> in insertion order), the exceptions that the handlers raise or let
  propagate, and the dynamically typed operations the code applies to such values:
  truthiness (\<open>if x:\<close>), the method call \<open>x.get(k, d)\<close>, iteration
  (\<open>for m in x\<close>), \<open>len(x)\<close> and pydantic's validation of a \<open>str\<close> field.
  Each raises on the values where CPython raises, as an \<open>Inl\<close> branch.
  A float is kept as the decimal it is written as, \<open>JFloat m e\<close> standing for
  \<open>m * 10 ^ -e\<close>: the code never computes with one, it only forwards request
  fields verbatim or returns constants such as \<open>0.00\<close>.
\<close>

datatype json =
    JNull
  | JBool bool
  | JInt int
  | JFloat int nat
  | JStr string
  | JList "json list"
  | JObj "(string \<times> json) list"

text \<open>
  Exceptions: the Python built-in ones the code can trigger, the transport and
  decoding failures of \<open>requests\<close>, FastAPI's \<open>HTTPException(status, detail)\<close>,
  and the \<open>ImportError\<close> of an import naming a module that does not exist.
\<close>

datatype py_exc =
    AttributeError
  | TypeError
  | ValidationError
  | RequestException string
  | JSONDecodeError string
  | HTTPException nat string
  | ImportError string

text \<open>
  \<open>str(e)\<close>: Starlette's \<open>HTTPException\<close> prints as \<open>"status: detail"\<close>; the
  exceptions of \<open>requests\<close> and \<open>json\<close> print their message.
\<close>

fun py_str_exc :: "py_exc \<Rightarrow> string" where
  "py_str_exc (HTTPException status detail) = py_str_nat status @ '': '' @ detail"
| "py_str_exc (RequestException msg) = msg"
| "py_str_exc (JSONDecodeError msg) = msg"
| "py_str_exc AttributeError = ''AttributeError''"
| "py_str_exc TypeError = ''TypeError''"
| "py_str_exc ValidationError = ''ValidationError''"
| "py_str_exc (ImportError name) = ''cannot import name '' @ name"

text \<open>Truthiness, \<open>bool(x)\<close>.\<close>

fun py_truthy :: "json \<Rightarrow> bool" where
  "py_truthy JNull = False"
| "py_truthy (JBool b) = b"
| "py_truthy (JInt i) = (i \<noteq> 0)"
| "py_truthy (JFloat m e) = (m \<noteq> 0)"
| "py_truthy (JStr s) = (s \<noteq> [])"
| "py_truthy (JList xs) = (xs \<noteq> [])"
| "py_truthy (JObj d) = (d \<noteq> [])"

text \<open>\<open>x.get(k, d)\<close>: only a dict has the method.\<close>

fun py_get :: "json \<Rightarrow> string \<Rightarrow> json \<Rightarrow> py_exc + json" where
  "py_get (JObj d) k dflt = Inr (dict_get d k dflt)"
| "py_get _ k dflt = Inl AttributeError"

text \<open>\<open>for m in x\<close>: a list yields its items, a string its characters, a dict its keys.\<close>

fun py_iter :: "json \<Rightarrow> py_exc + json list" where
  "py_iter (JList xs) = Inr xs"
| "py_iter (JStr s) = Inr (map (\<lambda>c. JStr [c]) s)"
| "py_iter (JObj d) = Inr (map (\<lambda>kv. JStr (fst kv)) d)"
| "py_iter _ = Inl TypeError"

text \<open>\<open>len(x)\<close>.\<close>

fun py_len :: "json \<Rightarrow> py_exc + nat" where
  "py_len (JList xs) = Inr (length xs)"
| "py_len (JStr s) = Inr (length s)"
| "py_len (JObj d) = Inr (length d)"
| "py_len _ = Inl TypeError"

text \<open>A pydantic \<open>str\<close> field accepts a string and rejects any other value.\<close>

fun as_str :: "json \<Rightarrow> py_exc + string" where
  "as_str (JStr s) = Inr s"
| "as_str _ = Inl ValidationError"

text \<open>
  Well-formedness: every dict has distinct keys, as every dict that Python
  builds (and \<open>json.loads\<close> returns) has.
\<close>

fun wf_json :: "json \<Rightarrow> bool" where
  "wf_json (JList xs) = (\<forall>x \<in> set xs. wf_json x)"
| "wf_json (JObj d) = (distinct (map fst d) \<and> (\<forall>kv \<in> set d. wf_json (snd kv)))"
| "wf_json _ = True"

section \<open>Lemmas\<close>

lemma py_iter_len:
  "py_iter x = Inr xs \<Longrightarrow> py_len x = Inr (length xs)"
  by (cases x) auto

lemma py_len_iter:
  "py_len x = Inr n \<Longrightarrow> \<exists>xs. py_iter x = Inr xs \<and> length xs = n"
  by (cases x) auto

lemma py_get_Inr_iff:
  "py_get x k dflt = Inr v \<longleftrightarrow> (\<exists>d. x = JObj d \<and> v = dict_get d k dflt)"
  by (cases x) auto

lemma py_truthy_JList_iff [simp]: "\<not> py_truthy (JList xs) \<longleftrightarrow> xs = []"
  by simp

lemma wf_json_dict_set [intro]:
  assumes "wf_json (JObj d)" and "wf_json v"
  shows "wf_json (JObj (dict_set d k v))"
proof -
  from assms have "distinct (map fst (dict_set d k v))" by auto
  moreover have "\<forall>kv \<in> set (dict_set d k v). wf_json (snd kv)"
    using assms set_dict_set_subset [of d k v] by auto
  ultimately show ?thesis by simp
qed

lemma wf_json_dict_get:
  "wf_json (JObj d) \<Longrightarrow> wf_json dflt \<Longrightarrow> wf_json (dict_get d k dflt)"
  by (induction d) auto

end
