(* ===== verification/Compat.thy ===== *)
theory Compat
  imports Py_Json
begin

text \<open>
  The compatibility module \<open>plugins/openclaw/compat.py\<close>: the configuration read
  from the process environment at import time, the provider table and the provider
  resolver \<open>get_provider_for_model\<close>, the header builders and the endpoint URL
  builders.  The configuration is an explicit record passed to every operation
  instead of module globals; it never changes after it is read.
\<close>

section \<open>Configuration\<close>

record gateway_config =
  OPENCLAW_ENABLED :: bool
  OPENCLAW_GATEWAY_URL :: string
  OPENCLAW_GATEWAY_KEY :: string

type_synonym environ = "string \<rightharpoonup> string"

text \<open>\<open>os.environ.get(name, default)\<close>.\<close>

definition environ_get :: "environ \<Rightarrow> string \<Rightarrow> string \<Rightarrow> string" where
  "environ_get env name dflt = (case env name of Some v \<Rightarrow> v | None \<Rightarrow> dflt)"

definition load_config :: "environ \<Rightarrow> gateway_config" where
  "load_config env =
     \<lparr>OPENCLAW_ENABLED = (py_lower (environ_get env ''OPENCLAW_ENABLED'' ''true'') = ''true''),
      OPENCLAW_GATEWAY_URL = environ_get env ''OPENCLAW_GATEWAY_URL'' ''http://localhost:18789'',
      OPENCLAW_GATEWAY_KEY = environ_get env ''OPENCLAW_GATEWAY_KEY'' ''''\<rparr>"

text \<open>The accessors \<open>is_openclaw_enabled\<close>, \<open>get_gateway_url\<close>, \<open>get_gateway_key\<close>.\<close>

definition is_openclaw_enabled :: "gateway_config \<Rightarrow> bool" where
  "is_openclaw_enabled cfg = OPENCLAW_ENABLED cfg"

definition get_gateway_url :: "gateway_config \<Rightarrow> string" where
  "get_gateway_url cfg = OPENCLAW_GATEWAY_URL cfg"

definition get_gateway_key :: "gateway_config \<Rightarrow> string" where
  "get_gateway_key cfg = OPENCLAW_GATEWAY_KEY cfg"

declare is_openclaw_enabled_def [simp] get_gateway_url_def [simp] get_gateway_key_def [simp]

section \<open>Provider resolution\<close>

text \<open>\<open>PROVIDER_MAPPINGS\<close>, in the dict's insertion order, which is the order the loop visits.\<close>

definition PROVIDER_MAPPINGS :: "(string \<times> string) list" where
  "PROVIDER_MAPPINGS =
     [(''gpt-4'', ''openai''), (''gpt-4-turbo'', ''openai''), (''gpt-4o'', ''openai''),
      (''gpt-3.5-turbo'', ''openai''), (''gpt-4o-mini'', ''openai''),
      (''claude-3-opus'', ''anthropic''), (''claude-3-sonnet'', ''anthropic''),
      (''claude-3-5-sonnet'', ''anthropic''), (''claude-3-haiku'', ''anthropic''),
      (''gemini-pro'', ''google''), (''gemini-1.5-pro'', ''google''), (''gemini-flash'', ''google''),
      (''grok-beta'', ''xai''), (''grok-2'', ''xai''),
      (''mistral-large'', ''mistral''), (''mistral-small'', ''mistral''),
      (''command-r'', ''cohere''), (''command-r-plus'', ''cohere'')]"

text \<open>The loop of \<open>get_provider_for_model\<close>: the first entry whose key occurs in the name.\<close>

fun provider_loop :: "(string \<times> string) list \<Rightarrow> string \<Rightarrow> string" where
  "provider_loop [] model_lower = ''openai''"
| "provider_loop ((model_prefix, provider) # rest) model_lower =
     (if py_contains model_prefix model_lower then provider
      else provider_loop rest model_lower)"

definition get_provider_for_model :: "string \<Rightarrow> string" where
  "get_provider_for_model model = provider_loop PROVIDER_MAPPINGS (py_lower model)"

section \<open>URLs and headers\<close>

definition get_model_url :: "gateway_config \<Rightarrow> string \<Rightarrow> string" where
  "get_model_url cfg model =
     (let provider = get_provider_for_model model in
      if OPENCLAW_ENABLED cfg then OPENCLAW_GATEWAY_URL cfg @ ''/v1''
      else if provider = ''openai'' then ''https://api.openai.com/v1''
      else if provider = ''anthropic'' then ''https://api.anthropic.com/v1''
      else if provider = ''google'' then ''https://generativelanguage.googleapis.com/v1''
      else if provider = ''xai'' then ''https://api.x.ai/v1''
      else if provider = ''mistral'' then ''https://api.mistral.ai/v1''
      else if provider = ''cohere'' then ''https://api.cohere.ai/v1''
      else ''https://api.openai.com/v1'')"

type_synonym headers = "(string \<times> string) list"

text \<open>
  \<open>get_headers(api_key=None)\<close>: \<open>key = OPENCLAW_GATEWAY_KEY or api_key or ""\<close>,
  and an \<open>Authorization\<close> header only for a non-empty key.
\<close>

definition get_headers :: "gateway_config \<Rightarrow> string option \<Rightarrow> headers" where
  "get_headers cfg api_key =
     (let key = py_or (OPENCLAW_GATEWAY_KEY cfg)
                  (py_or (case api_key of None \<Rightarrow> '''' | Some k \<Rightarrow> k) '''')
      in if key \<noteq> [] then [(''Authorization'', ''Bearer '' @ key)] else [])"

definition get_openai_compatible_headers :: "gateway_config \<Rightarrow> headers" where
  "get_openai_compatible_headers cfg =
     (if OPENCLAW_GATEWAY_KEY cfg \<noteq> [] then [(''Authorization'', ''Bearer '' @ OPENCLAW_GATEWAY_KEY cfg)]
      else if OPENCLAW_ENABLED cfg then [(''Authorization'', ''Bearer '' @ OPENCLAW_GATEWAY_KEY cfg)]
      else [])"

definition should_route_through_openclaw :: "gateway_config \<Rightarrow> string \<Rightarrow> bool" where
  "should_route_through_openclaw cfg model = (if \<not> OPENCLAW_ENABLED cfg then False else True)"

definition get_chat_completion_url :: "gateway_config \<Rightarrow> string" where
  "get_chat_completion_url cfg =
     (if OPENCLAW_ENABLED cfg then OPENCLAW_GATEWAY_URL cfg @ ''/v1/chat/completions''
      else ''https://api.openai.com/v1/chat/completions'')"

definition get_models_url :: "gateway_config \<Rightarrow> string" where
  "get_models_url cfg =
     (if OPENCLAW_ENABLED cfg then OPENCLAW_GATEWAY_URL cfg @ ''/v1/models''
      else ''https://api.openai.com/v1/models'')"

definition get_embeddings_url :: "gateway_config \<Rightarrow> string" where
  "get_embeddings_url cfg =
     (if OPENCLAW_ENABLED cfg then OPENCLAW_GATEWAY_URL cfg @ ''/v1/embeddings''
      else ''https://api.openai.com/v1/embeddings'')"

definition get_images_url :: "gateway_config \<Rightarrow> string" where
  "get_images_url cfg =
     (if OPENCLAW_ENABLED cfg then OPENCLAW_GATEWAY_URL cfg @ ''/v1/images/generations''
      else ''https://api.openai.com/v1/images/generations'')"

definition get_audio_url :: "gateway_config \<Rightarrow> string" where
  "get_audio_url cfg =
     (if OPENCLAW_ENABLED cfg then OPENCLAW_GATEWAY_URL cfg @ ''/v1/audio''
      else ''https://api.openai.com/v1/audio'')"

text \<open>
  Reference form of the fixed-endpoint builders: one base, the gateway's \<open>/v1\<close>
  when the integration is enabled and OpenAI's otherwise, followed by the path.
\<close>

definition endpoint_base :: "gateway_config \<Rightarrow> string" where
  "endpoint_base cfg = (if OPENCLAW_ENABLED cfg then OPENCLAW_GATEWAY_URL cfg @ ''/v1'' else ''https://api.openai.com/v1'')"

section \<open>Configuration defaults\<close>

lemma load_config_defaults:
  "load_config Map.empty =
     \<lparr>OPENCLAW_ENABLED = True, OPENCLAW_GATEWAY_URL = ''http://localhost:18789'',
      OPENCLAW_GATEWAY_KEY = []\<rparr>"
  by (simp add: load_config_def environ_get_def py_simps)

section \<open>Provider resolution: the loop against a declarative specification\<close>

lemma provider_loop_first_match:
  "i < length tbl \<Longrightarrow> tbl ! i = (k, p) \<Longrightarrow> py_contains k m \<Longrightarrow>
   \<forall>j < i. \<not> py_contains (fst (tbl ! j)) m \<Longrightarrow> provider_loop tbl m = p"
proof (induction tbl arbitrary: i)
  case Nil
  then show ?case by simp
next
  case (Cons e tbl)
  obtain k0 p0 where e: "e = (k0, p0)" by fastforce
  show ?case
  proof (cases i)
    case 0
    with Cons.prems e show ?thesis by simp
  next
    case (Suc j)
    from Cons.prems(4) Suc e have "\<not> py_contains k0 m" by auto
    moreover have "provider_loop tbl m = p"
      using Cons.prems Suc by (intro Cons.IH [of j]) auto
    ultimately show ?thesis using e by simp
  qed
qed

lemma provider_loop_no_match:
  "\<forall>e \<in> set tbl. \<not> py_contains (fst e) m \<Longrightarrow> provider_loop tbl m = ''openai''"
  by (induction tbl m rule: provider_loop.induct) auto

lemma provider_loop_range:
  "provider_loop tbl m \<in> insert ''openai'' (snd ` set tbl)"
  by (induction tbl m rule: provider_loop.induct) auto

lemma PROVIDER_MAPPINGS_providers:
  "snd ` set PROVIDER_MAPPINGS = {''openai'', ''anthropic'', ''google'', ''xai'', ''mistral'', ''cohere''}"
  by (auto simp: PROVIDER_MAPPINGS_def)

text \<open>
  C9. The resolver is the first-match rule over the provider table: when the
  lower-cased model name contains the key of entry \<open>i\<close> and of no earlier entry,
  the resolver returns the provider of entry \<open>i\<close>.
\<close>

theorem get_provider_first_match:
  assumes "i < length PROVIDER_MAPPINGS" and "PROVIDER_MAPPINGS ! i = (k, p)"
    and "py_contains k (py_lower model)"
    and "\<forall>j < i. \<not> py_contains (fst (PROVIDER_MAPPINGS ! j)) (py_lower model)"
  shows "get_provider_for_model model = p"
  using assms provider_loop_first_match unfolding get_provider_for_model_def by blast

theorem get_provider_first_match_witness:
  "PROVIDER_MAPPINGS ! 5 = (''claude-3-opus'', ''anthropic'') \<and>
   get_provider_for_model ''Claude-3-Opus-20240229'' = ''anthropic''"
proof -
  have h1: "(5::nat) < length PROVIDER_MAPPINGS" by (simp add: PROVIDER_MAPPINGS_def)
  have h2: "PROVIDER_MAPPINGS ! 5 = (''claude-3-opus'', ''anthropic'')"
    by (simp add: PROVIDER_MAPPINGS_def)
  have h3: "py_contains ''claude-3-opus'' (py_lower ''Claude-3-Opus-20240229'')"
    by (simp add: py_simps)
  have h4: "\<forall>j < 5. \<not> py_contains (fst (PROVIDER_MAPPINGS ! j)) (py_lower ''Claude-3-Opus-20240229'')"
    by (simp add: PROVIDER_MAPPINGS_def py_simps numeral_eq_Suc All_less_Suc)
  show ?thesis using h2 get_provider_first_match [OF h1 h2 h3 h4] by blast
qed

text \<open>
  C10. A model name that contains no key of the table resolves to the default
  provider \<open>openai\<close>.
\<close>

theorem get_provider_default:
  assumes "\<forall>e \<in> set PROVIDER_MAPPINGS. \<not> py_contains (fst e) (py_lower model)"
  shows "get_provider_for_model model = ''openai''"
  using assms provider_loop_no_match unfolding get_provider_for_model_def by blast

theorem get_provider_default_witness:
  "get_provider_for_model ''llama-3-70b'' = ''openai''"
proof -
  have h: "\<forall>e \<in> set PROVIDER_MAPPINGS. \<not> py_contains (fst e) (py_lower ''llama-3-70b'')"
    by (simp add: PROVIDER_MAPPINGS_def py_simps)
  show ?thesis using get_provider_default [OF h] .
qed

text \<open>
  Resolution is case-insensitive: a name and its lower-cased form resolve to
  the same provider (so \<open>GPT-4\<close> and \<open>gpt-4\<close> agree).
\<close>

lemma get_provider_case_insensitive:
  "get_provider_for_model (py_lower model) = get_provider_for_model model"
  by (simp add: get_provider_for_model_def)

text \<open>
  The resolver is total and its result is always one of the six providers
  the table names (the default \<open>openai\<close> among them).
\<close>

lemma get_provider_range:
  "get_provider_for_model model \<in> {''openai'', ''anthropic'', ''google'', ''xai'', ''mistral'', ''cohere''}"
  using provider_loop_range [of PROVIDER_MAPPINGS "py_lower model"]
  by (simp add: get_provider_for_model_def PROVIDER_MAPPINGS_providers)

text \<open>
  The gateway headers carry \<open>Authorization: Bearer key\<close> exactly when the
  configured gateway key is non-empty; with no key no header is sent.
\<close>

lemma get_headers_bearer:
  "get_headers cfg None =
     (if OPENCLAW_GATEWAY_KEY cfg = [] then []
      else [(''Authorization'', ''Bearer '' @ OPENCLAW_GATEWAY_KEY cfg)])"
  by (simp add: get_headers_def py_or_def)

text \<open>
  C11. The five fixed-endpoint builders are the reference base followed by their
  path, and \<open>get_model_url\<close> returns that same base exactly when the integration
  is enabled or the model resolves to \<open>openai\<close>: with the integration disabled,
  a model of another provider gets its provider's base from \<open>get_model_url\<close> but
  OpenAI's endpoints from the fixed builders.
\<close>

theorem compat_urls_factor:
  "get_chat_completion_url cfg = endpoint_base cfg @ ''/chat/completions'' \<and>
   get_models_url cfg = endpoint_base cfg @ ''/models'' \<and>
   get_embeddings_url cfg = endpoint_base cfg @ ''/embeddings'' \<and>
   get_images_url cfg = endpoint_base cfg @ ''/images/generations'' \<and>
   get_audio_url cfg = endpoint_base cfg @ ''/audio'' \<and>
   (get_model_url cfg model = endpoint_base cfg \<longleftrightarrow>
      OPENCLAW_ENABLED cfg \<or> get_provider_for_model model = ''openai'')"
proof -
  have urls: "get_chat_completion_url cfg = endpoint_base cfg @ ''/chat/completions'' \<and>
     get_models_url cfg = endpoint_base cfg @ ''/models'' \<and>
     get_embeddings_url cfg = endpoint_base cfg @ ''/embeddings'' \<and>
     get_images_url cfg = endpoint_base cfg @ ''/images/generations'' \<and>
     get_audio_url cfg = endpoint_base cfg @ ''/audio''"
    by (simp add: endpoint_base_def get_chat_completion_url_def get_models_url_def get_embeddings_url_def
        get_images_url_def get_audio_url_def)
  have "get_model_url cfg model = endpoint_base cfg \<longleftrightarrow>
      OPENCLAW_ENABLED cfg \<or> get_provider_for_model model = ''openai''"
    using get_provider_range [of model]
    by (auto simp: get_model_url_def endpoint_base_def Let_def)
  with urls show ?thesis by blast
qed

section \<open>Findings on the compatibility module\<close>

text \<open>
  The fallback catalog lists \<open>openclaw:claude-opus\<close> as owned by \<open>anthropic\<close>, but
  the resolver maps its upstream name \<open>claude-opus\<close> to the default \<open>openai\<close>: no key
  of the table occurs in it.
\<close>

lemma claude_opus_resolves_to_openai: "get_provider_for_model ''claude-opus'' = ''openai''"
  by (simp add: get_provider_for_model_def PROVIDER_MAPPINGS_def py_simps)

text \<open>
  \<open>get_openai_compatible_headers\<close> sends the header \<open>Authorization: Bearer \<close> with an
  empty token when the gateway is enabled without a key.
\<close>

lemma openai_compatible_headers_empty_token:
  "get_openai_compatible_headers \<lparr>OPENCLAW_ENABLED = True, OPENCLAW_GATEWAY_URL = u,
      OPENCLAW_GATEWAY_KEY = ''''\<rparr> = [(''Authorization'', ''Bearer '')]"
  by (simp add: get_openai_compatible_headers_def)

text \<open>
  \<open>get_headers(api_key)\<close> prefers the gateway key over the key it is given even when
  the gateway is disabled, although its comment says the given key is used then.
\<close>

lemma get_headers_ignores_given_key_when_disabled:
  "get_headers \<lparr>OPENCLAW_ENABLED = False, OPENCLAW_GATEWAY_URL = u,
      OPENCLAW_GATEWAY_KEY = ''gw''\<rparr> (Some ''user'') = [(''Authorization'', ''Bearer gw'')]"
  by (simp add: get_headers_def)

end
