(* ===== verification/Client.thy ===== *)
theory Client
  imports Compat
begin

text \<open>
  The gateway client \<open>OpenClawClient\<close> of \<open>plugins/openclaw/__init__.py\<close> and the
  process-wide slot \<open>_claw_client\<close> that \<open>get_claw_client\<close> fills lazily.
  The network is an explicit oracle: given the requests sent so far and the next
  request, it answers with a response or raises.  Every request the process sends
  is appended to the log \<open>sent\<close> of the world, so that "a call is attempted" and
  "no call is made" are statements about that log.  The client's only mutable
  field is the advisory reachability flag \<open>_connected\<close>.
\<close>

section \<open>Requests, responses and the network\<close>

record http_request =
  rq_method :: string
  rq_url :: string
  rq_headers :: headers
  rq_json :: "json option"
  rq_timeout :: nat
  rq_stream :: bool

text \<open>
  A received response: its status, what \<open>response.json()\<close> returns or raises, its
  \<open>text\<close>, and the chunks \<open>iter_content(chunk_size=None)\<close> yields.
\<close>

record http_response =
  status_code :: nat
  body_json :: "py_exc + json"
  body_text :: string
  body_chunks :: "string list"

datatype http_outcome = Raised py_exc | Received http_response

type_synonym network = "http_request list \<Rightarrow> http_request \<Rightarrow> http_outcome"

section \<open>The client object\<close>

record OpenClawClient =
  gateway_url :: string
  api_key :: string
  connected :: bool

text \<open>\<open>OpenClawClient(gateway_url=None, api_key=None)\<close>: an empty or absent argument falls back to the configuration.\<close>

definition new_client :: "gateway_config \<Rightarrow> string option \<Rightarrow> string option \<Rightarrow> OpenClawClient" where
  "new_client cfg url key =
     \<lparr>gateway_url = py_or (case url of None \<Rightarrow> '''' | Some u \<Rightarrow> u) (OPENCLAW_GATEWAY_URL cfg),
      api_key = py_or (case key of None \<Rightarrow> '''' | Some k \<Rightarrow> k) (OPENCLAW_GATEWAY_KEY cfg),
      connected = False\<rparr>"

text \<open>The request \<open>_make_request\<close> builds: URL, bearer header for a non-empty key, the 5 s timeout.\<close>

definition client_request :: "OpenClawClient \<Rightarrow> string \<Rightarrow> string \<Rightarrow> json option \<Rightarrow> http_request" where
  "client_request c method endpoint body =
     \<lparr>rq_method = method, rq_url = gateway_url c @ endpoint,
      rq_headers = (if api_key c \<noteq> [] then [(''Authorization'', ''Bearer '' @ api_key c)] else []),
      rq_json = body, rq_timeout = 5, rq_stream = False\<rparr>"

text \<open>
  \<open>_make_request\<close>: a status of exactly 200 sets the flag and returns the parsed
  body; if parsing raises, the \<open>except\<close> clears the flag; a transport exception
  clears it; any other status leaves it as it was.  Every path but the first
  returns \<open>None\<close>.
\<close>

definition make_request ::
  "network \<Rightarrow> OpenClawClient \<Rightarrow> http_request list \<Rightarrow> string \<Rightarrow> string \<Rightarrow> json option \<Rightarrow>
   json \<times> OpenClawClient \<times> http_request list" where
  "make_request net c log method endpoint body =
     (let req = client_request c method endpoint body;
          log' = log @ [req]
      in case net log req of
           Raised e \<Rightarrow> (JNull, c\<lparr>connected := False\<rparr>, log')
         | Received r \<Rightarrow>
             (if status_code r = 200 then
                (case body_json r of
                   Inr j \<Rightarrow> (j, c\<lparr>connected := True\<rparr>, log')
                 | Inl e \<Rightarrow> (JNull, c\<lparr>connected := False\<rparr>, log'))
              else (JNull, c, log')))"

text \<open>\<open>result.get("data", []) if result else []\<close>, shared by the three listing methods.\<close>

definition data_or_empty :: "json \<Rightarrow> py_exc + json" where
  "data_or_empty result = (if py_truthy result then py_get result ''data'' (JList []) else Inr (JList []))"

definition get_models ::
  "network \<Rightarrow> OpenClawClient \<Rightarrow> http_request list \<Rightarrow> (py_exc + json) \<times> OpenClawClient \<times> http_request list" where
  "get_models net c log =
     (case make_request net c log ''GET'' ''/api/models'' None of
        (result, c', log') \<Rightarrow> (data_or_empty result, c', log'))"

definition get_auth_profiles ::
  "network \<Rightarrow> OpenClawClient \<Rightarrow> http_request list \<Rightarrow> json \<times> OpenClawClient \<times> http_request list" where
  "get_auth_profiles net c log =
     (case make_request net c log ''GET'' ''/api/auth/profiles'' None of
        (result, c', log') \<Rightarrow> (if py_truthy result then result else JObj [], c', log'))"

definition get_channels ::
  "network \<Rightarrow> OpenClawClient \<Rightarrow> http_request list \<Rightarrow> (py_exc + json) \<times> OpenClawClient \<times> http_request list" where
  "get_channels net c log =
     (case make_request net c log ''GET'' ''/api/channels'' None of
        (result, c', log') \<Rightarrow> (data_or_empty result, c', log'))"

definition get_skills ::
  "network \<Rightarrow> OpenClawClient \<Rightarrow> http_request list \<Rightarrow> (py_exc + json) \<times> OpenClawClient \<times> http_request list" where
  "get_skills net c log =
     (case make_request net c log ''GET'' ''/api/skills'' None of
        (result, c', log') \<Rightarrow> (data_or_empty result, c', log'))"

definition send_message ::
  "network \<Rightarrow> OpenClawClient \<Rightarrow> http_request list \<Rightarrow> string \<Rightarrow> string \<Rightarrow> (string \<times> json) list \<Rightarrow>
   json \<times> OpenClawClient \<times> http_request list" where
  "send_message net c log channel message kwargs =
     make_request net c log ''POST'' (''/api/channels/'' @ channel @ ''/send'')
       (Some (JObj (dict_update [(''message'', JStr message)] kwargs)))"

definition chat_completion ::
  "network \<Rightarrow> OpenClawClient \<Rightarrow> http_request list \<Rightarrow> string \<Rightarrow> json \<Rightarrow> (string \<times> json) list \<Rightarrow>
   json \<times> OpenClawClient \<times> http_request list" where
  "chat_completion net c log model messages kwargs =
     make_request net c log ''POST'' ''/v1/chat/completions''
       (Some (JObj (dict_update [(''model'', JStr model), (''messages'', messages)] kwargs)))"

text \<open>\<open>get_status\<close> reads the flag after its own request.\<close>

definition get_status ::
  "network \<Rightarrow> OpenClawClient \<Rightarrow> http_request list \<Rightarrow> json \<times> OpenClawClient \<times> http_request list" where
  "get_status net c log =
     (case make_request net c log ''GET'' ''/api/status'' None of
        (result, c', log') \<Rightarrow> (JObj [(''connected'', JBool (connected c')), (''status'', result)], c', log'))"

section \<open>The process-wide client\<close>

record world =
  claw_slot :: "OpenClawClient option"
  sent :: "http_request list"

definition get_claw_client :: "gateway_config \<Rightarrow> world \<Rightarrow> OpenClawClient \<times> world" where
  "get_claw_client cfg w =
     (case claw_slot w of
        None \<Rightarrow> (let c = new_client cfg None None in (c, w\<lparr>claw_slot := Some c\<rparr>))
      | Some c \<Rightarrow> (c, w))"

text \<open>
  A client method applied to the process-wide client: the object is fetched (and
  created on first use), the method runs, and the updated object and log are
  written back, as the in-place mutation of the global does.
\<close>

definition with_claw_client ::
  "gateway_config \<Rightarrow> (OpenClawClient \<Rightarrow> http_request list \<Rightarrow> 'a \<times> OpenClawClient \<times> http_request list) \<Rightarrow>
   world \<Rightarrow> 'a \<times> world" where
  "with_claw_client cfg f w =
     (case get_claw_client cfg w of
        (c, w1) \<Rightarrow> (case f c (sent w1) of
                      (r, c', log') \<Rightarrow> (r, w1\<lparr>claw_slot := Some c', sent := log'\<rparr>)))"

section \<open>Lemmas on the client\<close>

lemma client_request_connected [simp]:
  "client_request (c\<lparr>connected := x\<rparr>) m e b = client_request c m e b"
  by (simp add: client_request_def)

text \<open>\<open>_make_request\<close> in one equation: the value, the flag and the log, each by cases on the outcome.\<close>

lemma make_request_eq:
  "make_request net c log m e b =
     (let req = client_request c m e b in
      (case net log req of
         Raised _ \<Rightarrow> JNull
       | Received r \<Rightarrow> (if status_code r = 200 then (case body_json r of Inr j \<Rightarrow> j | Inl _ \<Rightarrow> JNull) else JNull),
       c\<lparr>connected := (case net log req of
                         Raised _ \<Rightarrow> False
                       | Received r \<Rightarrow> (if status_code r = 200 then \<not> isl (body_json r) else connected c))\<rparr>,
       log @ [req]))"
  by (auto simp: make_request_def Let_def split: http_outcome.split sum.split)

lemma make_request_log [simp]:
  "snd (snd (make_request net c log m e b)) = log @ [client_request c m e b]"
  by (simp add: make_request_eq Let_def)

lemma make_request_frame [simp]:
  "gateway_url (fst (snd (make_request net c log m e b))) = gateway_url c"
  "api_key (fst (snd (make_request net c log m e b))) = api_key c"
  by (simp_all add: make_request_eq Let_def)

lemma make_request_split:
  "make_request net c log m e b =
     (fst (make_request net c log m e b), fst (snd (make_request net c log m e b)), log @ [client_request c m e b])"
  by (metis make_request_log prod.collapse)

text \<open>Each method in terms of the request it makes.\<close>

lemma get_models_eq:
  "get_models net c log =
     (data_or_empty (fst (make_request net c log ''GET'' ''/api/models'' None)),
      fst (snd (make_request net c log ''GET'' ''/api/models'' None)),
      log @ [client_request c ''GET'' ''/api/models'' None])"
  by (simp add: get_models_def case_prod_beta prod_eq_iff)

lemma get_channels_eq:
  "get_channels net c log =
     (data_or_empty (fst (make_request net c log ''GET'' ''/api/channels'' None)),
      fst (snd (make_request net c log ''GET'' ''/api/channels'' None)),
      log @ [client_request c ''GET'' ''/api/channels'' None])"
  by (simp add: get_channels_def case_prod_beta prod_eq_iff)

lemma get_skills_eq:
  "get_skills net c log =
     (data_or_empty (fst (make_request net c log ''GET'' ''/api/skills'' None)),
      fst (snd (make_request net c log ''GET'' ''/api/skills'' None)),
      log @ [client_request c ''GET'' ''/api/skills'' None])"
  by (simp add: get_skills_def case_prod_beta prod_eq_iff)

lemma get_status_eq:
  "get_status net c log =
     (JObj [(''connected'', JBool (connected (fst (snd (make_request net c log ''GET'' ''/api/status'' None))))),
            (''status'', fst (make_request net c log ''GET'' ''/api/status'' None))],
      fst (snd (make_request net c log ''GET'' ''/api/status'' None)),
      log @ [client_request c ''GET'' ''/api/status'' None])"
  by (simp add: get_status_def case_prod_beta prod_eq_iff)

lemmas client_method_eqs = get_models_eq get_channels_eq get_skills_eq get_status_eq

text \<open>
  The reachability flag after a call, on every branch: a transport exception
  clears it; a status of exactly 200 sets it when the body parses and clears it when
  parsing raises; every other status leaves the previous value in place.
\<close>

lemma make_request_connected:
  "connected (fst (snd (make_request net c log m e b))) =
     (case net log (client_request c m e b) of
        Raised _ \<Rightarrow> False
      | Received r \<Rightarrow> (if status_code r = 200 then \<not> isl (body_json r) else connected c))"
  by (simp add: make_request_eq Let_def)

text \<open>
  C12. The flag is advisory: every call sends its request (the log grows by exactly
  that request), and neither the request nor the value returned depends on the
  flag's previous value.
\<close>

theorem make_request_flag_never_gates:
  "snd (snd (make_request net (c\<lparr>connected := x\<rparr>) log m e b)) = log @ [client_request c m e b] \<and>
   fst (make_request net (c\<lparr>connected := x\<rparr>) log m e b) = fst (make_request net c log m e b)"
  by (simp add: make_request_eq Let_def)

text \<open>
  C13. Listing degrades to empty: when the models request raises or is answered
  with a status other than 200, \<open>get_models\<close> returns the empty list instead of
  failing.
\<close>

theorem get_models_unreachable_empty:
  assumes "\<forall>r. net log (client_request c ''GET'' ''/api/models'' None) = Received r \<longrightarrow> status_code r \<noteq> 200"
  shows "fst (get_models net c log) = Inr (JList [])"
proof -
  have "fst (make_request net c log ''GET'' ''/api/models'' None) = JNull"
    using assms by (auto simp: make_request_eq Let_def split: http_outcome.split)
  then show ?thesis
    by (simp add: get_models_eq data_or_empty_def)
qed

theorem get_models_unreachable_empty_witness:
  "fst (get_models (\<lambda>_ _. Raised (RequestException ''timeout'')) (new_client (load_config Map.empty) None None) []) = Inr (JList [])"
proof -
  have h: "\<forall>r. (\<lambda>_ _. Raised (RequestException ''timeout'')) []
          (client_request (new_client (load_config Map.empty) None None) ''GET'' ''/api/models'' None) = Received r
        \<longrightarrow> status_code r \<noteq> 200" by simp
  show ?thesis using get_models_unreachable_empty [OF h] .
qed

text \<open>
  C14. The process-wide client is created once, from the configuration, and every
  call works on the stored object: a method run through the slot writes back the
  object it left (its flag included) together with the log, and the next
  \<open>get_claw_client\<close> returns exactly that object and changes nothing.
\<close>

theorem get_claw_client_singleton:
  assumes "get_claw_client cfg w = (c, w1)" and "f c (sent w1) = (r, c', l')"
  shows "c = (case claw_slot w of Some c0 \<Rightarrow> c0 | None \<Rightarrow> new_client cfg None None) \<and>
         with_claw_client cfg f w = (r, w\<lparr>claw_slot := Some c', sent := l'\<rparr>) \<and>
         get_claw_client cfg (w\<lparr>claw_slot := Some c', sent := l'\<rparr>) = (c', w\<lparr>claw_slot := Some c', sent := l'\<rparr>)"
  using assms by (auto simp: get_claw_client_def with_claw_client_def Let_def split: option.splits)

theorem get_claw_client_singleton_witness:
  "connected (fst (get_claw_client (load_config Map.empty)
      (snd (with_claw_client (load_config Map.empty) (get_status (\<lambda>_ _. Received \<lparr>status_code = 200, body_json = Inr (JObj [(''ok'', JBool True)]), body_text = [], body_chunks = []\<rparr>)) \<lparr>claw_slot = None, sent = []\<rparr>))))"
proof -
  let ?cfg = "load_config Map.empty" and ?w = "\<lparr>claw_slot = None, sent = []\<rparr>"
  obtain c w1 where g: "get_claw_client ?cfg ?w = (c, w1)" by fastforce
  obtain r c' l' where f: "get_status (\<lambda>_ _. Received \<lparr>status_code = 200, body_json = Inr (JObj [(''ok'', JBool True)]), body_text = [], body_chunks = []\<rparr>) c (sent w1) = (r, c', l')" by (cases "get_status (\<lambda>_ _. Received \<lparr>status_code = 200, body_json = Inr (JObj [(''ok'', JBool True)]), body_text = [], body_chunks = []\<rparr>) c (sent w1)") auto
  have "connected c'" using f by (auto simp: get_status_eq make_request_eq Let_def)
  with get_claw_client_singleton [where f = "get_status (\<lambda>_ _. Received \<lparr>status_code = 200, body_json = Inr (JObj [(''ok'', JBool True)]), body_text = [], body_chunks = []\<rparr>)", OF g f] show ?thesis by simp
qed

section \<open>Findings on the client\<close>

text \<open>
  A gateway that answers \<open>/api/models\<close> with a truthy JSON value that is not an
  object (here a non-empty list) makes \<open>get_models\<close> raise \<open>AttributeError\<close>
  from \<open>result.get\<close>: the listing does not degrade to empty.
\<close>

lemma get_models_list_body_raises:
  "fst (get_models (\<lambda>_ _. Received \<lparr>status_code = 200, body_json = Inr (JList [JStr ''m'']),
          body_text = t, body_chunks = ch\<rparr>) c log) = Inl AttributeError"
  by (simp add: get_models_def make_request_eq data_or_empty_def Let_def)

text \<open>
  A status of 500 from the gateway leaves a previously set flag \<open>True\<close>: only an
  exception or a 200 changes it.
\<close>

lemma make_request_500_keeps_flag:
  "connected (fst (snd (make_request (\<lambda>_ _. Received \<lparr>status_code = 500, body_json = j,
          body_text = t, body_chunks = ch\<rparr>) (c\<lparr>connected := True\<rparr>) log m e b)))"
  by (simp add: make_request_eq Let_def)

end
