(* ===== verification/Proxy.thy ===== *)
theory Proxy
  imports Client
begin

text \<open>
  The completion proxy of \<open>plugins/openclaw/routers/models.py\<close>: the handlers
  \<open>chat_completions\<close> (buffered and streaming) and \<open>embeddings\<close>.  A handler
  takes the configuration, the world and the parsed request body, and returns
  the reply or the exception it ends with, and the world with the upstream request
  appended to the log.  The upstream call is \<open>requests.post\<close> made directly by
  the handler: it does not go through the gateway client and never touches its
  reachability flag.  An \<open>HTTPException\<close> becomes a response with its status;
  any other exception that escapes a handler becomes FastAPI's 500.
\<close>

datatype reply = JsonReply json | StreamReply "string list"

text \<open>The status FastAPI answers with for a handler's outcome.\<close>

fun response_status :: "py_exc + reply \<Rightarrow> nat" where
  "response_status (Inr _) = 200"
| "response_status (Inl (HTTPException s _)) = s"
| "response_status (Inl _) = 500"

section \<open>Chat completions\<close>

definition OPTIONAL_PARAMS :: "string list" where
  "OPTIONAL_PARAMS = [''temperature'', ''max_tokens'', ''top_p'', ''frequency_penalty'',
                      ''presence_penalty'', ''stop'']"

text \<open>\<open>if model.startswith("openclaw:"): model = model[9:]\<close>\<close>

definition strip_openclaw_prefix :: "string \<Rightarrow> string" where
  "strip_openclaw_prefix model = (if py_startswith model ''openclaw:'' then drop 9 model else model)"

text \<open>The loop \<open>for param in [...]: if param in body: payload[param] = body[param]\<close>.\<close>

fun add_optional_params ::
  "string list \<Rightarrow> (string \<times> json) list \<Rightarrow> (string \<times> json) list \<Rightarrow> (string \<times> json) list" where
  "add_optional_params [] body payload = payload"
| "add_optional_params (param # params) body payload =
     add_optional_params params body
       (if dict_has body param then dict_set payload param (dict_get body param JNull) else payload)"

definition chat_payload :: "string \<Rightarrow> (string \<times> json) list \<Rightarrow> (string \<times> json) list" where
  "chat_payload model body =
     add_optional_params OPTIONAL_PARAMS body
       [(''model'', JStr model), (''messages'', dict_get body ''messages'' (JList [])),
        (''stream'', dict_get body ''stream'' (JBool False))]"

text \<open>\<open>headers = get_headers(); headers["Content-Type"] = "application/json"\<close>\<close>

definition json_headers :: "gateway_config \<Rightarrow> headers" where
  "json_headers cfg = dict_set (get_headers cfg None) ''Content-Type'' ''application/json''"

text \<open>The \<open>requests.post\<close> of the handler: 120 s, streamed when \<open>stream\<close> is truthy.\<close>

definition chat_request :: "gateway_config \<Rightarrow> string \<Rightarrow> (string \<times> json) list \<Rightarrow> http_request" where
  "chat_request cfg model body =
     \<lparr>rq_method = ''POST'', rq_url = get_chat_completion_url cfg, rq_headers = json_headers cfg,
      rq_json = Some (JObj (chat_payload model body)), rq_timeout = 120,
      rq_stream = py_truthy (dict_get body ''stream'' (JBool False))\<rparr>"

text \<open>The generator \<open>generate()\<close>: every non-empty chunk, in the order received.\<close>

definition relay_chunks :: "string list \<Rightarrow> string list" where
  "relay_chunks chunks = filter (\<lambda>chunk. chunk \<noteq> []) chunks"

text \<open>
  What the \<open>try\<close> block makes of the upstream outcome.  The \<open>HTTPException\<close>
  raised for a status other than 200 is inside the \<open>try\<close>, so the \<open>except
  Exception\<close> clause catches it and raises a 500 carrying its text.
\<close>

definition chat_outcome :: "bool \<Rightarrow> http_outcome \<Rightarrow> py_exc + reply" where
  "chat_outcome stream out =
     (case out of
        Raised e \<Rightarrow> Inl (HTTPException 500 (py_str_exc e))
      | Received r \<Rightarrow>
          (if stream then Inr (StreamReply (relay_chunks (body_chunks r)))
           else if status_code r \<noteq> 200 then
             Inl (HTTPException 500 (py_str_exc (HTTPException (status_code r) (body_text r))))
           else (case body_json r of
                   Inl e \<Rightarrow> Inl (HTTPException 500 (py_str_exc e))
                 | Inr j \<Rightarrow> Inr (JsonReply j))))"

definition chat_completions ::
  "network \<Rightarrow> gateway_config \<Rightarrow> world \<Rightarrow> json \<Rightarrow> (py_exc + reply) \<times> world" where
  "chat_completions net cfg w body =
     (if \<not> is_openclaw_enabled cfg then
        (Inl (HTTPException 503 ''OpenClaw integration is not enabled''), w)
      else case body of
        JObj d \<Rightarrow>
          (case dict_get d ''model'' (JStr ''openclaw:gpt-5.2'') of
             JStr m \<Rightarrow>
               (let req = chat_request cfg (strip_openclaw_prefix m) d
                in (chat_outcome (rq_stream req) (net (sent w) req), w\<lparr>sent := sent w @ [req]\<rparr>))
           | _ \<Rightarrow> (Inl AttributeError, w))
      | _ \<Rightarrow> (Inl AttributeError, w))"

section \<open>Embeddings\<close>

definition embeddings_request :: "gateway_config \<Rightarrow> (string \<times> json) list \<Rightarrow> http_request" where
  "embeddings_request cfg body =
     \<lparr>rq_method = ''POST'', rq_url = get_embeddings_url cfg, rq_headers = json_headers cfg,
      rq_json = Some (JObj [(''model'', dict_get body ''model'' (JStr ''text-embedding-ada-002'')),
                            (''input'', dict_get body ''input'' (JStr ''''))]),
      rq_timeout = 60, rq_stream = False\<rparr>"

text \<open>\<open>return response.json()\<close> whatever the status; only raising is an error.\<close>

definition embeddings_outcome :: "http_outcome \<Rightarrow> py_exc + reply" where
  "embeddings_outcome out =
     (case out of
        Raised e \<Rightarrow> Inl (HTTPException 500 (py_str_exc e))
      | Received r \<Rightarrow>
          (case body_json r of
             Inl e \<Rightarrow> Inl (HTTPException 500 (py_str_exc e))
           | Inr j \<Rightarrow> Inr (JsonReply j)))"

definition embeddings ::
  "network \<Rightarrow> gateway_config \<Rightarrow> world \<Rightarrow> json \<Rightarrow> (py_exc + reply) \<times> world" where
  "embeddings net cfg w body =
     (if \<not> is_openclaw_enabled cfg then
        (Inl (HTTPException 503 ''OpenClaw integration is not enabled''), w)
      else case body of
        JObj d \<Rightarrow>
          (let req = embeddings_request cfg d
           in (embeddings_outcome (net (sent w) req), w\<lparr>sent := sent w @ [req]\<rparr>))
      | _ \<Rightarrow> (Inl AttributeError, w))"

section \<open>Lemmas on the proxy\<close>

lemma add_optional_params_keys:
  "distinct ps \<Longrightarrow> set ps \<inter> set (map fst p) = {} \<Longrightarrow>
   map fst (add_optional_params ps d p) = map fst p @ filter (dict_has d) ps"
proof (induction ps arbitrary: p)
  case Nil
  then show ?case by simp
next
  case (Cons q ps)
  let ?p' = "if dict_has d q then dict_set p q (dict_get d q JNull) else p"
  have keys: "map fst ?p' = map fst p @ (if dict_has d q then [q] else [])"
    using Cons.prems by (auto simp: keys_dict_set)
  with Cons.prems have "set ps \<inter> set (map fst ?p') = {}" by auto
  with Cons.prems Cons.IH [of ?p'] keys show ?case by simp
qed

lemma add_optional_params_get:
  "dict_get (add_optional_params ps d p) k dflt =
     (if k \<in> set ps \<and> dict_has d k then dict_get d k JNull else dict_get p k dflt)"
proof (induction ps arbitrary: p)
  case Nil
  then show ?case by simp
next
  case (Cons q ps)
  show ?case
  proof (cases "dict_has d q \<and> q \<noteq> k")
    case True
    then show ?thesis using Cons.IH by (simp add: dict_get_set_other)
  next
    case False
    then show ?thesis using Cons.IH by auto
  qed
qed

lemma strip_openclaw_prefix_append [simp]:
  "strip_openclaw_prefix (''openclaw:'' @ x) = x"
  by (simp add: strip_openclaw_prefix_def)

lemma strip_openclaw_prefix_other:
  "\<not> prefix ''openclaw:'' m \<Longrightarrow> strip_openclaw_prefix m = m"
  by (simp add: strip_openclaw_prefix_def)

lemma chat_completions_enabled:
  "OPENCLAW_ENABLED cfg \<Longrightarrow> dict_get d ''model'' (JStr ''openclaw:gpt-5.2'') = JStr m \<Longrightarrow>
   chat_completions net cfg w (JObj d) =
     (chat_outcome (rq_stream (chat_request cfg (strip_openclaw_prefix m) d))
        (net (sent w) (chat_request cfg (strip_openclaw_prefix m) d)),
      w\<lparr>sent := sent w @ [chat_request cfg (strip_openclaw_prefix m) d]\<rparr>)"
  by (simp add: chat_completions_def Let_def)

lemma chat_payload_model:
  "dict_get (chat_payload model d) ''model'' dflt = JStr model"
  by (simp add: chat_payload_def add_optional_params_get OPTIONAL_PARAMS_def)

lemma rq_stream_chat_request [simp]:
  "rq_stream (chat_request cfg m d) = py_truthy (dict_get d ''stream'' (JBool False))"
  by (simp add: chat_request_def)

lemma relay_chunks_concat [simp]: "concat (relay_chunks cs) = concat cs"
  by (induction cs) (auto simp: relay_chunks_def)

lemma relay_chunks_nonempty_id: "[] \<notin> set cs \<Longrightarrow> relay_chunks cs = cs"
  by (induction cs) (auto simp: relay_chunks_def)

text \<open>
  C1. A buffered chat completion that the gateway answers with status 200 and a
  JSON body returns exactly that body, after sending exactly one upstream request.
\<close>

theorem chat_completions_buffered_ok:
  assumes "OPENCLAW_ENABLED cfg"
    and "dict_get d ''model'' (JStr ''openclaw:gpt-5.2'') = JStr m"
    and "\<not> py_truthy (dict_get d ''stream'' (JBool False))"
    and "net (sent w) (chat_request cfg (strip_openclaw_prefix m) d) = Received r"
    and "status_code r = 200" and "body_json r = Inr j"
  shows "chat_completions net cfg w (JObj d) =
           (Inr (JsonReply j), w\<lparr>sent := sent w @ [chat_request cfg (strip_openclaw_prefix m) d]\<rparr>)"
  using assms by (simp add: chat_completions_enabled chat_outcome_def)

theorem chat_completions_buffered_ok_witness:
  "chat_completions
     (\<lambda>_ _. Received \<lparr>status_code = 200,
        body_json = Inr (JObj [(''choices'', JList [JObj [(''message'',
                      JObj [(''role'', JStr ''assistant''), (''content'', JStr ''hello'')])]])]),
        body_text = '''', body_chunks = []\<rparr>)
     (load_config Map.empty) \<lparr>claw_slot = None, sent = []\<rparr>
     (JObj [(''model'', JStr ''gpt-4''),
            (''messages'', JList [JObj [(''role'', JStr ''user''), (''content'', JStr ''hi'')]]),
            (''stream'', JBool False)]) =
   (Inr (JsonReply (JObj [(''choices'', JList [JObj [(''message'',
                      JObj [(''role'', JStr ''assistant''), (''content'', JStr ''hello'')])]])])),
    \<lparr>claw_slot = None, sent = [chat_request (load_config Map.empty) ''gpt-4''
        [(''model'', JStr ''gpt-4''),
         (''messages'', JList [JObj [(''role'', JStr ''user''), (''content'', JStr ''hi'')]]),
         (''stream'', JBool False)]]\<rparr>)"
proof -
  have "strip_openclaw_prefix ''gpt-4'' = ''gpt-4''" by (simp add: strip_openclaw_prefix_def)
  moreover have "OPENCLAW_ENABLED (load_config Map.empty)" by (simp add: load_config_defaults)
  ultimately show ?thesis
    using chat_completions_buffered_ok
      [of "load_config Map.empty" "[(''model'', JStr ''gpt-4''),
         (''messages'', JList [JObj [(''role'', JStr ''user''), (''content'', JStr ''hi'')]]),
         (''stream'', JBool False)]" "''gpt-4''"]
    by simp
qed

text \<open>
  C2. When the gateway answers a buffered chat completion with a status other than
  200, the caller gets status 500 carrying the text \<open>"status: body"\<close>, not the
  gateway's status: the \<open>HTTPException\<close> is caught by the handler's own
  \<open>except Exception\<close>.
\<close>

theorem chat_completions_upstream_error_500:
  assumes "OPENCLAW_ENABLED cfg"
    and "dict_get d ''model'' (JStr ''openclaw:gpt-5.2'') = JStr m"
    and "\<not> py_truthy (dict_get d ''stream'' (JBool False))"
    and "net (sent w) (chat_request cfg (strip_openclaw_prefix m) d) = Received r"
    and "status_code r \<noteq> 200"
  shows "fst (chat_completions net cfg w (JObj d)) =
           Inl (HTTPException 500 (py_str_nat (status_code r) @ '': '' @ body_text r)) \<and>
         response_status (fst (chat_completions net cfg w (JObj d))) = 500"
  using assms by (simp add: chat_completions_enabled chat_outcome_def)

theorem chat_completions_upstream_error_500_witness:
  "fst (chat_completions
     (\<lambda>_ _. Received \<lparr>status_code = 404, body_json = Inl (JSONDecodeError ''Expecting value''),
        body_text = ''no such model'', body_chunks = []\<rparr>)
     (load_config Map.empty) \<lparr>claw_slot = None, sent = []\<rparr>
     (JObj [(''model'', JStr ''openclaw:missing'')])) =
     Inl (HTTPException 500 ''404: no such model'')"
proof -
  have "OPENCLAW_ENABLED (load_config Map.empty)" by (simp add: load_config_defaults)
  then show ?thesis
    using chat_completions_upstream_error_500
      [of "load_config Map.empty" "[(''model'', JStr ''openclaw:missing'')]" "''openclaw:missing''"]
    by (simp add: py_simps)
qed

text \<open>
  C3. With the integration disabled, both proxy handlers answer 503 before reading
  the body and send nothing upstream: the world is unchanged.
\<close>

theorem proxy_disabled_503:
  assumes "\<not> OPENCLAW_ENABLED cfg"
  shows "chat_completions net cfg w body =
           (Inl (HTTPException 503 ''OpenClaw integration is not enabled''), w) \<and>
         embeddings net cfg w body =
           (Inl (HTTPException 503 ''OpenClaw integration is not enabled''), w)"
  using assms by (simp add: chat_completions_def embeddings_def)

theorem proxy_disabled_503_witness:
  "chat_completions (\<lambda>_ _. Raised (RequestException ''down''))
     (load_config [''OPENCLAW_ENABLED'' \<mapsto> ''false'']) \<lparr>claw_slot = None, sent = []\<rparr> (JObj []) =
     (Inl (HTTPException 503 ''OpenClaw integration is not enabled''), \<lparr>claw_slot = None, sent = []\<rparr>)"
proof -
  have "\<not> OPENCLAW_ENABLED (load_config [''OPENCLAW_ENABLED'' \<mapsto> ''false''])"
    by (simp add: load_config_def environ_get_def py_simps)
  from proxy_disabled_503 [OF this] show ?thesis by blast
qed

text \<open>
  C4. The upstream payload carries \<open>model\<close>, \<open>messages\<close> and \<open>stream\<close>, then
  exactly the allow-listed optional parameters present in the request, in the
  allow-list's order, each with the request's value; no other field is forwarded.
\<close>

theorem chat_payload_allow_list:
  "map fst (chat_payload model d) = [''model'', ''messages'', ''stream''] @ filter (dict_has d) OPTIONAL_PARAMS \<and>
   (\<forall>k \<in> set OPTIONAL_PARAMS. dict_has d k \<longrightarrow> dict_get (chat_payload model d) k JNull = dict_get d k JNull) \<and>
   dict_get (chat_payload model d) ''model'' JNull = JStr model"
proof -
  have "distinct OPTIONAL_PARAMS" and
    "set OPTIONAL_PARAMS \<inter> set [''model'', ''messages'', ''stream''] = {}"
    by (simp_all add: OPTIONAL_PARAMS_def)
  then show ?thesis
    by (simp add: chat_payload_def add_optional_params_keys add_optional_params_get)
qed

theorem chat_payload_allow_list_witness:
  "map fst (chat_payload ''gpt-4'' [(''model'', JStr ''gpt-4''), (''temperature'', JInt 1), (''user'', JStr ''u'')]) =
     [''model'', ''messages'', ''stream'', ''temperature''] \<and>
   dict_get (chat_payload ''gpt-4'' [(''model'', JStr ''gpt-4''), (''temperature'', JInt 1), (''user'', JStr ''u'')]) ''temperature'' JNull = JInt 1"
  using chat_payload_allow_list [of "''gpt-4''" "[(''model'', JStr ''gpt-4''), (''temperature'', JInt 1), (''user'', JStr ''u'')]"]
  by (simp add: OPTIONAL_PARAMS_def)

text \<open>
  C5. A streamed chat completion relays the upstream chunks in order and unaltered:
  the bytes of the reply are the bytes received, and with no empty chunk the chunk
  sequence itself is the upstream's; the upstream status is not inspected.
\<close>

theorem chat_completions_stream_relay:
  assumes "OPENCLAW_ENABLED cfg"
    and "dict_get d ''model'' (JStr ''openclaw:gpt-5.2'') = JStr m"
    and "py_truthy (dict_get d ''stream'' (JBool False))"
    and "net (sent w) (chat_request cfg (strip_openclaw_prefix m) d) = Received r"
  shows "\<exists>cs. fst (chat_completions net cfg w (JObj d)) = Inr (StreamReply cs) \<and>
              concat cs = concat (body_chunks r) \<and>
              ([] \<notin> set (body_chunks r) \<longrightarrow> cs = body_chunks r)"
  using assms by (simp add: chat_completions_enabled chat_outcome_def relay_chunks_nonempty_id)

theorem chat_completions_stream_relay_witness:
  "fst (chat_completions
     (\<lambda>_ _. Received \<lparr>status_code = 200, body_json = Inl (JSONDecodeError ''stream''),
        body_text = [], body_chunks = [''b1'', ''b2'', ''b3'']\<rparr>)
     (load_config Map.empty) \<lparr>claw_slot = None, sent = []\<rparr>
     (JObj [(''model'', JStr ''gpt-4''), (''stream'', JBool True)])) =
     Inr (StreamReply [''b1'', ''b2'', ''b3''])"
proof -
  have "OPENCLAW_ENABLED (load_config Map.empty)" by (simp add: load_config_defaults)
  then show ?thesis
    using chat_completions_stream_relay
      [where cfg = "load_config Map.empty" and d = "[(''model'', JStr ''gpt-4''), (''stream'', JBool True)]"
         and m = "''gpt-4''" and w = "\<lparr>claw_slot = None, sent = []\<rparr>"
         and net = "\<lambda>_ _. Received \<lparr>status_code = 200, body_json = Inl (JSONDecodeError ''stream''),
                      body_text = [], body_chunks = [''b1'', ''b2'', ''b3'']\<rparr>"
         and r = "\<lparr>status_code = 200, body_json = Inl (JSONDecodeError ''stream''),
                      body_text = [], body_chunks = [''b1'', ''b2'', ''b3'']\<rparr>"]
    by auto
qed

text \<open>
  C6. The embeddings proxy returns the gateway's parsed body as a success whatever
  the gateway's status; only a transport or decoding exception becomes a 500.
\<close>

theorem embeddings_ignores_upstream_status:
  assumes "OPENCLAW_ENABLED cfg"
    and "net (sent w) (embeddings_request cfg d) = Received r" and "body_json r = Inr j"
  shows "embeddings net cfg w (JObj d) =
           (Inr (JsonReply j), w\<lparr>sent := sent w @ [embeddings_request cfg d]\<rparr>)"
  using assms by (simp add: embeddings_def embeddings_outcome_def Let_def)

theorem embeddings_ignores_upstream_status_witness:
  "fst (embeddings
     (\<lambda>_ _. Received \<lparr>status_code = 429, body_json = Inr (JObj [(''error'', JStr ''rate limited'')]),
        body_text = '''', body_chunks = []\<rparr>)
     (load_config Map.empty) \<lparr>claw_slot = None, sent = []\<rparr> (JObj [(''input'', JStr ''x'')])) =
     Inr (JsonReply (JObj [(''error'', JStr ''rate limited'')]))"
proof -
  have "OPENCLAW_ENABLED (load_config Map.empty)" by (simp add: load_config_defaults)
  then show ?thesis
    using embeddings_ignores_upstream_status [of "load_config Map.empty"] by simp
qed

end
