(* ===== verification/Catalog.thy ===== *)
theory Catalog
  imports Client
begin

text \<open>
  The model catalog of \<open>plugins/openclaw/routers/models.py\<close>: the pydantic model
  \<open>OpenAIModel\<close>, the listing handler \<open>list_openclaw_models\<close> (live models from
  the gateway client, the fallback list when there are none, then the entries that
  are always appended) and the lookup handler \<open>get_openclaw_model\<close> (first live
  entry whose id or name matches, otherwise a synthesized entry).  Both go through
  the process-wide client, so they send one \<open>GET /api/models\<close> and update its
  reachability flag; neither looks at the enabled flag.
\<close>

record OpenAIModel =
  om_id :: string
  om_object :: string
  om_created :: int
  om_owned_by :: string
  om_permission :: "json list"
  om_root :: string
  om_parent :: "string option"

text \<open>\<open>OpenAIModel(id=..., root=..., owned_by=...)\<close> with the class defaults.\<close>

definition mk_model :: "string \<Rightarrow> string \<Rightarrow> string \<Rightarrow> OpenAIModel" where
  "mk_model i r owner =
     \<lparr>om_id = i, om_object = ''model'', om_created = 1700000000, om_owned_by = owner,
      om_permission = [], om_root = r, om_parent = None\<rparr>"

text \<open>The same constructor on values taken from JSON: pydantic rejects a non-string.\<close>

definition openai_model :: "json \<Rightarrow> json \<Rightarrow> json \<Rightarrow> py_exc + OpenAIModel" where
  "openai_model i r owner =
     (case (as_str i, as_str r, as_str owner) of
        (Inr i', Inr r', Inr o') \<Rightarrow> Inr (mk_model i' r' o')
      | _ \<Rightarrow> Inl ValidationError)"

text \<open>The body of the conversion loop: \<open>m.get\<close> raises unless \<open>m\<close> is a dict.\<close>

definition convert_claw_model :: "json \<Rightarrow> py_exc + OpenAIModel" where
  "convert_claw_model m =
     (case m of
        JObj d \<Rightarrow> openai_model (dict_get d ''id'' (dict_get d ''name'' (JStr ''unknown'')))
                    (dict_get d ''id'' (JStr '''')) (dict_get d ''provider'' (JStr ''openclaw''))
      | _ \<Rightarrow> Inl AttributeError)"

definition FALLBACK_MODELS :: "OpenAIModel list" where
  "FALLBACK_MODELS =
     [mk_model ''openclaw:gpt-5.2'' ''gpt-5.2'' ''openai'',
      mk_model ''openclaw:claude-opus'' ''claude-opus'' ''anthropic'',
      mk_model ''openclaw:gemini-pro'' ''gemini-pro'' ''google'']"

definition APPENDED_MODELS :: "OpenAIModel list" where
  "APPENDED_MODELS =
     [mk_model ''openclaw-agent'' ''openclaw-agent'' ''openclaw'',
      mk_model ''minimax-portal/MiniMax-M2.5'' ''minimax-portal/MiniMax-M2.5'' ''minimax'',
      mk_model ''MiniMax-M2.1'' ''MiniMax-M2.1'' ''minimax'',
      mk_model ''lmstudio/qwen3-coder-next'' ''qwen3-coder-next'' ''lmstudio'',
      mk_model ''lmstudio/qwen3-vl-30b-a3b-thinking'' ''qwen3-vl-30b-a3b-thinking'' ''lmstudio'',
      mk_model ''lmstudio/jan-v3-4b-base-instruct'' ''jan-v3-4b-base-instruct'' ''lmstudio'',
      mk_model ''lmstudio/lfm2.5-vl-1.6b'' ''lfm2.5-vl-1.6b'' ''lmstudio'']"

record model_list =
  ml_object :: string
  ml_data :: "OpenAIModel list"

definition catalog_of :: "OpenAIModel list \<Rightarrow> model_list" where
  "catalog_of models =
     \<lparr>ml_object = ''list'', ml_data = (if models = [] then FALLBACK_MODELS else models) @ APPENDED_MODELS\<rparr>"

definition list_openclaw_models ::
  "network \<Rightarrow> gateway_config \<Rightarrow> world \<Rightarrow> (py_exc + model_list) \<times> world" where
  "list_openclaw_models net cfg w =
     py_bind (with_claw_client cfg (get_models net) w)
       (\<lambda>claw_models w1.
          (case py_iter claw_models of
             Inl e \<Rightarrow> (Inl e, w1)
           | Inr ms \<Rightarrow>
               (case py_map convert_claw_model ms of
                  Inl e \<Rightarrow> (Inl e, w1)
                | Inr models \<Rightarrow> (Inr (catalog_of models), w1))))"

text \<open>The lookup loop: \<open>m.get("id") == model_id or m.get("name") == model_id\<close>.\<close>

fun find_claw_model :: "string \<Rightarrow> json list \<Rightarrow> py_exc + OpenAIModel option" where
  "find_claw_model model_id [] = Inr None"
| "find_claw_model model_id (m # ms) =
     (case m of
        JObj d \<Rightarrow>
          (if dict_get d ''id'' JNull = JStr model_id \<or> dict_get d ''name'' JNull = JStr model_id then
             (case openai_model (dict_get d ''id'' (JStr model_id)) (dict_get d ''id'' (JStr ''''))
                     (dict_get d ''provider'' (JStr ''openclaw'')) of
                Inl e \<Rightarrow> Inl e
              | Inr om \<Rightarrow> Inr (Some om))
           else find_claw_model model_id ms)
      | _ \<Rightarrow> Inl AttributeError)"

definition get_openclaw_model ::
  "network \<Rightarrow> gateway_config \<Rightarrow> world \<Rightarrow> string \<Rightarrow> (py_exc + OpenAIModel) \<times> world" where
  "get_openclaw_model net cfg w model_id =
     py_bind (with_claw_client cfg (get_models net) w)
       (\<lambda>claw_models w1.
          (case py_iter claw_models of
             Inl e \<Rightarrow> (Inl e, w1)
           | Inr ms \<Rightarrow>
               (case find_claw_model model_id ms of
                  Inl e \<Rightarrow> (Inl e, w1)
                | Inr (Some om) \<Rightarrow> (Inr om, w1)
                | Inr None \<Rightarrow> (Inr (mk_model model_id model_id ''openclaw''), w1))))"

section \<open>Lemmas on the catalog\<close>

lemma list_openclaw_models_Inr:
  "list_openclaw_models net cfg w = (Inr ml, w') \<Longrightarrow> \<exists>models. ml = catalog_of models"
  by (auto simp: list_openclaw_models_def py_bind_def split: prod.splits sum.splits)

lemma list_openclaw_models_appended:
  "list_openclaw_models net cfg w = (Inr ml, w') \<Longrightarrow> set APPENDED_MODELS \<subseteq> set (ml_data ml)"
  by (auto dest!: list_openclaw_models_Inr simp: catalog_of_def)

lemma mk_model_fields [simp]:
  "om_id (mk_model i r owner) = i" "om_root (mk_model i r owner) = r"
  "om_owned_by (mk_model i r owner) = owner" "om_object (mk_model i r owner) = ''model''"
  "om_created (mk_model i r owner) = 1700000000" "om_permission (mk_model i r owner) = []"
  "om_parent (mk_model i r owner) = None"
  by (simp_all add: mk_model_def)

lemma openai_model_Inr:
  "openai_model i r owner = Inr m \<Longrightarrow> \<exists>i' r' o'. m = mk_model i' r' o'"
  by (auto simp: openai_model_def split: sum.splits json.splits)

lemma convert_claw_model_Inr:
  "convert_claw_model j = Inr m \<Longrightarrow> \<exists>i r owner. m = mk_model i r owner"
  by (auto simp: convert_claw_model_def dest: openai_model_Inr split: json.splits)

lemma with_claw_client_get_models_failed:
  assumes "\<forall>h q. case net h q of Raised _ \<Rightarrow> True | Received r \<Rightarrow> status_code r \<noteq> 200"
  shows "fst (with_claw_client cfg (get_models net) w) = Inr (JList [])"
proof -
  have "\<forall>c l. fst (get_models net c l) = Inr (JList [])"
    using assms by (auto intro!: get_models_unreachable_empty split: http_outcome.splits)
  then show ?thesis
    by (simp add: with_claw_client_def case_prod_beta)
qed

lemma list_models_unreachable_eq:
  assumes "\<forall>h q. case net h q of Raised _ \<Rightarrow> True | Received r \<Rightarrow> status_code r \<noteq> 200"
  shows "\<exists>w'. list_openclaw_models net cfg w = (Inr (catalog_of []), w')"
  using with_claw_client_get_models_failed [OF assms, of cfg w]
  by (auto simp: list_openclaw_models_def py_bind_def split: prod.splits)

text \<open>
  C17. A successful listing always ends with the seven appended entries and is
  never shorter than eight: it is never empty, whether or not the gateway answered.
\<close>

theorem list_models_nonempty:
  assumes "list_openclaw_models net cfg w = (Inr ml, w')"
  shows "suffix APPENDED_MODELS (ml_data ml) \<and> 8 \<le> length (ml_data ml)"
proof -
  from list_openclaw_models_Inr [OF assms] obtain models where ml: "ml = catalog_of models" ..
  have "length FALLBACK_MODELS = 3" and "length APPENDED_MODELS = 7"
    by (simp_all add: FALLBACK_MODELS_def APPENDED_MODELS_def)
  then show ?thesis using ml by (auto simp: catalog_of_def Suc_le_eq suffix_def)
qed

theorem list_models_nonempty_witness:
  "ml_data (projr (fst (list_openclaw_models (\<lambda>_ _. Raised (RequestException ''down''))
      (load_config Map.empty) \<lparr>claw_slot = None, sent = []\<rparr>))) \<noteq> []"
proof -
  obtain w' where eq: "list_openclaw_models (\<lambda>_ _. Raised (RequestException ''down''))
      (load_config Map.empty) \<lparr>claw_slot = None, sent = []\<rparr> = (Inr (catalog_of []), w')"
    using list_models_unreachable_eq by fastforce
  from list_models_nonempty [OF eq] have "ml_data (catalog_of []) \<noteq> []" by auto
  with eq show ?thesis by simp
qed

text \<open>
  C18. When the gateway cannot be reached (every request raises or is answered with
  a status other than 200), the listing is exactly the fallback list followed by
  the appended entries, and it does not fail.
\<close>

theorem list_models_unreachable_fallback:
  assumes "\<forall>h q. case net h q of Raised _ \<Rightarrow> True | Received r \<Rightarrow> status_code r \<noteq> 200"
  shows "fst (list_openclaw_models net cfg w) =
           Inr \<lparr>ml_object = ''list'', ml_data = FALLBACK_MODELS @ APPENDED_MODELS\<rparr>"
  using list_models_unreachable_eq [OF assms, of cfg w] by (auto simp: catalog_of_def)

theorem list_models_unreachable_fallback_witness:
  "fst (list_openclaw_models (\<lambda>_ _. Received \<lparr>status_code = 502, body_json = Inr JNull,
        body_text = ''bad gateway'', body_chunks = []\<rparr>) (load_config Map.empty) \<lparr>claw_slot = None, sent = []\<rparr>) =
     Inr \<lparr>ml_object = ''list'', ml_data = FALLBACK_MODELS @ APPENDED_MODELS\<rparr>"
  by (rule list_models_unreachable_fallback) simp

lemma with_claw_client_fst:
  "fst (with_claw_client cfg f w) = fst (f (fst (get_claw_client cfg w)) (sent w))"
  by (auto simp: with_claw_client_def get_claw_client_def Let_def case_prod_beta split: option.splits)

text \<open>
  C19. When the gateway answers \<open>GET /api/models\<close> with a 200 whose \<open>data\<close> is a
  non-empty list of model dicts that all convert, the listing is exactly those converted models
  followed by the appended MiniMax models, and the fallback catalogue is not used.
\<close>

theorem list_models_live:
  assumes "net (sent w) (client_request (fst (get_claw_client cfg w)) ''GET'' ''/api/models'' None) = Received r"
    and "status_code r = 200" and "body_json r = Inr (JObj d)"
    and "dict_get d ''data'' (JList []) = JList ms"
    and "py_map convert_claw_model ms = Inr models" and "models \<noteq> []"
  shows "fst (list_openclaw_models net cfg w) = Inr \<lparr>ml_object = ''list'', ml_data = models @ APPENDED_MODELS\<rparr>"
proof -
  have "d \<noteq> []" using assms(4,5,6) by auto
  then have "fst (with_claw_client cfg (get_models net) w) = Inr (JList ms)"
    using assms(1-4) by (simp add: with_claw_client_fst get_models_eq make_request_eq Let_def data_or_empty_def)
  then show ?thesis
    using assms(5,6) by (auto simp: list_openclaw_models_def py_bind_def catalog_of_def split: prod.splits)
qed

theorem list_models_live_witness:
  "fst (list_openclaw_models (\<lambda>_ _. Received \<lparr>status_code = 200,
        body_json = Inr (JObj [(''data'', JList [JObj [(''id'', JStr ''m1'')]])]), body_text = [], body_chunks = []\<rparr>)
      (load_config Map.empty) \<lparr>claw_slot = None, sent = []\<rparr>) =
     Inr \<lparr>ml_object = ''list'', ml_data = [mk_model ''m1'' ''m1'' ''openclaw''] @ APPENDED_MODELS\<rparr>"
  by (rule list_models_live [where d = "[(''data'', JList [JObj [(''id'', JStr ''m1'')]])]"
        and ms = "[JObj [(''id'', JStr ''m1'')]]"
        and r = "\<lparr>status_code = 200, body_json = Inr (JObj [(''data'', JList [JObj [(''id'', JStr ''m1'')]])]),
                 body_text = [], body_chunks = []\<rparr>"])
     (simp_all add: convert_claw_model_def openai_model_def)

lemma find_claw_model_none:
  "\<forall>m \<in> set ms. \<exists>d. m = JObj d \<and> dict_get d ''id'' JNull \<noteq> JStr model_id \<and>
                     dict_get d ''name'' JNull \<noteq> JStr model_id \<Longrightarrow>
   find_claw_model model_id ms = Inr None"
  by (induction ms) auto

text \<open>
  C20. Looking up an id that no live entry carries as id or name never fails: it
  answers with a synthesized entry whose id and root are the requested id and whose
  owner is \<open>openclaw\<close>.
\<close>

theorem get_openclaw_model_synthesized:
  assumes "with_claw_client cfg (get_models net) w = (Inr (JList ms), w1)"
    and "\<forall>m \<in> set ms. \<exists>d. m = JObj d \<and> dict_get d ''id'' JNull \<noteq> JStr model_id \<and>
                          dict_get d ''name'' JNull \<noteq> JStr model_id"
  shows "get_openclaw_model net cfg w model_id = (Inr (mk_model model_id model_id ''openclaw''), w1)"
  using assms by (simp add: get_openclaw_model_def find_claw_model_none)

theorem get_openclaw_model_synthesized_witness:
  "fst (get_openclaw_model (\<lambda>_ _. Received \<lparr>status_code = 200,
          body_json = Inr (JObj [(''data'', JList [JObj [(''id'', JStr ''gpt-4o''), (''name'', JStr ''GPT 4o'')]])]),
          body_text = [], body_chunks = []\<rparr>)
       (load_config Map.empty) \<lparr>claw_slot = None, sent = []\<rparr> ''my-model'') =
   Inr (mk_model ''my-model'' ''my-model'' ''openclaw'')"
proof -
  let ?net = "\<lambda>_ _. Received \<lparr>status_code = 200,
          body_json = Inr (JObj [(''data'', JList [JObj [(''id'', JStr ''gpt-4o''), (''name'', JStr ''GPT 4o'')]])]),
          body_text = [], body_chunks = []\<rparr>"
  obtain w1 where w1: "with_claw_client (load_config Map.empty) (get_models ?net) \<lparr>claw_slot = None, sent = []\<rparr> =
      (Inr (JList [JObj [(''id'', JStr ''gpt-4o''), (''name'', JStr ''GPT 4o'')]]), w1)"
    by (simp add: with_claw_client_def get_claw_client_def get_models_eq make_request_eq
        data_or_empty_def Let_def)
  show ?thesis using get_openclaw_model_synthesized [OF w1] by simp
qed

section \<open>Findings on the catalog\<close>

text \<open>
  The listing does not de-duplicate: a gateway that itself lists \<open>openclaw-agent\<close>
  yields that id twice, although the specification requires the first occurrence
  of an id to win.
\<close>

lemma list_models_duplicate_ids:
  "map om_id (ml_data (projr (fst (list_openclaw_models
      (\<lambda>_ _. Received \<lparr>status_code = 200,
          body_json = Inr (JObj [(''data'', JList [JObj [(''id'', JStr ''openclaw-agent'')]])]),
          body_text = [], body_chunks = []\<rparr>)
      (load_config Map.empty) \<lparr>claw_slot = None, sent = []\<rparr>)))) =
   [''openclaw-agent'', ''openclaw-agent'', ''minimax-portal/MiniMax-M2.5'', ''MiniMax-M2.1'',
    ''lmstudio/qwen3-coder-next'', ''lmstudio/qwen3-vl-30b-a3b-thinking'',
    ''lmstudio/jan-v3-4b-base-instruct'', ''lmstudio/lfm2.5-vl-1.6b'']"
  by (simp add: list_openclaw_models_def with_claw_client_def get_claw_client_def get_models_eq
      make_request_eq data_or_empty_def Let_def convert_claw_model_def openai_model_def
      catalog_of_def APPENDED_MODELS_def)

lemma as_str_Inr_iff [simp]: "as_str v = Inr s \<longleftrightarrow> v = JStr s"
  by (cases v) auto

lemma convert_claw_model_found:
  assumes "convert_claw_model (JObj d) = Inr om" and "dict_has d ''id'' \<or> dict_has d ''name''"
  shows "find_claw_model (om_id om) (JObj d # ms) = Inr (Some om)"
  using assms
  by (auto simp: convert_claw_model_def openai_model_def dict_get_def dict_has_def
      split: sum.splits option.splits)

lemma find_claw_model_skip:
  "list_all (\<lambda>m. case m of JObj e \<Rightarrow> dict_get e ''id'' JNull \<noteq> JStr x \<and> dict_get e ''name'' JNull \<noteq> JStr x
                 | _ \<Rightarrow> False) xs \<Longrightarrow>
   find_claw_model x (xs @ ys) = find_claw_model x ys"
  by (induction xs) (auto split: json.splits)


text \<open>
  C21. Listing and lookup agree: an entry of the gateway's model list that has an
  \<open>id\<close> or a \<open>name\<close> is converted by the listing loop into the same model
  that the lookup loop returns for the converted id, provided no earlier entry
  claims that id or name.
\<close>

theorem list_then_get_roundtrip:
  assumes "py_map convert_claw_model ms = Inr models" and "i < length ms"
    and "ms ! i = JObj d" and "dict_has d ''id'' \<or> dict_has d ''name''"
    and "list_all (\<lambda>m. case m of JObj e \<Rightarrow> dict_get e ''id'' JNull \<noteq> JStr (om_id (models ! i)) \<and>
                      dict_get e ''name'' JNull \<noteq> JStr (om_id (models ! i)) | _ \<Rightarrow> False) (take i ms)"
  shows "find_claw_model (om_id (models ! i)) ms = Inr (Some (models ! i))"
proof -
  have conv: "convert_claw_model (JObj d) = Inr (models ! i)"
    using py_map_Inr_nth [OF assms(1) assms(2)] assms(3) by simp
  have "find_claw_model (om_id (models ! i)) (take i ms @ drop i ms) =
        find_claw_model (om_id (models ! i)) (drop i ms)"
    using assms(5) by (rule find_claw_model_skip)
  moreover have "drop i ms = JObj d # drop (Suc i) ms"
    using Cons_nth_drop_Suc [OF assms(2)] assms(3) by simp
  ultimately show ?thesis
    using convert_claw_model_found [OF conv assms(4)] by (metis append_take_drop_id)
qed

theorem list_then_get_roundtrip_witness:
  "find_claw_model ''b'' [JObj [(''id'', JStr ''a'')], JObj [(''name'', JStr ''b''), (''provider'', JStr ''p'')]] =
     Inr (Some (mk_model ''b'' [] ''p''))"
proof -
  let ?ms = "[JObj [(''id'', JStr ''a'')], JObj [(''name'', JStr ''b''), (''provider'', JStr ''p'')]]"
  have conv: "py_map convert_claw_model ?ms = Inr [mk_model ''a'' ''a'' ''openclaw'', mk_model ''b'' [] ''p'']"
    by (simp add: convert_claw_model_def openai_model_def)
  from list_then_get_roundtrip [OF conv, of 1 "[(''name'', JStr ''b''), (''provider'', JStr ''p'')]"]
  show ?thesis by simp
qed

text \<open>
  An entry with neither \<open>id\<close> nor \<open>name\<close> is listed as \<open>unknown\<close>, but the
  lookup of \<open>unknown\<close> does not find it (and synthesizes a different entry).
\<close>

lemma nameless_model_not_found:
  "py_map convert_claw_model [JObj []] = Inr [mk_model ''unknown'' [] ''openclaw''] \<and>
   find_claw_model ''unknown'' [JObj []] = Inr None"
  by (simp add: convert_claw_model_def openai_model_def)

end
