(* ===== verification/Sync.thy ===== *)
theory Sync
  imports Client
begin

text \<open>
  The sync service \<open>plugins/openclaw/sync.py\<close>: \<open>sync_models_to_openwebui\<close>
  reshapes the live models into sync records, \<open>get_openclaw_status\<close> aggregates
  the client's reachability with the counts of models, channels and skills, and
  \<open>test_connection\<close> reports the flag.  All three use the process-wide client;
  the first two return at once, with no request, when the integration is disabled.
  Live data only: no fallback list is applied here.
\<close>

text \<open>The record built per model; every \<open>model.get\<close> raises unless the model is a dict.\<close>

definition sync_record :: "json \<Rightarrow> py_exc + json" where
  "sync_record m =
     (case m of
        JObj d \<Rightarrow>
          Inr (JObj [(''id'', dict_get d ''id'' JNull),
                     (''name'', dict_get d ''name'' (dict_get d ''id'' JNull)),
                     (''provider'', dict_get d ''provider'' (JStr ''openclaw'')),
                     (''context_length'', dict_get d ''context_length'' (JInt 4096))])
      | _ \<Rightarrow> Inl AttributeError)"

definition sync_models_to_openwebui ::
  "network \<Rightarrow> gateway_config \<Rightarrow> world \<Rightarrow> (py_exc + json) \<times> world" where
  "sync_models_to_openwebui net cfg w =
     (if \<not> is_openclaw_enabled cfg then
        (Inr (JObj [(''success'', JBool False), (''error'', JStr ''OpenClaw not enabled'')]), w)
      else py_bind (with_claw_client cfg (get_models net) w)
        (\<lambda>claw_models w1.
           (case py_iter claw_models of
              Inl e \<Rightarrow> (Inl e, w1)
            | Inr ms \<Rightarrow>
                (case py_map sync_record ms of
                   Inl e \<Rightarrow> (Inl e, w1)
                 | Inr synced \<Rightarrow>
                     (Inr (JObj [(''success'', JBool True), (''count'', JInt (int (length synced))),
                                 (''models'', JList synced)]), w1)))))"

text \<open>\<open>len(client.get_xxx())\<close>: the request, then \<open>len\<close> of what it returned.\<close>

definition listing_len ::
  "(OpenClawClient \<Rightarrow> http_request list \<Rightarrow> (py_exc + json) \<times> OpenClawClient \<times> http_request list) \<Rightarrow>
   gateway_config \<Rightarrow> world \<Rightarrow> (py_exc + nat) \<times> world" where
  "listing_len f cfg w = py_bind (with_claw_client cfg f w) (\<lambda>x w1. (py_len x, w1))"

text \<open>
  The status dict, evaluated in the order of its keys: the status request, the
  flag it reported, the URL, then the three listing requests.
\<close>

definition get_openclaw_status ::
  "network \<Rightarrow> gateway_config \<Rightarrow> world \<Rightarrow> (py_exc + json) \<times> world" where
  "get_openclaw_status net cfg w =
     (if \<not> is_openclaw_enabled cfg then
        (Inr (JObj [(''enabled'', JBool False), (''connected'', JBool False),
                    (''message'', JStr ''OpenClaw integration is disabled'')]), w)
      else
        (case get_claw_client cfg w of
           (client, w0) \<Rightarrow>
             (case with_claw_client cfg (get_status net) w0 of
                (status, w1) \<Rightarrow>
                  py_bind (py_get status ''connected'' (JBool False), w1) (\<lambda>connected w2.
                  py_bind (listing_len (get_models net) cfg w2) (\<lambda>models_count w3.
                  py_bind (listing_len (get_channels net) cfg w3) (\<lambda>channels_count w4.
                  py_bind (listing_len (get_skills net) cfg w4) (\<lambda>skills_count w5.
                    (Inr (JObj [(''enabled'', JBool True), (''connected'', connected),
                                (''gateway_url'', JStr (gateway_url client)),
                                (''models_count'', JInt (int models_count)),
                                (''channels_count'', JInt (int channels_count)),
                                (''skills_count'', JInt (int skills_count))]), w5))))))))"

text \<open>\<open>test_connection\<close>: the flag reported by \<open>get_status\<close>; an exception reads as \<open>False\<close>.\<close>

definition test_connection :: "network \<Rightarrow> gateway_config \<Rightarrow> world \<Rightarrow> json \<times> world" where
  "test_connection net cfg w =
     (case with_claw_client cfg (get_status net) w of
        (status, w1) \<Rightarrow>
          (case py_get status ''connected'' (JBool False) of
             Inl _ \<Rightarrow> JBool False
           | Inr v \<Rightarrow> v, w1))"

section \<open>Lemmas on the sync service\<close>

text \<open>The request the global client would send for \<open>GET e\<close>.\<close>

definition slot_request :: "gateway_config \<Rightarrow> world \<Rightarrow> string \<Rightarrow> http_request" where
  "slot_request cfg w e = client_request (fst (get_claw_client cfg w)) ''GET'' e None"

lemma client_request_cong:
  "gateway_url c = gateway_url c' \<Longrightarrow> api_key c = api_key c' \<Longrightarrow> client_request c m e b = client_request c' m e b"
  by (simp add: client_request_def)

lemma get_claw_client_sent [simp]: "sent (snd (get_claw_client cfg w)) = sent w"
  by (auto simp: get_claw_client_def Let_def split: option.splits)

lemma slot_request_after_get [simp]:
  "slot_request cfg (snd (get_claw_client cfg w)) e = slot_request cfg w e"
  by (auto simp: slot_request_def get_claw_client_def Let_def split: option.splits)

text \<open>A client method that sends one \<open>GET\<close> to \<open>e\<close> and keeps the client's URL and key, run on the global client.\<close>

lemma with_claw_client_get:
  assumes "\<And>c l. snd (snd (f c l)) = l @ [client_request c ''GET'' e None]"
    and "\<And>c l. gateway_url (fst (snd (f c l))) = gateway_url c"
    and "\<And>c l. api_key (fst (snd (f c l))) = api_key c"
  shows "sent (snd (with_claw_client cfg f w)) = sent w @ [slot_request cfg w e]"
    and "slot_request cfg (snd (with_claw_client cfg f w)) e' = slot_request cfg w e'"
  using assms
  by (auto simp: with_claw_client_def slot_request_def get_claw_client_def Let_def case_prod_beta
      intro: client_request_cong split: option.splits)

lemma listing_len_world:
  assumes "\<And>c l. snd (snd (f c l)) = l @ [client_request c ''GET'' e None]"
    and "\<And>c l. gateway_url (fst (snd (f c l))) = gateway_url c"
    and "\<And>c l. api_key (fst (snd (f c l))) = api_key c"
  shows "sent (snd (listing_len f cfg w)) = sent w @ [slot_request cfg w e]"
    and "slot_request cfg (snd (listing_len f cfg w)) e' = slot_request cfg w e'"
  using with_claw_client_get [OF assms, of cfg w]
  by (auto simp: listing_len_def py_bind_def split: prod.splits sum.splits)

lemma status_step:
  "sent (snd (with_claw_client cfg (get_status net) w)) = sent w @ [slot_request cfg w ''/api/status'']"
  "slot_request cfg (snd (with_claw_client cfg (get_status net) w)) e' = slot_request cfg w e'"
  by (rule with_claw_client_get; simp add: get_status_eq)+

lemma models_step:
  "sent (snd (listing_len (get_models net) cfg w)) = sent w @ [slot_request cfg w ''/api/models'']"
  "slot_request cfg (snd (listing_len (get_models net) cfg w)) e' = slot_request cfg w e'"
  by (rule listing_len_world; simp add: get_models_eq)+

lemma channels_step:
  "sent (snd (listing_len (get_channels net) cfg w)) = sent w @ [slot_request cfg w ''/api/channels'']"
  "slot_request cfg (snd (listing_len (get_channels net) cfg w)) e' = slot_request cfg w e'"
  by (rule listing_len_world; simp add: get_channels_eq)+

lemma skills_step:
  "sent (snd (listing_len (get_skills net) cfg w)) = sent w @ [slot_request cfg w ''/api/skills'']"
  "slot_request cfg (snd (listing_len (get_skills net) cfg w)) e' = slot_request cfg w e'"
  by (rule listing_len_world; simp add: get_skills_eq)+

lemma get_status_JObj: "\<exists>d. fst (get_status net c l) = JObj d"
  by (simp add: get_status_eq)

lemma with_claw_client_status_JObj: "\<exists>d. fst (with_claw_client cfg (get_status net) w) = JObj d"
  using get_status_JObj by (simp add: with_claw_client_def case_prod_beta)

text \<open>
  C22. With the integration disabled, \<open>sync_models_to_openwebui\<close> reports
  \<open>success = False\<close> and \<open>get_openclaw_status\<close> reports \<open>enabled = False,
  connected = False\<close>; neither creates the client nor sends a request.
\<close>

theorem sync_status_disabled_no_network:
  assumes "\<not> OPENCLAW_ENABLED cfg"
  shows "sync_models_to_openwebui net cfg w =
           (Inr (JObj [(''success'', JBool False), (''error'', JStr ''OpenClaw not enabled'')]), w) \<and>
         get_openclaw_status net cfg w =
           (Inr (JObj [(''enabled'', JBool False), (''connected'', JBool False),
                       (''message'', JStr ''OpenClaw integration is disabled'')]), w)"
  using assms by (simp add: sync_models_to_openwebui_def get_openclaw_status_def)

theorem sync_status_disabled_no_network_witness:
  "snd (sync_models_to_openwebui (\<lambda>_ _. Raised (RequestException ''unused''))
      (load_config [''OPENCLAW_ENABLED'' \<mapsto> ''False'']) \<lparr>claw_slot = None, sent = []\<rparr>) =
     \<lparr>claw_slot = None, sent = []\<rparr> \<and>
   snd (get_openclaw_status (\<lambda>_ _. Raised (RequestException ''unused''))
      (load_config [''OPENCLAW_ENABLED'' \<mapsto> ''False'']) \<lparr>claw_slot = None, sent = []\<rparr>) =
     \<lparr>claw_slot = None, sent = []\<rparr>"
proof -
  have "\<not> OPENCLAW_ENABLED (load_config [''OPENCLAW_ENABLED'' \<mapsto> ''False''])"
    by (simp add: load_config_def environ_get_def py_simps)
  from sync_status_disabled_no_network [OF this] show ?thesis by simp
qed

text \<open>
  C23. Sync reports exactly what the live fetch returned, with no fallback: one
  record per live model, \<open>count\<close> equal to their number, \<open>success = True\<close>.
\<close>

theorem sync_reports_live_models:
  assumes "OPENCLAW_ENABLED cfg"
    and "with_claw_client cfg (get_models net) w = (Inr (JList ms), w1)"
    and "\<forall>m \<in> set ms. \<exists>d. m = JObj d"
  shows "sync_models_to_openwebui net cfg w =
           (Inr (JObj [(''success'', JBool True), (''count'', JInt (int (length ms))),
                       (''models'', JList (map (\<lambda>m. projr (sync_record m)) ms))]), w1)"
proof -
  have "\<forall>m \<in> set ms. \<exists>y. sync_record m = Inr y"
    using assms(3) by (auto simp: sync_record_def)
  then have "py_map sync_record ms = Inr (map (\<lambda>m. projr (sync_record m)) ms)"
    by (rule py_map_all_Inr)
  with assms(1,2) show ?thesis by (simp add: sync_models_to_openwebui_def)
qed

theorem sync_reports_live_models_witness:
  "fst (sync_models_to_openwebui (\<lambda>_ _. Raised (RequestException ''refused''))
      (load_config Map.empty) \<lparr>claw_slot = None, sent = []\<rparr>) =
   Inr (JObj [(''success'', JBool True), (''count'', JInt 0), (''models'', JList [])])"
proof -
  let ?net = "\<lambda>_ _. Raised (RequestException ''refused'') :: http_outcome"
  obtain w1 where w1: "with_claw_client (load_config Map.empty) (get_models ?net) \<lparr>claw_slot = None, sent = []\<rparr> =
      (Inr (JList []), w1)"
    by (simp add: with_claw_client_def get_claw_client_def get_models_eq make_request_eq
        data_or_empty_def Let_def)
  have "OPENCLAW_ENABLED (load_config Map.empty)" by (simp add: load_config_defaults)
  from sync_reports_live_models [OF this w1] show ?thesis by simp
qed

text \<open>
  C24. A status query that completes sends exactly four requests, in this order,
  all to the global client's gateway: \<open>/api/status\<close>, \<open>/api/models\<close>,
  \<open>/api/channels\<close>, \<open>/api/skills\<close>.
\<close>

theorem status_request_sequence:
  assumes "OPENCLAW_ENABLED cfg" and "get_openclaw_status net cfg w = (Inr r, w')"
  shows "sent w' = sent w @ map (slot_request cfg w)
                              [''/api/status'', ''/api/models'', ''/api/channels'', ''/api/skills'']"
proof -
  obtain client w0 where g: "get_claw_client cfg w = (client, w0)" by fastforce
  obtain status w1 where s: "with_claw_client cfg (get_status net) w0 = (status, w1)" by fastforce
  obtain d where d: "status = JObj d" using with_claw_client_status_JObj [of cfg net w0] s by auto
  obtain x3 w3 where m: "listing_len (get_models net) cfg w1 = (x3, w3)" by fastforce
  obtain x4 w4 where c: "listing_len (get_channels net) cfg w3 = (x4, w4)" by fastforce
  obtain x5 w5 where k: "listing_len (get_skills net) cfg w4 = (x5, w5)" by fastforce
  from assms g s d m c k have w': "w' = w5"
    by (auto simp: get_openclaw_status_def py_bind_def split: sum.splits)
  have w0: "sent w0 = sent w" "\<And>e. slot_request cfg w0 e = slot_request cfg w e"
    using g get_claw_client_sent [of cfg w] slot_request_after_get [of cfg w] by auto
  have "sent w1 = sent w0 @ [slot_request cfg w0 ''/api/status'']"
    and "\<And>e. slot_request cfg w1 e = slot_request cfg w0 e"
    using s status_step [where cfg = cfg and net = net and w = w0] by auto
  moreover have "sent w3 = sent w1 @ [slot_request cfg w1 ''/api/models'']"
    and "\<And>e. slot_request cfg w3 e = slot_request cfg w1 e"
    using m models_step [where cfg = cfg and net = net and w = w1] by auto
  moreover have "sent w4 = sent w3 @ [slot_request cfg w3 ''/api/channels'']"
    and "\<And>e. slot_request cfg w4 e = slot_request cfg w3 e"
    using c channels_step [where cfg = cfg and net = net and w = w3] by auto
  moreover have "sent w5 = sent w4 @ [slot_request cfg w4 ''/api/skills'']"
    using k skills_step [where cfg = cfg and net = net and w = w4] by auto
  ultimately show ?thesis using w' w0 by simp
qed

theorem status_request_sequence_witness:
  "sent (snd (get_openclaw_status (\<lambda>_ _. Raised (RequestException ''refused''))
      (load_config Map.empty) \<lparr>claw_slot = None, sent = []\<rparr>)) =
   map (slot_request (load_config Map.empty) \<lparr>claw_slot = None, sent = []\<rparr>)
     [''/api/status'', ''/api/models'', ''/api/channels'', ''/api/skills'']"
proof -
  let ?net = "\<lambda>_ _. Raised (RequestException ''refused'') :: http_outcome"
  let ?w = "\<lparr>claw_slot = None, sent = []\<rparr> :: world"
  have en: "OPENCLAW_ENABLED (load_config Map.empty)" by (simp add: load_config_defaults)
  obtain r w' where eq: "get_openclaw_status ?net (load_config Map.empty) ?w = (Inr r, w')"
    by (simp add: get_openclaw_status_def load_config_defaults get_claw_client_def Let_def
        with_claw_client_def client_method_eqs make_request_eq listing_len_def data_or_empty_def)
  from status_request_sequence [OF en eq] eq show ?thesis by simp
qed

section \<open>Findings on the sync service\<close>

text \<open>
  The reported \<open>connected\<close> is the flag after the \<open>/api/status\<close> request only: a
  fresh client whose gateway answers \<open>/api/status\<close> with 404 reports
  \<open>connected = False\<close> in the same status in which it counted a model served by
  that gateway.
\<close>

lemma status_reports_disconnected_while_serving:
  "fst (get_openclaw_status
     (\<lambda>_ q. if rq_url q = ''http://localhost:18789/api/status''
            then Received \<lparr>status_code = 404, body_json = Inr JNull, body_text = [], body_chunks = []\<rparr>
            else Received \<lparr>status_code = 200, body_json = Inr (JObj [(''data'', JList [JObj [(''id'', JStr ''m'')]])]),
                           body_text = [], body_chunks = []\<rparr>)
     (load_config Map.empty) \<lparr>claw_slot = None, sent = []\<rparr>) =
   Inr (JObj [(''enabled'', JBool True), (''connected'', JBool False),
              (''gateway_url'', JStr ''http://localhost:18789''),
              (''models_count'', JInt 1), (''channels_count'', JInt 1), (''skills_count'', JInt 1)])"
  by (simp add: get_openclaw_status_def load_config_defaults get_claw_client_def new_client_def Let_def
      with_claw_client_def client_method_eqs make_request_eq client_request_def listing_len_def
      data_or_empty_def)

end
