(* ===== verification/Client_Session.thy ===== *)
theory Client_Session
  imports Client
begin

text \<open>
  The gateway client as a machine: its public methods (\<open>get_models\<close>,
  \<open>get_auth_profiles\<close>, \<open>get_channels\<close>, \<open>get_skills\<close>, \<open>send_message\<close>,
  \<open>chat_completion\<close>, \<open>get_status\<close> of \<open>OpenClawClient\<close>) are the constructors
  of a datatype of operations, \<open>run_op\<close> runs one of them on the client object
  and the request log, and \<open>run_ops\<close> runs a caller's sequence of calls on the same
  object, stopping at the first exception as Python does.  \<open>op_call\<close> names the
  request each method makes.  The abstract monitor \<open>flag_step\<close> says what the
  reachability flag means: the outcome of the last decisive response.
\<close>

datatype client_op =
    GetModels
  | GetAuthProfiles
  | GetChannels
  | GetSkills
  | SendMessage string string "(string \<times> json) list"
  | ChatCompletion string json "(string \<times> json) list"
  | GetStatus

text \<open>The method, endpoint and JSON body each method passes to \<open>_make_request\<close>.\<close>

fun op_call :: "client_op \<Rightarrow> string \<times> string \<times> json option" where
  "op_call GetModels = (''GET'', ''/api/models'', None)"
| "op_call GetAuthProfiles = (''GET'', ''/api/auth/profiles'', None)"
| "op_call GetChannels = (''GET'', ''/api/channels'', None)"
| "op_call GetSkills = (''GET'', ''/api/skills'', None)"
| "op_call (SendMessage channel message kwargs) =
     (''POST'', ''/api/channels/'' @ channel @ ''/send'', Some (JObj (dict_update [(''message'', JStr message)] kwargs)))"
| "op_call (ChatCompletion model messages kwargs) =
     (''POST'', ''/v1/chat/completions'',
      Some (JObj (dict_update [(''model'', JStr model), (''messages'', messages)] kwargs)))"
| "op_call GetStatus = (''GET'', ''/api/status'', None)"

definition op_request :: "OpenClawClient \<Rightarrow> client_op \<Rightarrow> http_request" where
  "op_request c op = (case op_call op of (m, e, b) \<Rightarrow> client_request c m e b)"

fun run_op ::
  "network \<Rightarrow> client_op \<Rightarrow> OpenClawClient \<Rightarrow> http_request list \<Rightarrow>
   (py_exc + json) \<times> OpenClawClient \<times> http_request list" where
  "run_op net GetModels c log = get_models net c log"
| "run_op net GetAuthProfiles c log = (case get_auth_profiles net c log of (r, c', l) \<Rightarrow> (Inr r, c', l))"
| "run_op net GetChannels c log = get_channels net c log"
| "run_op net GetSkills c log = get_skills net c log"
| "run_op net (SendMessage ch msg kw) c log = (case send_message net c log ch msg kw of (r, c', l) \<Rightarrow> (Inr r, c', l))"
| "run_op net (ChatCompletion m msgs kw) c log =
     (case chat_completion net c log m msgs kw of (r, c', l) \<Rightarrow> (Inr r, c', l))"
| "run_op net GetStatus c log = (case get_status net c log of (r, c', l) \<Rightarrow> (Inr r, c', l))"

fun run_ops ::
  "network \<Rightarrow> client_op list \<Rightarrow> OpenClawClient \<Rightarrow> http_request list \<Rightarrow>
   (py_exc + json list) \<times> OpenClawClient \<times> http_request list" where
  "run_ops net [] c log = (Inr [], c, log)"
| "run_ops net (op # ops) c log =
     (case run_op net op c log of
        (Inl e, c', log') \<Rightarrow> (Inl e, c', log')
      | (Inr r, c', log') \<Rightarrow>
          (case run_ops net ops c' log' of
             (Inl e, c'', log'') \<Rightarrow> (Inl e, c'', log'')
           | (Inr rs, c'', log'') \<Rightarrow> (Inr (r # rs), c'', log'')))"

section \<open>The abstract reachability monitor\<close>

fun flag_step :: "bool \<Rightarrow> http_outcome \<Rightarrow> bool" where
  "flag_step b (Raised _) = False"
| "flag_step b (Received r) = (if status_code r = 200 then \<not> isl (body_json r) else b)"

text \<open>The outcomes the network gives to a sequence of requests sent after \<open>log\<close>.\<close>

fun outcomes :: "network \<Rightarrow> http_request list \<Rightarrow> http_request list \<Rightarrow> http_outcome list" where
  "outcomes net log [] = []"
| "outcomes net log (q # qs) = net log q # outcomes net (log @ [q]) qs"

section \<open>Lemmas\<close>

lemma op_request_connected [simp]: "op_request (c\<lparr>connected := x\<rparr>) op = op_request c op"
  by (simp add: op_request_def split: prod.split)

lemma run_op_make_request:
  "snd (run_op net op c log) =
     (case op_call op of (m, e, b) \<Rightarrow> snd (make_request net c log m e b))"
  by (cases op) (simp_all add: client_method_eqs get_auth_profiles_def send_message_def
      chat_completion_def case_prod_beta prod_eq_iff)

lemma run_op_step:
  assumes "run_op net op c log = (r, c1, log1)"
  shows "log1 = log @ [op_request c op] \<and> c1 = c\<lparr>connected := flag_step (connected c) (net log (op_request c op))\<rparr>"
proof -
  obtain m e b where call: "op_call op = (m, e, b)" by (cases "op_call op") auto
  from assms have "(c1, log1) = snd (make_request net c log m e b)"
    using run_op_make_request [of net op c log] call by simp
  then show ?thesis
    by (simp add: make_request_eq Let_def op_request_def call split: http_outcome.split)
qed

lemma run_ops_trace:
  "\<exists>n. snd (snd (run_ops net ops c log)) = log @ map (op_request c) (take n ops) \<and>
       fst (snd (run_ops net ops c log)) =
         c\<lparr>connected := foldl flag_step (connected c) (outcomes net log (map (op_request c) (take n ops)))\<rparr> \<and>
       (case fst (run_ops net ops c log) of
          Inr rs \<Rightarrow> n = length ops \<and> length rs = length ops
        | Inl _ \<Rightarrow> 0 < n \<and> n \<le> length ops)"
proof (induction ops arbitrary: c log)
  case Nil
  show ?case by (rule exI [of _ 0]) simp
next
  case (Cons op ops)
  obtain r c1 log1 where run: "run_op net op c log = (r, c1, log1)" by (cases "run_op net op c log") auto
  let ?q = "op_request c op"
  from run_op_step [OF run] have log1: "log1 = log @ [?q]"
    and c1: "c1 = c\<lparr>connected := flag_step (connected c) (net log ?q)\<rparr>" by auto
  show ?case
  proof (cases r)
    case (Inl e)
    with run log1 c1 show ?thesis by (intro exI [of _ 1]) simp
  next
    case (Inr x)
    from Cons.IH [of c1 log1] obtain n where
      tr: "snd (snd (run_ops net ops c1 log1)) = log1 @ map (op_request c1) (take n ops)"
      and st: "fst (snd (run_ops net ops c1 log1)) =
         c1\<lparr>connected := foldl flag_step (connected c1) (outcomes net log1 (map (op_request c1) (take n ops)))\<rparr>"
      and res: "case fst (run_ops net ops c1 log1) of Inr rs \<Rightarrow> n = length ops \<and> length rs = length ops
                | Inl _ \<Rightarrow> 0 < n \<and> n \<le> length ops"
      by blast
    have oc1: "op_request c1 = op_request c" using c1 by (simp add: fun_eq_iff)
    show ?thesis
    proof (rule exI [of _ "Suc n"])
      show "snd (snd (run_ops net (op # ops) c log)) = log @ map (op_request c) (take (Suc n) (op # ops)) \<and>
          fst (snd (run_ops net (op # ops) c log)) =
            c\<lparr>connected := foldl flag_step (connected c) (outcomes net log (map (op_request c) (take (Suc n) (op # ops))))\<rparr> \<and>
          (case fst (run_ops net (op # ops) c log) of
             Inr rs \<Rightarrow> Suc n = length (op # ops) \<and> length rs = length (op # ops)
           | Inl _ \<Rightarrow> 0 < Suc n \<and> Suc n \<le> length (op # ops))"
        using tr st res run Inr log1 c1 oc1
        by (auto split: prod.splits sum.splits)
    qed
  qed
qed

lemma run_ops_raise:
  "fst (run_ops net ops c log) = Inl e \<Longrightarrow>
   \<exists>k < length ops. (\<exists>rs. fst (run_ops net (take k ops) c log) = Inr rs) \<and>
     fst (run_op net (ops ! k) (fst (snd (run_ops net (take k ops) c log))) (snd (snd (run_ops net (take k ops) c log)))) = Inl e \<and>
     snd (snd (run_ops net ops c log)) = log @ map (op_request c) (take (Suc k) ops)"
proof (induction ops arbitrary: c log)
  case Nil
  then show ?case by simp
next
  case (Cons op ops)
  obtain r c1 log1 where run: "run_op net op c log = (r, c1, log1)" by (cases "run_op net op c log") auto
  from run_op_step [OF run] have log1: "log1 = log @ [op_request c op]"
    and c1: "c1 = c\<lparr>connected := flag_step (connected c) (net log (op_request c op))\<rparr>" by auto
  have oc1: "op_request c1 = op_request c" using c1 by (simp add: fun_eq_iff)
  show ?case
  proof (cases r)
    case (Inl e')
    with Cons.prems run log1 show ?thesis
      by (intro exI [of _ 0]) simp
  next
    case (Inr x)
    with Cons.prems run have "fst (run_ops net ops c1 log1) = Inl e"
      by (auto split: prod.splits sum.splits)
    from Cons.IH [OF this] obtain k where k: "k < length ops"
      and pre: "\<exists>rs. fst (run_ops net (take k ops) c1 log1) = Inr rs"
      and step: "fst (run_op net (ops ! k) (fst (snd (run_ops net (take k ops) c1 log1)))
                   (snd (snd (run_ops net (take k ops) c1 log1)))) = Inl e"
      and lg: "snd (snd (run_ops net ops c1 log1)) = log1 @ map (op_request c1) (take (Suc k) ops)"
      by blast
    from pre obtain rs where rs: "fst (run_ops net (take k ops) c1 log1) = Inr rs" ..
    have pref: "run_ops net (take (Suc k) (op # ops)) c log =
        (Inr (x # rs), snd (run_ops net (take k ops) c1 log1))"
      using run Inr rs by (cases "run_ops net (take k ops) c1 log1") simp
    have whole: "snd (snd (run_ops net (op # ops) c log)) = snd (snd (run_ops net ops c1 log1))"
      using run Inr by (auto split: prod.splits sum.splits)
    show ?thesis
    proof (intro exI [of _ "Suc k"] conjI)
      show "Suc k < length (op # ops)" using k by simp
      show "\<exists>rs. fst (run_ops net (take (Suc k) (op # ops)) c log) = Inr rs" using pref by simp
      show "fst (run_op net ((op # ops) ! Suc k) (fst (snd (run_ops net (take (Suc k) (op # ops)) c log)))
              (snd (snd (run_ops net (take (Suc k) (op # ops)) c log)))) = Inl e"
        using pref step by simp
      show "snd (snd (run_ops net (op # ops) c log)) = log @ map (op_request c) (take (Suc (Suc k)) (op # ops))"
        using whole lg log1 oc1 by simp
    qed
  qed
qed

text \<open>
  C15. Refinement of the reachability flag by the abstract monitor: after any
  sequence of client calls the client object differs from the initial one only in
  its flag, and the flag is the monitor \<open>flag_step\<close> run over the outcomes of
  the requests sent, starting from the initial flag.
\<close>

theorem client_flag_refines_monitor:
  "\<exists>reqs. snd (snd (run_ops net ops c log)) = log @ reqs \<and>
     fst (snd (run_ops net ops c log)) = c\<lparr>connected := foldl flag_step (connected c) (outcomes net log reqs)\<rparr>"
  using run_ops_trace [of net ops c log] by blast

text \<open>
  C16. Every call of a sequence sends exactly its own request, in call order, to
  the client's gateway with the 5 s timeout.  A sequence that returns sends one
  request per call; one that raises has run the calls before the raising one
  without error, sent the raising call's request, and sent nothing after it.
\<close>

theorem client_session_requests:
  "\<exists>n. snd (snd (run_ops net ops c log)) = log @ map (op_request c) (take n ops) \<and>
       (case fst (run_ops net ops c log) of
          Inr rs \<Rightarrow> n = length ops \<and> length rs = length ops
        | Inl e \<Rightarrow> 0 < n \<and> n \<le> length ops \<and>
            (\<exists>rs. fst (run_ops net (take (n - 1) ops) c log) = Inr rs) \<and>
            fst (run_op net (ops ! (n - 1)) (fst (snd (run_ops net (take (n - 1) ops) c log)))
                  (snd (snd (run_ops net (take (n - 1) ops) c log)))) = Inl e) \<and>
       list_all (\<lambda>q. prefix (gateway_url c) (rq_url q) \<and> rq_timeout q = 5) (map (op_request c) ops)"
proof -
  have urls: "list_all (\<lambda>q. prefix (gateway_url c) (rq_url q) \<and> rq_timeout q = 5) (map (op_request c) ops)"
    by (simp add: list_all_iff op_request_def client_request_def split: prod.split)
  show ?thesis
  proof (cases "fst (run_ops net ops c log)")
    case (Inl e)
    from run_ops_raise [OF Inl] obtain k where "k < length ops"
      and "\<exists>rs. fst (run_ops net (take k ops) c log) = Inr rs"
      and "fst (run_op net (ops ! k) (fst (snd (run_ops net (take k ops) c log)))
             (snd (snd (run_ops net (take k ops) c log)))) = Inl e"
      and "snd (snd (run_ops net ops c log)) = log @ map (op_request c) (take (Suc k) ops)"
      by blast
    with Inl urls show ?thesis by (intro exI [of _ "Suc k"]) simp
  next
    case (Inr rs)
    from run_ops_trace [of net ops c log] Inr urls show ?thesis by auto
  qed
qed

end
