(* ===== verification/Stream_Relay.thy ===== *)
theory Stream_Relay
  imports Proxy
begin

text \<open>
  The streaming branch of \<open>chat_completions\<close> as a state machine.  The reply is
  the async generator \<open>generate()\<close>, which iterates
  \<open>response.iter_content(chunk_size=None)\<close> of the upstream response opened with
  \<open>stream=True\<close> and yields every non-empty chunk.  A state records the chunks
  the upstream has yet to deliver, whether its body ends normally, the chunks
  yielded so far, the generator's state and whether the upstream connection is
  still held.  The steps are the generator's: yield a chunk, skip an empty one,
  reach the end of the body (normally, or with a read error that propagates), or
  be closed because the client went away; in the last case nothing in the handler
  closes \<open>response\<close> (there is no \<open>with\<close> or \<open>finally\<close>), so the connection
  stays held.
\<close>

datatype gen_state = Running | Finished | Failed | Cancelled

record relay =
  pending :: "string list"
  upstream_ok :: bool
  emitted :: "string list"
  gen :: gen_state
  upstream_open :: bool

definition relay_init :: "string list \<Rightarrow> bool \<Rightarrow> relay" where
  "relay_init chunks ok =
     \<lparr>pending = chunks, upstream_ok = ok, emitted = [], gen = Running, upstream_open = True\<rparr>"

inductive relay_step :: "relay \<Rightarrow> relay \<Rightarrow> bool" where
  yield: "gen s = Running \<Longrightarrow> pending s = c # cs \<Longrightarrow> c \<noteq> [] \<Longrightarrow>
            relay_step s (s\<lparr>pending := cs, emitted := emitted s @ [c]\<rparr>)"
| skip: "gen s = Running \<Longrightarrow> pending s = [] # cs \<Longrightarrow> relay_step s (s\<lparr>pending := cs\<rparr>)"
| close: "gen s = Running \<Longrightarrow> pending s = [] \<Longrightarrow> upstream_ok s \<Longrightarrow>
            relay_step s (s\<lparr>gen := Finished, upstream_open := False\<rparr>)"
| fail: "gen s = Running \<Longrightarrow> pending s = [] \<Longrightarrow> \<not> upstream_ok s \<Longrightarrow>
            relay_step s (s\<lparr>gen := Failed, upstream_open := False\<rparr>)"
| cancel: "gen s = Running \<Longrightarrow> relay_step s (s\<lparr>gen := Cancelled\<rparr>)"

inductive_cases relay_step_from: "relay_step s t"

text \<open>The number of steps a run can still take: each step removes a pending chunk or stops the generator.\<close>

definition relay_fuel :: "relay \<Rightarrow> nat" where
  "relay_fuel s = (if gen s = Running then Suc (length (pending s)) else 0)"

section \<open>Lemmas\<close>

lemma relay_chunks_Cons [simp]:
  "relay_chunks (c # cs) = (if c = [] then relay_chunks cs else c # relay_chunks cs)"
  by (simp add: relay_chunks_def)

lemma relay_chunks_Nil [simp]: "relay_chunks [] = []"
  by (simp add: relay_chunks_def)

lemma relay_step_emitted:
  "relay_step s t \<Longrightarrow> emitted t @ relay_chunks (pending t) = emitted s @ relay_chunks (pending s)"
  by (induction rule: relay_step.induct) auto

lemma relay_step_fuel: "relay_step s t \<Longrightarrow> relay_fuel t < relay_fuel s"
  by (induction rule: relay_step.induct) (auto simp: relay_fuel_def)

lemma relay_step_frame: "relay_step s t \<Longrightarrow> upstream_ok t = upstream_ok s"
  by (induction rule: relay_step.induct) auto

lemma relay_runs_to_end:
  "gen s = Running \<Longrightarrow>
   relay_step\<^sup>*\<^sup>* s (s\<lparr>pending := [], emitted := emitted s @ relay_chunks (pending s),
                    gen := (if upstream_ok s then Finished else Failed), upstream_open := False\<rparr>)"
proof (induction "pending s" arbitrary: s)
  case Nil
  then have p: "pending s = []" by simp
  then have triv: "s\<lparr>pending := []\<rparr> = s" by (cases s) simp
  show ?case
  proof (cases "upstream_ok s")
    case True
    with Nil.prems p have st: "relay_step s (s\<lparr>gen := Finished, upstream_open := False\<rparr>)"
      by (intro relay_step.close)
    have "s\<lparr>pending := [], emitted := emitted s @ relay_chunks (pending s),
                    gen := (if upstream_ok s then Finished else Failed), upstream_open := False\<rparr> =
          s\<lparr>gen := Finished, upstream_open := False\<rparr>" using True p by (cases s) simp
    with st show ?thesis by simp
  next
    case False
    with Nil.prems p have st: "relay_step s (s\<lparr>gen := Failed, upstream_open := False\<rparr>)"
      by (intro relay_step.fail)
    have "s\<lparr>pending := [], emitted := emitted s @ relay_chunks (pending s),
                    gen := (if upstream_ok s then Finished else Failed), upstream_open := False\<rparr> =
          s\<lparr>gen := Failed, upstream_open := False\<rparr>" using False p by (cases s) simp
    with st show ?thesis by simp
  qed
next
  case (Cons c cs)
  let ?t = "if c = [] then s\<lparr>pending := cs\<rparr> else s\<lparr>pending := cs, emitted := emitted s @ [c]\<rparr>"
  have step: "relay_step s ?t"
    using Cons.prems Cons.hyps(2) by (auto intro: relay_step.yield relay_step.skip)
  have IH: "relay_step\<^sup>*\<^sup>* ?t (?t\<lparr>pending := [], emitted := emitted ?t @ relay_chunks (pending ?t),
                    gen := (if upstream_ok ?t then Finished else Failed), upstream_open := False\<rparr>)"
    using Cons.prems Cons.hyps by (intro Cons.hyps(1)) auto
  have eq: "?t\<lparr>pending := [], emitted := emitted ?t @ relay_chunks (pending ?t),
                    gen := (if upstream_ok ?t then Finished else Failed), upstream_open := False\<rparr> =
        s\<lparr>pending := [], emitted := emitted s @ relay_chunks (pending s),
                    gen := (if upstream_ok s then Finished else Failed), upstream_open := False\<rparr>"
    using Cons.hyps(2) [symmetric] by (cases s) auto
  from step IH eq show ?case by (metis converse_rtranclp_into_rtranclp)
qed

lemma relay_reach_inv:
  "relay_step\<^sup>*\<^sup>* (relay_init chunks ok) s \<Longrightarrow>
   emitted s @ relay_chunks (pending s) = relay_chunks chunks \<and> upstream_ok s = ok \<and>
   (gen s \<in> {Running, Cancelled} \<longrightarrow> upstream_open s)"
proof (induction rule: rtranclp_induct)
  case base
  then show ?case by (simp add: relay_init_def)
next
  case (step s t)
  from step.hyps(2) have "emitted t @ relay_chunks (pending t) = emitted s @ relay_chunks (pending s)"
    by (rule relay_step_emitted)
  moreover from step.hyps(2) have "upstream_ok t = upstream_ok s" by (rule relay_step_frame)
  moreover from step.hyps(2) step.IH have "gen t \<in> {Running, Cancelled} \<longrightarrow> upstream_open t"
    by (induction rule: relay_step.induct) auto
  ultimately show ?case using step.IH by simp
qed

lemma relay_fuel_chain:
  assumes "\<forall>n. relay_step (f n) (f (Suc n))"
  shows "relay_fuel (f n) + n \<le> relay_fuel (f 0)"
proof (induction n)
  case 0
  then show ?case by simp
next
  case (Suc n)
  from assms have "relay_fuel (f (Suc n)) < relay_fuel (f n)" by (blast intro: relay_step_fuel)
  with Suc.IH show ?case by simp
qed

text \<open>
  C26. The relay never reorders, splits or merges chunks: in every state reachable
  from the start, the chunks yielded so far followed by the non-empty chunks still
  pending are exactly the non-empty chunks of the upstream body, so what the client
  has received is always a prefix of it.
\<close>

theorem relay_preserves_order:
  assumes "relay_step\<^sup>*\<^sup>* (relay_init chunks ok) s"
  shows "emitted s @ relay_chunks (pending s) = relay_chunks chunks \<and> prefix (emitted s) (relay_chunks chunks)"
  using relay_reach_inv [OF assms] by (metis prefixI)

theorem relay_preserves_order_witness:
  "emitted (relay_init [''b1'', [], ''b2''] True\<lparr>pending := [[], ''b2''], emitted := [''b1'']\<rparr>) @
     relay_chunks [[], ''b2''] = [''b1'', ''b2'']"
proof -
  let ?s = "relay_init [''b1'', [], ''b2''] True"
  have "relay_step ?s (?s\<lparr>pending := [[], ''b2''], emitted := emitted ?s @ [''b1'']\<rparr>)"
    by (rule relay_step.yield) (simp_all add: relay_init_def)
  then have "relay_step\<^sup>*\<^sup>* ?s (?s\<lparr>pending := [[], ''b2''], emitted := [''b1'']\<rparr>)"
    by (simp add: relay_init_def)
  from relay_preserves_order [OF this] show ?thesis by (simp add: relay_init_def)
qed

text \<open>
  C27. Without a cancellation the relay runs to the end of the upstream body:
  from the start it reaches a state in which it has yielded exactly the non-empty
  upstream chunks, the generator has finished (or failed, when the body ends with a
  read error) and the upstream connection is released.  The reply of the
  streaming branch of \<open>chat_completions\<close> is this output.
\<close>

theorem relay_completes:
  "\<exists>s. relay_step\<^sup>*\<^sup>* (relay_init chunks ok) s \<and> emitted s = relay_chunks chunks \<and>
       gen s = (if ok then Finished else Failed) \<and> \<not> upstream_open s"
  using relay_runs_to_end [of "relay_init chunks ok"] by (auto simp: relay_init_def)

text \<open>Every run of the relay is finite: there is no infinite sequence of steps.\<close>

lemma relay_terminates:
  "\<not> (\<forall>n. relay_step (f n) (f (Suc n)))"
proof
  assume chain: "\<forall>n. relay_step (f n) (f (Suc n))"
  have "relay_fuel (f (Suc (relay_fuel (f 0)))) + Suc (relay_fuel (f 0)) \<le> relay_fuel (f 0)"
    using relay_fuel_chain [OF chain] .
  then show False by simp
qed

text \<open>
  A client that disconnects closes the generator but not the upstream
  response: in every reachable cancelled state the upstream connection is still
  held and no further step of the relay can release it.
\<close>

lemma relay_cancel_keeps_upstream:
  assumes "relay_step\<^sup>*\<^sup>* (relay_init chunks ok) s" and "gen s = Cancelled"
  shows "upstream_open s \<and> \<not> (\<exists>t. relay_step s t)"
proof -
  from relay_reach_inv [OF assms(1)] assms(2) have "upstream_open s" by simp
  moreover have "\<not> (\<exists>t. relay_step s t)"
    using assms(2) by (auto elim: relay_step_from)
  ultimately show ?thesis ..
qed

end
