(* ===== verification/Middleware.thy ===== *)
theory Middleware
  imports Compat
begin

text \<open>
  The middleware \<open>OpenClawMiddleware\<close> of \<open>plugins/openclaw/middleware.py\<close> and its
  path filter \<open>should_route_request\<close>.  The middleware only logs: every request is
  handed to the next handler unchanged and its response returned unchanged.  A
  dispatch returns whether the routing line was logged and the response.
\<close>

definition ROUTES :: "string list" where
  "ROUTES = [''/v1/chat/completions'', ''/v1/models'', ''/v1/embeddings'', ''/v1/images'',
             ''/v1/audio'', ''/ollama'', ''/openai'']"

definition should_route_request :: "string \<Rightarrow> bool" where
  "should_route_request path = list_ex (\<lambda>route. py_startswith path route) ROUTES"

definition dispatch ::
  "gateway_config \<Rightarrow> ('q \<Rightarrow> string) \<Rightarrow> ('q \<Rightarrow> 'r) \<Rightarrow> 'q \<Rightarrow> bool \<times> 'r" where
  "dispatch cfg path_of call_next request =
     (if \<not> is_openclaw_enabled cfg then (False, call_next request)
      else (let path = path_of request in (should_route_request path, call_next request)))"

text \<open>
  The middleware is transparent: the response is the next handler's response
  to the same request, and the routing line is logged exactly for an enabled
  integration and a path under one of the routed prefixes.
\<close>

lemma dispatch_transparent:
  "dispatch cfg path_of call_next request =
     (OPENCLAW_ENABLED cfg \<and> (\<exists>route \<in> set ROUTES. prefix route (path_of request)),
      call_next request)"
  by (auto simp: dispatch_def should_route_request_def list_ex_iff Let_def)

text \<open>
  The filter compares prefixes without a segment boundary: \<open>/openai-compat\<close> and
  \<open>/v1/modelsx\<close> count as routed paths.
\<close>

lemma should_route_request_no_boundary:
  "should_route_request ''/openai-compat/x'' \<and> should_route_request ''/v1/modelsx''"
  by (simp add: should_route_request_def ROUTES_def)

end
