(* ===== verification/Webmcp.thy ===== *)
theory Webmcp
  imports Py_Json
begin

text \<open>
  The WebMCP router \<open>plugins/openclaw/routers/webmcp.py\<close>: the fixed list of tool
  definitions that OpenWebUI exposes to agents, the endpoint that renders it and
  the health endpoint.
\<close>

record Tool =
  tool_name :: string
  tool_description :: string
  tool_parameters :: json

definition no_params :: json where
  "no_params = JObj [(''type'', JStr ''object''), (''properties'', JObj [])]"

definition str_param :: "string \<Rightarrow> json" where
  "str_param d = JObj [(''type'', JStr ''string''), (''description'', JStr d)]"

definition WEBMCP_TOOLS :: "Tool list" where
  "WEBMCP_TOOLS =
     [\<lparr>tool_name = ''list_models'', tool_description = ''List all available AI models'',
       tool_parameters = no_params\<rparr>,
      \<lparr>tool_name = ''list_chats'', tool_description = ''List all chats'', tool_parameters = no_params\<rparr>,
      \<lparr>tool_name = ''create_chat'', tool_description = ''Create a new chat'',
       tool_parameters = JObj [(''type'', JStr ''object''),
         (''properties'', JObj [(''title'', str_param ''Chat title''), (''model_id'', str_param ''Model ID to use'')])]\<rparr>,
      \<lparr>tool_name = ''send_message'', tool_description = ''Send a message in a chat'',
       tool_parameters = JObj [(''type'', JStr ''object''),
         (''properties'', JObj [(''chat_id'', str_param ''Chat ID''), (''content'', str_param ''Message content'')])]\<rparr>,
      \<lparr>tool_name = ''get_config'', tool_description = ''Get OpenWebUI configuration'',
       tool_parameters = no_params\<rparr>,
      \<lparr>tool_name = ''health_check'', tool_description = ''Check if OpenWebUI is running'',
       tool_parameters = no_params\<rparr>]"

definition tool_json :: "Tool \<Rightarrow> json" where
  "tool_json t = JObj [(''name'', JStr (tool_name t)), (''description'', JStr (tool_description t)),
                       (''parameters'', tool_parameters t)]"

definition get_webmcp_tools :: json where
  "get_webmcp_tools = JObj [(''version'', JStr ''1.0''), (''tools'', JList (map tool_json WEBMCP_TOOLS))]"

definition webmcp_health :: json where
  "webmcp_health = JObj [(''status'', JStr ''healthy''), (''service'', JStr ''OpenWebUI Lobster Edition''),
                         (''version'', JStr ''1.0.0'')]"

text \<open>The listing names six distinct tools and renders as a well-formed JSON object.\<close>

lemma webmcp_tools_wf:
  "distinct (map tool_name WEBMCP_TOOLS) \<and> length WEBMCP_TOOLS = 6 \<and> wf_json get_webmcp_tools"
  by (simp add: WEBMCP_TOOLS_def tool_json_def get_webmcp_tools_def no_params_def str_param_def)

end
