(* ===== verification/Generative_UI.thy ===== *)
theory Generative_UI
  imports Compat
begin

text \<open>
  The generative-UI plugin, \<open>plugins/generative-ui/__init__.py\<close>: the service
  object with its configuration, the AI-search placeholder, the component
  generator and the AG-UI response builder.  The source dispatches on the
  component type through a dict of bound methods with the text generator as the
  default; here the generators are the constructors of a datatype and the dict is
  an association list from type names to them.  A component spec is a dict of
  JSON values.
\<close>

section \<open>The service\<close>

record GenerativeUIService =
  ui_enabled :: bool
  search_provider :: string
  llm_provider :: string

definition load_ui_service :: "environ \<Rightarrow> GenerativeUIService" where
  "load_ui_service env =
     \<lparr>ui_enabled = (py_lower (environ_get env ''GENERATIVE_UI_ENABLED'' ''true'') = ''true''),
      search_provider = environ_get env ''DEFAULT_SEARCH_PROVIDER'' ''brave'',
      llm_provider = environ_get env ''DEFAULT_LLM_PROVIDER'' ''openclow''\<rparr>"

text \<open>\<open>search(query, provider=None)\<close>: \<open>provider or self.search_provider\<close>, no results yet.\<close>

definition ui_search :: "GenerativeUIService \<Rightarrow> string \<Rightarrow> string option \<Rightarrow> json" where
  "ui_search svc query provider =
     JObj [(''query'', JStr query),
           (''provider'', JStr (py_or (case provider of None \<Rightarrow> [] | Some p \<Rightarrow> p) (search_provider svc))),
           (''results'', JList []), (''generative_answer'', JNull)]"

section \<open>Component generation\<close>

datatype ui_generator = Gen_text | Gen_button | Gen_card | Gen_form | Gen_chart | Gen_table | Gen_list

definition COMPONENTS :: "(string \<times> ui_generator) list" where
  "COMPONENTS = [(''text'', Gen_text), (''button'', Gen_button), (''card'', Gen_card),
                 (''form'', Gen_form), (''chart'', Gen_chart), (''table'', Gen_table), (''list'', Gen_list)]"

text \<open>The seven \<open>_generate_xxx_component\<close> methods.\<close>

fun run_generator :: "ui_generator \<Rightarrow> (string \<times> json) list \<Rightarrow> json" where
  "run_generator Gen_text spec =
     JObj [(''type'', JStr ''text''), (''content'', dict_get spec ''content'' (JStr '''')),
           (''style'', dict_get spec ''style'' (JObj []))]"
| "run_generator Gen_button spec =
     JObj [(''type'', JStr ''button''), (''label'', dict_get spec ''label'' (JStr ''Click'')),
           (''action'', dict_get spec ''action'' (JStr '''')), (''style'', dict_get spec ''style'' (JObj []))]"
| "run_generator Gen_card spec =
     JObj [(''type'', JStr ''card''), (''title'', dict_get spec ''title'' (JStr '''')),
           (''content'', dict_get spec ''content'' (JStr '''')), (''image'', dict_get spec ''image'' JNull),
           (''actions'', dict_get spec ''actions'' (JList []))]"
| "run_generator Gen_form spec =
     JObj [(''type'', JStr ''form''), (''fields'', dict_get spec ''fields'' (JList [])),
           (''submit_action'', dict_get spec ''submit_action'' (JStr ''''))]"
| "run_generator Gen_chart spec =
     JObj [(''type'', JStr ''chart''), (''chart_type'', dict_get spec ''chart_type'' (JStr ''bar'')),
           (''data'', dict_get spec ''data'' (JList [])), (''labels'', dict_get spec ''labels'' (JList []))]"
| "run_generator Gen_table spec =
     JObj [(''type'', JStr ''table''), (''columns'', dict_get spec ''columns'' (JList [])),
           (''rows'', dict_get spec ''rows'' (JList []))]"
| "run_generator Gen_list spec =
     JObj [(''type'', JStr ''list''), (''items'', dict_get spec ''items'' (JList [])),
           (''style'', dict_get spec ''style'' (JStr ''plain''))]"

text \<open>
  \<open>components.get(spec.get("type", "text"), self._generate_text_component)(spec)\<close>:
  a string key selects its generator or the default; \<open>None\<close>, a number or a
  boolean finds nothing; a list or dict is unhashable and raises \<open>TypeError\<close>.
\<close>

definition generate_ui_component :: "(string \<times> json) list \<Rightarrow> py_exc + json" where
  "generate_ui_component spec =
     (case dict_get spec ''type'' (JStr ''text'') of
        JStr t \<Rightarrow> Inr (run_generator (dict_get COMPONENTS t Gen_text) spec)
      | JList _ \<Rightarrow> Inl TypeError
      | JObj _ \<Rightarrow> Inl TypeError
      | _ \<Rightarrow> Inr (run_generator Gen_text spec))"

definition generate_agui_response :: "json list \<Rightarrow> json list option \<Rightarrow> json" where
  "generate_agui_response messages tools =
     JObj [(''protocol'', JStr ''ag-ui''), (''version'', JStr ''1.0''), (''messages'', JList messages),
           (''tools'', JList (case tools of None \<Rightarrow> [] | Some ts \<Rightarrow> ts)), (''ui_components'', JList [])]"

definition ui_get_status :: "GenerativeUIService \<Rightarrow> json" where
  "ui_get_status svc =
     JObj [(''enabled'', JBool (ui_enabled svc)), (''search_provider'', JStr (search_provider svc)),
           (''llm_provider'', JStr (llm_provider svc)),
           (''features'', JList [JStr ''ai_search'', JStr ''generative_components'', JStr ''ag_ui_protocol''])]"

text \<open>The process-wide service \<open>_ui_service\<close>, created on first use.\<close>

definition get_generative_ui_service ::
  "environ \<Rightarrow> GenerativeUIService option \<Rightarrow> GenerativeUIService \<times> GenerativeUIService option" where
  "get_generative_ui_service env slot =
     (case slot of None \<Rightarrow> (load_ui_service env, Some (load_ui_service env)) | Some svc \<Rightarrow> (svc, slot))"

definition json_keys :: "json \<Rightarrow> string list" where
  "json_keys v = (case v of JObj d \<Rightarrow> map fst d | _ \<Rightarrow> [])"

section \<open>The routers\<close>

text \<open>
  \<open>routers/components.py\<close>: the body of a component request is validated as a
  \<open>GenerateComponentRequest\<close> (\<open>type\<close> a string; every other field optional, of
  the declared shape or null) and passed on as \<open>request.dict(exclude_none=False)\<close>:
  the \<open>type\<close> entry followed by every declared field, absent ones at their
  declared default (\<open>None\<close>, or \<open>"bar"\<close> for \<open>chart_type\<close>).  Unknown keys of
  the body are dropped.
\<close>

datatype field_kind = FStr | FDict | FDictList | FListList | FStrList

fun field_ok :: "field_kind \<Rightarrow> json \<Rightarrow> bool" where
  "field_ok _ JNull = True"
| "field_ok FStr v = (case v of JStr _ \<Rightarrow> True | _ \<Rightarrow> False)"
| "field_ok FDict v = (case v of JObj _ \<Rightarrow> True | _ \<Rightarrow> False)"
| "field_ok FDictList v = (case v of JList xs \<Rightarrow> list_all (\<lambda>x. case x of JObj _ \<Rightarrow> True | _ \<Rightarrow> False) xs | _ \<Rightarrow> False)"
| "field_ok FListList v = (case v of JList xs \<Rightarrow> list_all (\<lambda>x. case x of JList _ \<Rightarrow> True | _ \<Rightarrow> False) xs | _ \<Rightarrow> False)"
| "field_ok FStrList v = (case v of JList xs \<Rightarrow> list_all (\<lambda>x. case x of JStr _ \<Rightarrow> True | _ \<Rightarrow> False) xs | _ \<Rightarrow> False)"

definition REQUEST_FIELDS :: "(string \<times> field_kind \<times> json) list" where
  "REQUEST_FIELDS =
     [(''content'', FStr, JNull), (''data'', FDict, JNull), (''style'', FDict, JNull),
      (''fields'', FDictList, JNull), (''items'', FDictList, JNull), (''columns'', FDictList, JNull),
      (''rows'', FListList, JNull), (''chart_type'', FStr, JStr ''bar''), (''labels'', FStrList, JNull),
      (''title'', FStr, JNull), (''image'', FStr, JNull), (''actions'', FDictList, JNull),
      (''label'', FStr, JNull), (''action'', FStr, JNull)]"

definition request_dict :: "(string \<times> json) list \<Rightarrow> py_exc + (string \<times> json) list" where
  "request_dict body =
     (case dict_get body ''type'' JNull of
        JStr t \<Rightarrow>
          (if list_all (\<lambda>(k, kd, dflt). field_ok kd (dict_get body k dflt)) REQUEST_FIELDS
           then Inr ((''type'', JStr t) # map (\<lambda>(k, kd, dflt). (k, dict_get body k dflt)) REQUEST_FIELDS)
           else Inl ValidationError)
      | _ \<Rightarrow> Inl ValidationError)"

definition generate_component :: "(string \<times> json) list \<Rightarrow> py_exc + json" where
  "generate_component body =
     (case request_dict body of
        Inl e \<Rightarrow> Inl e
      | Inr spec \<Rightarrow>
          (case generate_ui_component spec of
             Inl e \<Rightarrow> Inl e
           | Inr c \<Rightarrow> Inr (JObj [(''success'', JBool True), (''component'', c)])))"

text \<open>The batch endpoint: the whole list is validated before the loop runs.\<close>

definition generate_components :: "(string \<times> json) list list \<Rightarrow> py_exc + json" where
  "generate_components bodies =
     (case py_map request_dict bodies of
        Inl e \<Rightarrow> Inl e
      | Inr specs \<Rightarrow>
          (case py_map generate_ui_component specs of
             Inl e \<Rightarrow> Inl e
           | Inr cs \<Rightarrow> Inr (JObj [(''success'', JBool True), (''components'', JList cs),
                                 (''count'', JInt (int (length cs)))])))"

text \<open>\<open>get_component_types\<close>: the advertised catalog of (id, name, description, fields).\<close>

definition COMPONENT_TYPES :: "(string \<times> string \<times> string \<times> string list) list" where
  "COMPONENT_TYPES =
     [(''text'', ''Text'', ''Rich text content'', [''content'', ''style'']),
      (''button'', ''Button'', ''Interactive button'', [''label'', ''action'', ''style'']),
      (''card'', ''Card'', ''Content card with title and image'', [''title'', ''content'', ''image'', ''actions'']),
      (''form'', ''Form'', ''Input form'', [''fields'', ''submit_action'']),
      (''chart'', ''Chart'', ''Data visualization'', [''chart_type'', ''data'', ''labels'']),
      (''table'', ''Table'', ''Data table'', [''columns'', ''rows'']),
      (''list'', ''List'', ''List of items'', [''items'', ''style''])]"

definition get_component_types :: json where
  "get_component_types =
     JObj [(''types'', JList (map (\<lambda>(i, n, d, fs). JObj [(''id'', JStr i), (''name'', JStr n),
             (''description'', JStr d), (''fields'', JList (map JStr fs))]) COMPONENT_TYPES))]"

text \<open>
  \<open>routers/agui.py\<close>, \<open>agui_chat\<close>: messages validated as \<open>Message\<close> (role and
  content strings) and tools as \<open>Tool\<close> (name, description, parameters dict),
  each re-serialised by \<open>.dict()\<close>; \<open>request.tools or []\<close>.  The unused
  \<open>stream\<close> flag is validated as a boolean or null.
\<close>

fun agui_message :: "json \<Rightarrow> py_exc + json" where
  "agui_message (JObj d) =
     (case (dict_get d ''role'' JNull, dict_get d ''content'' JNull) of
        (JStr r, JStr c) \<Rightarrow> Inr (JObj [(''role'', JStr r), (''content'', JStr c)])
      | _ \<Rightarrow> Inl ValidationError)"
| "agui_message _ = Inl ValidationError"

fun agui_tool :: "json \<Rightarrow> py_exc + json" where
  "agui_tool (JObj d) =
     (case (dict_get d ''name'' JNull, dict_get d ''description'' JNull, dict_get d ''parameters'' JNull) of
        (JStr n, JStr ds, JObj ps) \<Rightarrow>
          Inr (JObj [(''name'', JStr n), (''description'', JStr ds), (''parameters'', JObj ps)])
      | _ \<Rightarrow> Inl ValidationError)"
| "agui_tool _ = Inl ValidationError"

definition agui_chat :: "(string \<times> json) list \<Rightarrow> py_exc + json" where
  "agui_chat body =
     (case (dict_get body ''messages'' JNull, dict_get body ''tools'' JNull, dict_get body ''stream'' (JBool False)) of
        (JList ms, tv, sv) \<Rightarrow>
          (if \<not> (case sv of JNull \<Rightarrow> True | JBool _ \<Rightarrow> True | _ \<Rightarrow> False) then Inl ValidationError
           else (case (py_map agui_message ms,
                       (case tv of JNull \<Rightarrow> Inr [] | JList ts \<Rightarrow> py_map agui_tool ts | _ \<Rightarrow> Inl ValidationError)) of
                   (Inr msgs, Inr tools) \<Rightarrow> Inr (generate_agui_response msgs (Some tools))
                 | (Inl e, _) \<Rightarrow> Inl e
                 | (_, Inl e) \<Rightarrow> Inl e))
      | _ \<Rightarrow> Inl ValidationError)"

text \<open>
  \<open>routers/search.py\<close>: both endpoints echo the request's query, provider and mode
  and read \<open>results\<close> and \<open>generative_answer\<close> from the service's search; the
  POST form takes \<open>provider\<close> and \<open>mode\<close> from the body with defaults
  \<open>"brave"\<close> and \<open>"adaptive"\<close>.  The service slot is threaded as in
  \<open>get_generative_ui_service\<close>.
\<close>

definition search_response :: "string \<Rightarrow> json \<Rightarrow> json \<Rightarrow> json \<Rightarrow> json" where
  "search_response q provider mode result =
     (case result of
        JObj r \<Rightarrow> JObj [(''query'', JStr q), (''provider'', provider), (''mode'', mode),
                        (''results'', dict_get r ''results'' (JList [])),
                        (''generative_answer'', dict_get r ''generative_answer'' JNull)]
      | _ \<Rightarrow> JNull)"

definition search_get ::
  "environ \<Rightarrow> GenerativeUIService option \<Rightarrow> string \<Rightarrow> string \<Rightarrow> string \<Rightarrow> json \<times> GenerativeUIService option" where
  "search_get env slot q provider mode =
     (let (svc, slot') = get_generative_ui_service env slot
      in (search_response q (JStr provider) (JStr mode) (ui_search svc q (Some provider)), slot'))"

definition search_post ::
  "environ \<Rightarrow> GenerativeUIService option \<Rightarrow> (string \<times> json) list \<Rightarrow> (py_exc + json) \<times> GenerativeUIService option" where
  "search_post env slot body =
     (case (dict_get body ''query'' JNull, dict_get body ''provider'' (JStr ''brave''), dict_get body ''mode'' (JStr ''adaptive'')) of
        (JStr q, pv, mv) \<Rightarrow>
          (if field_ok FStr pv \<and> field_ok FStr mv
           then (let (svc, slot') = get_generative_ui_service env slot;
                     p = (case pv of JStr p \<Rightarrow> Some p | _ \<Rightarrow> None)
                 in (Inr (search_response q pv mv (ui_search svc q p)), slot'))
           else (Inl ValidationError, slot))
      | _ \<Rightarrow> (Inl ValidationError, slot))"

section \<open>Lemmas\<close>

lemma request_dict_type:
  "request_dict b = Inr spec \<Longrightarrow> \<exists>t. dict_get spec ''type'' (JStr ''text'') = JStr t"
  by (auto simp: request_dict_def split: json.splits if_splits)

lemma generate_ui_component_str:
  "dict_get spec ''type'' (JStr ''text'') = JStr t \<Longrightarrow>
   generate_ui_component spec = Inr (run_generator (dict_get COMPONENTS t Gen_text) spec)"
  by (simp add: generate_ui_component_def)

lemma request_dict_generates:
  "request_dict b = Inr spec \<Longrightarrow> \<exists>c. generate_ui_component spec = Inr c"
  using request_dict_type generate_ui_component_str by blast

lemma py_map_generate_ok:
  "py_map request_dict bodies = Inr specs \<Longrightarrow> \<exists>cs. py_map generate_ui_component specs = Inr cs"
proof (induction bodies arbitrary: specs)
  case Nil then show ?case by simp
next
  case (Cons b bs)
  then obtain s ss where "request_dict b = Inr s" "py_map request_dict bs = Inr ss" "specs = s # ss"
    by (auto split: sum.splits)
  with Cons.IH request_dict_generates show ?case by fastforce
qed

lemma generate_component_seq:
  "generate_component =
   (\<lambda>b. case request_dict b of Inl e \<Rightarrow> Inl e
        | Inr s \<Rightarrow> map_sum id (\<lambda>c. JObj [(''success'', JBool True), (''component'', c)]) (generate_ui_component s))"
  by (rule ext) (simp add: generate_component_def split: sum.splits)

lemma dict_get_COMPONENTS:
  "dict_get COMPONENTS t Gen_text = (case map_of COMPONENTS t of Some g \<Rightarrow> g | None \<Rightarrow> Gen_text)"
  by (simp add: dict_get_def)

text \<open>
  C28. The component generator honours the requested type: for a known type name
  the component it returns has that type, for any other string it falls back to a
  text component; it never fails on a string type.
\<close>

theorem generate_ui_component_type:
  assumes "dict_get spec ''type'' (JStr ''text'') = JStr t"
  shows "\<exists>d. generate_ui_component spec = Inr (JObj d) \<and>
             dict_get d ''type'' JNull = JStr (if t \<in> set (map fst COMPONENTS) then t else ''text'')"
proof (cases "t \<in> set (map fst COMPONENTS)")
  case True
  then have "t = ''text'' \<or> t = ''button'' \<or> t = ''card'' \<or> t = ''form'' \<or> t = ''chart'' \<or>
             t = ''table'' \<or> t = ''list''"
    by (simp add: COMPONENTS_def)
  with assms show ?thesis
    by (elim disjE) (simp_all add: generate_ui_component_def COMPONENTS_def)
next
  case False
  then have "map_of COMPONENTS t = None" by (simp add: map_of_eq_None_iff)
  with False assms show ?thesis
    by (simp add: generate_ui_component_def dict_get_COMPONENTS)
qed

theorem generate_ui_component_type_witness:
  "generate_ui_component [(''type'', JStr ''table''), (''rows'', JList [])] =
     Inr (JObj [(''type'', JStr ''table''), (''columns'', JList []), (''rows'', JList [])]) \<and>
   generate_ui_component [(''type'', JStr ''video'')] =
     Inr (JObj [(''type'', JStr ''text''), (''content'', JStr ''''), (''style'', JObj [])])"
proof -
  obtain d where "generate_ui_component [(''type'', JStr ''video'')] = Inr (JObj d)"
      and "dict_get d ''type'' JNull = JStr ''text''"
    using generate_ui_component_type [of "[(''type'', JStr ''video'')]" "''video''"]
    by (auto simp: COMPONENTS_def)
  then show ?thesis
    by (simp add: generate_ui_component_def COMPONENTS_def)
qed

text \<open>
  C29. A batch request behaves as the single-component endpoint applied to each
  item in order: it succeeds exactly when every item would, with the components
  in request order and a count equal to the number of items.
\<close>

theorem generate_components_pointwise:
  "generate_components bodies = Inr r \<longleftrightarrow>
   (\<exists>cs. py_map generate_component bodies = Inr (map (\<lambda>c. JObj [(''success'', JBool True), (''component'', c)]) cs) \<and>
        r = JObj [(''success'', JBool True), (''components'', JList cs), (''count'', JInt (int (length bodies)))])"
proof -
  have seq: "py_map generate_component bodies =
      (case py_map request_dict bodies of Inl e \<Rightarrow> Inl e
       | Inr ys \<Rightarrow> map_sum id (map (\<lambda>c. JObj [(''success'', JBool True), (''component'', c)])) (py_map generate_ui_component ys))"
    unfolding generate_component_seq by (rule py_map_seq) (rule request_dict_generates)
  show ?thesis
  proof (cases "py_map request_dict bodies")
    case (Inl e)
    then show ?thesis by (simp add: seq generate_components_def)
  next
    case (Inr specs)
    then obtain cs where cs: "py_map generate_ui_component specs = Inr cs"
      using py_map_generate_ok by blast
    have "length cs = length bodies"
      using py_map_Inr_length [OF cs] py_map_Inr_length [OF Inr] by simp
    with Inr cs show ?thesis
      by (auto simp: seq generate_components_def inj_map_eq_map inj_on_def)
  qed
qed

text \<open>
  The advertised catalog of component types lists exactly the types the
  generator dispatches, and for each type the fields it advertises are exactly
  the fields (after \<open>type\<close>) of the component its generator produces.
\<close>

lemma component_types_match_generators:
  "map fst COMPONENTS = map fst COMPONENT_TYPES \<and>
   list_all (\<lambda>(tid, nm, desc, fs). json_keys (run_generator (dict_get COMPONENTS tid Gen_text) spec) = ''type'' # fs)
     COMPONENT_TYPES"
  by (simp add: COMPONENTS_def COMPONENT_TYPES_def json_keys_def)

text \<open>
  Through the component router the generators' own defaults never apply:
  \<open>request.dict(exclude_none=False)\<close> passes every absent optional field as
  \<open>None\<close>, so a bare button request yields label, action and style \<open>null\<close>
  instead of \<open>"Click"\<close>, \<open>""\<close> and \<open>{}\<close>.
\<close>

lemma router_defaults_shadow_generator_defaults:
  "generate_component [(''type'', JStr ''button'')] =
   Inr (JObj [(''success'', JBool True), (''component'', JObj [(''type'', JStr ''button''), (''label'', JNull), (''action'', JNull), (''style'', JNull)])])"
  by (simp add: generate_component_def request_dict_def REQUEST_FIELDS_def generate_ui_component_def COMPONENTS_def)

text \<open>
  A form's \<open>submit_action\<close> is advertised by \<open>get_component_types\<close> but is not
  a field of \<open>GenerateComponentRequest\<close>: the router drops it and the form always
  submits to the empty action.
\<close>

lemma form_submit_action_unreachable:
  "generate_component [(''type'', JStr ''form''), (''submit_action'', JStr ''/go'')] =
   Inr (JObj [(''success'', JBool True), (''component'', JObj [(''type'', JStr ''form''), (''fields'', JNull), (''submit_action'', JStr '''')])])"
  by (simp add: generate_component_def request_dict_def REQUEST_FIELDS_def generate_ui_component_def COMPONENTS_def)text \<open>
  An explicit \<open>"provider": null\<close> passes validation; the service then searches
  with its default provider, while the response reports \<open>null\<close>.
\<close>

lemma search_post_null_provider:
  "search_post Map.empty None [(''query'', JStr ''q''), (''provider'', JNull)] =
     (Inr (JObj [(''query'', JStr ''q''), (''provider'', JNull), (''mode'', JStr ''adaptive''),
                 (''results'', JList []), (''generative_answer'', JNull)]),
      Some (load_ui_service Map.empty)) \<and>
   ui_search (load_ui_service Map.empty) ''q'' None =
     JObj [(''query'', JStr ''q''), (''provider'', JStr ''brave''), (''results'', JList []),
           (''generative_answer'', JNull)]"
  by (simp add: search_post_def get_generative_ui_service_def ui_search_def search_response_def
      load_ui_service_def environ_get_def)

text \<open>
  The AG-UI chat handler re-serialises each message through its model, dropping
  every key other than \<open>role\<close> and \<open>content\<close>, and answers an absent
  \<open>tools\<close> with an empty list.
\<close>

lemma agui_chat_normalises:
  "agui_chat [(''messages'', JList [JObj [(''role'', JStr ''user''), (''content'', JStr ''hi''), (''name'', JStr ''x'')]])] =
     Inr (JObj [(''protocol'', JStr ''ag-ui''), (''version'', JStr ''1.0''),
                (''messages'', JList [JObj [(''role'', JStr ''user''), (''content'', JStr ''hi'')]]),
                (''tools'', JList []), (''ui_components'', JList [])])"
  by (simp add: agui_chat_def generate_agui_response_def)

end
