(* ===== verification/UI_Schema.thy ===== *)
theory UI_Schema
  imports Generative_UI
begin

text \<open>
  The descriptive endpoints of the generative-UI routers: the AG-UI protocol
  information and component schemas of \<open>routers/agui.py\<close>, and the search
  provider and mode catalogs of \<open>routers/search.py\<close>.  The component schemas are
  JSON Schema documents; \<open>conforms\<close> reads them as JSON Schema does (an object
  whose listed properties, where present, have the listed type; other keys are
  allowed), which gives a typing of generated components against the schemas the
  plugin itself advertises.
\<close>

section \<open>AG-UI protocol endpoints\<close>

definition get_protocol_info :: json where
  "get_protocol_info =
     JObj [(''protocol'', JStr ''ag-ui''), (''version'', JStr ''1.0''),
           (''description'', JStr ''Agent-Generated UI Protocol''),
           (''specification'', JStr ''https://docs.copilotkit.ai/generative-ui''),
           (''features'', JList (map JStr [''dynamic_components'', ''tool_execution'', ''state_management'',
                                          ''human_in_the_loop'']))]"

definition prop_type :: "string \<Rightarrow> json" where
  "prop_type ty = JObj [(''type'', JStr ty)]"

definition object_schema :: "(string \<times> string) list \<Rightarrow> json" where
  "object_schema props = JObj [(''type'', JStr ''object''), (''properties'', JObj (map (\<lambda>(k, ty). (k, prop_type ty)) props))]"

text \<open>The \<open>components\<close> list of \<open>get_agui_components\<close>: a type and its schema.\<close>

definition AGUI_COMPONENTS :: "(string \<times> json) list" where
  "AGUI_COMPONENTS =
     [(''text'', object_schema [(''content'', ''string''), (''style'', ''object'')]),
      (''button'', object_schema [(''label'', ''string''), (''action'', ''string'')]),
      (''card'', object_schema [(''title'', ''string''), (''content'', ''string''), (''image'', ''string''),
                                (''actions'', ''array'')]),
      (''form'', object_schema [(''fields'', ''array''), (''submit_action'', ''string'')]),
      (''chart'', object_schema [(''chart_type'', ''string''), (''data'', ''array''), (''labels'', ''array'')])]"

definition get_agui_components :: json where
  "get_agui_components =
     JObj [(''components'', JList (map (\<lambda>(t, sch). JObj [(''type'', JStr t), (''schema'', sch)]) AGUI_COMPONENTS))]"

section \<open>Search catalogs\<close>

definition SEARCH_MODES :: json where
  "SEARCH_MODES =
     JList [JObj [(''id'', JStr ''quick''), (''name'', JStr ''Quick''), (''description'', JStr ''Fast, concise results'')],
            JObj [(''id'', JStr ''planning''), (''name'', JStr ''Planning''), (''description'', JStr ''Detailed analysis'')],
            JObj [(''id'', JStr ''adaptive''), (''name'', JStr ''Adaptive''), (''description'', JStr ''AI-selected mode'')]]"

definition SEARCH_PROVIDERS :: json where
  "SEARCH_PROVIDERS =
     JList [JObj [(''id'', JStr ''brave''), (''name'', JStr ''Brave Search'')],
            JObj [(''id'', JStr ''searxng''), (''name'', JStr ''SearXNG'')],
            JObj [(''id'', JStr ''exa''), (''name'', JStr ''Exa'')],
            JObj [(''id'', JStr ''tavily''), (''name'', JStr ''Tavily'')]]"

definition get_search_providers :: json where
  "get_search_providers = JObj [(''providers'', SEARCH_PROVIDERS), (''modes'', SEARCH_MODES)]"

definition get_search_modes :: json where
  "get_search_modes = JObj [(''modes'', SEARCH_MODES)]"

section \<open>Reading a schema\<close>

text \<open>A value has a JSON Schema primitive type; an unknown type name constrains nothing.\<close>

definition has_json_type :: "string \<Rightarrow> json \<Rightarrow> bool" where
  "has_json_type ty v =
     (if ty = ''string'' then (case v of JStr _ \<Rightarrow> True | _ \<Rightarrow> False)
      else if ty = ''object'' then (case v of JObj _ \<Rightarrow> True | _ \<Rightarrow> False)
      else if ty = ''array'' then (case v of JList _ \<Rightarrow> True | _ \<Rightarrow> False)
      else True)"

definition prop_ok :: "(string \<times> json) list \<Rightarrow> string \<times> json \<Rightarrow> bool" where
  "prop_ok d kp =
     (case snd kp of
        JObj ps \<Rightarrow> (case dict_get ps ''type'' JNull of
                     JStr ty \<Rightarrow> (if dict_has d (fst kp) then has_json_type ty (dict_get d (fst kp) JNull) else True)
                   | _ \<Rightarrow> True)
      | _ \<Rightarrow> True)"

definition conforms :: "json \<Rightarrow> json \<Rightarrow> bool" where
  "conforms sch v =
     (case sch of
        JObj s \<Rightarrow>
          (case dict_get s ''type'' JNull of JStr ty \<Rightarrow> has_json_type ty v | _ \<Rightarrow> True) \<and>
          (case (v, dict_get s ''properties'' (JObj [])) of
             (JObj d, JObj props) \<Rightarrow> list_all (prop_ok d) props
           | _ \<Rightarrow> True)
      | _ \<Rightarrow> True)"

text \<open>The generators' defaults for the schema properties, by property name.\<close>

definition gen_default :: "string \<Rightarrow> json" where
  "gen_default k =
     (if k \<in> set [''actions'', ''fields'', ''data'', ''labels''] then JList []
      else if k = ''style'' then JObj [] else if k = ''label'' then JStr ''Click''
      else if k = ''chart_type'' then JStr ''bar'' else JStr [])"

section \<open>Typing generated components against the advertised schemas\<close>

lemma conforms_object_schema:
  "conforms (object_schema props) v \<longleftrightarrow>
   (case v of JObj d \<Rightarrow> list_all (\<lambda>kt. if dict_has d (fst kt) then has_json_type (snd kt) (dict_get d (fst kt) JNull) else True) props
    | _ \<Rightarrow> False)"
proof -
  have "prop_ok d (fst kt, prop_type (snd kt)) =
        (if dict_has d (fst kt) then has_json_type (snd kt) (dict_get d (fst kt) JNull) else True)" for d kt
    by (simp add: prop_ok_def prop_type_def)
  then show ?thesis
    by (cases v) (simp_all add: conforms_def object_schema_def has_json_type_def list_all_iff split_def)
qed

lemma typed_default:
  "has_json_type ty dflt \<Longrightarrow> (if dict_has d k then has_json_type ty (dict_get d k JNull) else True) \<Longrightarrow>
   has_json_type ty (dict_get d k dflt)"
  by (auto simp: dict_get_def dict_has_def split: option.splits if_splits)

lemma dict_get_has_dflt: "dict_has d k \<Longrightarrow> dict_get d k a = dict_get d k b"
  by (auto simp: dict_get_def dict_has_def)

lemma conforms_copy:
  assumes "conforms (object_schema props) (JObj spec)"
    and "list_all (\<lambda>kt. dict_has out (fst kt) \<and> dict_get out (fst kt) JNull = dict_get spec (fst kt) (dflt (fst kt)) \<and>
                        has_json_type (snd kt) (dflt (fst kt))) props"
  shows "conforms (object_schema props) (JObj out)"
  using assms by (fastforce simp: conforms_object_schema list_all_iff intro: typed_default)

lemma dict_get_has_str: "dict_has d k \<Longrightarrow> dict_get d k JNull = dict_get d k (JStr [])"
  by (rule dict_get_has_dflt)

lemma agui_generators_typed:
  "list_all (\<lambda>(t, sch). \<forall>spec. conforms sch (JObj spec) \<longrightarrow> (t \<noteq> ''card'' \<or> dict_has spec ''image'') \<longrightarrow>
       conforms sch (run_generator (dict_get COMPONENTS t Gen_text) spec)) AGUI_COMPONENTS"
  unfolding AGUI_COMPONENTS_def
  by (simp add: COMPONENTS_def;
      intro conjI allI impI;
      rule conforms_copy [where dflt = gen_default];
      simp add: gen_default_def has_json_type_def dict_get_has_str)

text \<open>
  C30. Type preservation of the component generator: when the spec's type is one
  the AG-UI catalog advertises and the spec's fields have the types of that
  type's schema, the generated component has the schema too; for a card, the
  spec must supply \<open>image\<close>, whose generator default \<open>None\<close> is not a string.
\<close>

theorem generated_components_typed:
  assumes "dict_get spec ''type'' (JStr ''text'') = JStr t"
    and "map_of AGUI_COMPONENTS t = Some sch"
    and "conforms sch (JObj spec)"
    and "t \<noteq> ''card'' \<or> dict_has spec ''image''"
  shows "\<exists>c. generate_ui_component spec = Inr c \<and> conforms sch c"
proof -
  from assms(2) have "(t, sch) \<in> set AGUI_COMPONENTS" by (rule map_of_SomeD)
  with agui_generators_typed assms(3,4)
  have "conforms sch (run_generator (dict_get COMPONENTS t Gen_text) spec)"
    by (fastforce simp: list_all_iff)
  with assms(1) show ?thesis by (simp add: generate_ui_component_def)
qed

theorem generated_components_typed_witness:
  "\<exists>c. generate_ui_component [(''type'', JStr ''card''), (''title'', JStr ''T''), (''image'', JStr ''i.png'')] = Inr c \<and>
       conforms (object_schema [(''title'', ''string''), (''content'', ''string''), (''image'', ''string''),
                                (''actions'', ''array'')]) c"
  by (rule generated_components_typed [where t = "''card''"])
     (simp_all add: AGUI_COMPONENTS_def conforms_object_schema has_json_type_def)

text \<open>
  Where typing fails: a card without image carries \<open>image: null\<close>, and through the
  component router the request model passes \<open>data\<close> as a dict (the schema says
  array) and every absent field as \<open>null\<close>.
\<close>

lemma card_without_image_untyped:
  "generate_ui_component [(''type'', JStr ''card'')] =
     Inr (JObj [(''type'', JStr ''card''), (''title'', JStr []), (''content'', JStr []), (''image'', JNull),
                (''actions'', JList [])]) \<and>
   \<not> conforms (object_schema [(''title'', ''string''), (''content'', ''string''), (''image'', ''string''),
                              (''actions'', ''array'')])
       (JObj [(''type'', JStr ''card''), (''title'', JStr []), (''content'', JStr []), (''image'', JNull),
              (''actions'', JList [])])"
  by (simp add: generate_ui_component_def COMPONENTS_def conforms_object_schema has_json_type_def)

lemma router_components_untyped:
  "generate_component [(''type'', JStr ''chart''), (''data'', JObj [])] =
     Inr (JObj [(''success'', JBool True), (''component'', JObj [(''type'', JStr ''chart''), (''chart_type'', JStr ''bar''),
                (''data'', JObj []), (''labels'', JNull)])]) \<and>
   \<not> conforms (object_schema [(''chart_type'', ''string''), (''data'', ''array''), (''labels'', ''array'')])
       (JObj [(''type'', JStr ''chart''), (''chart_type'', JStr ''bar''), (''data'', JObj []), (''labels'', JNull)])"
  by (simp add: generate_component_def request_dict_def REQUEST_FIELDS_def generate_ui_component_def COMPONENTS_def
      conforms_object_schema has_json_type_def)

end
