(* ===== verification/Control.thy ===== *)
theory Control
  imports Py_Json
begin

text \<open>
  The administrative routers of \<open>plugins/openclaw_control/routers/\<close>: logs,
  usage, cron jobs, sessions, agents and nodes.  They return fixed sample data
  or echo their path parameter; the logs endpoint filters its sample and slices
  it, the usage endpoint validates its \<open>period\<close> against the pattern
  \<open>^(day|week|month|year)$\<close>.  Values that depend on the clock
  (\<open>datetime.now().isoformat()\<close>) are a parameter \<open>now\<close>; Python's per-process
  string hash is a parameter \<open>str_hash\<close>.  FastAPI's validation of a query
  parameter is an \<open>Inl ValidationError\<close> (the 422 answer).
\<close>

section \<open>Logs\<close>

definition log_entry :: "string \<Rightarrow> string \<Rightarrow> string \<Rightarrow> string \<Rightarrow> json" where
  "log_entry ts lvl src msg =
     JObj [(''timestamp'', JStr ts), (''level'', JStr lvl), (''source'', JStr src), (''message'', JStr msg)]"

definition sample_logs :: "string \<Rightarrow> json list" where
  "sample_logs now =
     [log_entry now ''info'' ''gateway'' ''Gateway started'',
      log_entry now ''info'' ''channel:telegram'' ''Telegram channel connected'']"

text \<open>\<open>l["key"]\<close> on an entry, read as the string it holds.\<close>

definition entry_str :: "string \<Rightarrow> json \<Rightarrow> string" where
  "entry_str k l = (case l of JObj d \<Rightarrow> (case dict_get d k JNull of JStr s \<Rightarrow> s | _ \<Rightarrow> []) | _ \<Rightarrow> [])"

text \<open>\<open>if level: logs = [l for l in logs if l["level"] == level]\<close>, and the same for \<open>source in l["source"]\<close>.\<close>

definition filter_level :: "string option \<Rightarrow> json list \<Rightarrow> json list" where
  "filter_level level logs =
     (case level of Some lv \<Rightarrow> if lv \<noteq> [] then filter (\<lambda>l. entry_str ''level'' l = lv) logs else logs
      | None \<Rightarrow> logs)"

definition filter_source :: "string option \<Rightarrow> json list \<Rightarrow> json list" where
  "filter_source source logs =
     (case source of Some src \<Rightarrow> if src \<noteq> [] then filter (\<lambda>l. py_contains src (entry_str ''source'' l)) logs else logs
      | None \<Rightarrow> logs)"

definition get_logs :: "string \<Rightarrow> int \<Rightarrow> string option \<Rightarrow> string option \<Rightarrow> py_exc + json" where
  "get_logs now limit level source =
     (if 1000 < limit then Inl ValidationError
      else Inr (JObj [(''logs'', JList (py_slice_to (filter_source source (filter_level level (sample_logs now))) limit))]))"

definition get_log_sources :: json where
  "get_log_sources =
     JObj [(''sources'', JList (map JStr [''gateway'', ''channel:telegram'', ''channel:discord'', ''agent'', ''tools'', ''scheduler'']))]"

section \<open>Usage\<close>

definition USAGE_PERIODS :: "string list" where
  "USAGE_PERIODS = [''day'', ''week'', ''month'', ''year'']"

definition get_usage :: "string \<Rightarrow> py_exc + json" where
  "get_usage period =
     (if period \<in> set USAGE_PERIODS then
        Inr (JObj [(''period'', JStr period), (''total_requests'', JInt 1250), (''total_tokens'', JInt 450000),
                   (''total_cost'', JFloat 0 2),
                   (''by_model'', JObj [(''minimax-portal/MiniMax-M2.5'', JObj [(''requests'', JInt 800), (''tokens'', JInt 350000)]),
                                        (''lmstudio/qwen3-coder-next'', JObj [(''requests'', JInt 450), (''tokens'', JInt 100000)])]),
                   (''by_channel'', JObj [(''telegram'', JInt 600), (''whatsapp'', JInt 300), (''discord'', JInt 200),
                                          (''direct'', JInt 150)])])
      else Inl ValidationError)"

definition get_usage_overview :: json where
  "get_usage_overview =
     JObj [(''total_requests_today'', JInt 150), (''total_tokens_today'', JInt 55000), (''active_sessions'', JInt 3),
           (''active_agents'', JInt 2), (''uptime'', JStr ''24h'')]"

definition get_model_usage :: json where
  "get_model_usage =
     JObj [(''models'', JList
       [JObj [(''id'', JStr ''minimax-portal/MiniMax-M2.5''), (''name'', JStr ''MiniMax M2.5''), (''requests'', JInt 800),
              (''tokens'', JInt 350000), (''percentage'', JInt 64)],
        JObj [(''id'', JStr ''lmstudio/qwen3-coder-next''), (''name'', JStr ''Qwen3 Coder''), (''requests'', JInt 450),
              (''tokens'', JInt 100000), (''percentage'', JInt 36)]])]"

section \<open>Cron jobs, sessions, agents, nodes\<close>

definition list_cron_jobs :: "string \<Rightarrow> json" where
  "list_cron_jobs now =
     JObj [(''jobs'', JList [JObj [(''id'', JStr ''heartbeat''), (''name'', JStr ''Heartbeat Check''),
       (''schedule'', JStr ''0 * * * *''), (''enabled'', JBool True), (''last_run'', JStr now), (''next_run'', JNull),
       (''status'', JStr ''idle'')]])]"

text \<open>
  \<open>"job_" + str(hash(job.get("name", "unnamed")))\<close>: \<open>py_hash\<close> is the
  process's \<open>hash\<close> on hashable values (randomised per process for strings);
  a list or dict name is unhashable and raises \<open>TypeError\<close>.
\<close>

definition create_cron_job :: "(json \<Rightarrow> int) \<Rightarrow> (string \<times> json) list \<Rightarrow> py_exc + json" where
  "create_cron_job py_hash job =
     (case dict_get job ''name'' (JStr ''unnamed'') of
        JList _ \<Rightarrow> Inl TypeError
      | JObj _ \<Rightarrow> Inl TypeError
      | v \<Rightarrow> Inr (JObj [(''id'', JStr (''job_'' @ py_str_int (py_hash v))), (''status'', JStr ''created'')]))"

definition delete_cron_job :: "string \<Rightarrow> json" where
  "delete_cron_job job_id = JObj [(''status'', JStr ''deleted'')]"

definition run_cron_job :: "string \<Rightarrow> json" where
  "run_cron_job job_id = JObj [(''status'', JStr ''triggered'')]"

definition SESSIONS :: "json list" where
  "SESSIONS =
     [JObj [(''id'', JStr ''main''), (''agent_id'', JStr ''main''), (''channel'', JStr ''telegram''),
            (''status'', JStr ''active''), (''created_at'', JStr ''2026-02-15T10:00:00Z''),
            (''last_activity'', JStr ''2026-02-15T22:00:00Z'')]]"

definition list_sessions :: json where
  "list_sessions = JObj [(''sessions'', JList SESSIONS)]"

definition send_session_message :: "string \<Rightarrow> json \<Rightarrow> json" where
  "send_session_message session_id message = JObj [(''status'', JStr ''ok''), (''message_id'', JStr ''msg_123'')]"

definition end_session :: "string \<Rightarrow> json" where
  "end_session session_id = JObj [(''status'', JStr ''ended'')]"

definition AGENTS :: "json list" where
  "AGENTS =
     [JObj [(''id'', JStr ''main''), (''name'', JStr ''DuckBot''), (''status'', JStr ''online''),
            (''agent_id'', JStr ''main''), (''workspace'', JStr ''default''),
            (''model'', JStr ''minimax-portal/MiniMax-M2.5''),
            (''capabilities'', JList (map JStr [''chat'', ''browser'', ''tools'']))]]"

definition list_agents :: json where
  "list_agents = JObj [(''agents'', JList AGENTS)]"

definition send_agent_message :: "string \<Rightarrow> json \<Rightarrow> json" where
  "send_agent_message agent_id message = JObj [(''status'', JStr ''ok''), (''message_id'', JStr ''msg_123'')]"

definition NODES :: "json list" where
  "NODES =
     [JObj [(''id'', JStr ''duckbot-linux''), (''name'', JStr ''DuckBot (Linux)''), (''platform'', JStr ''linux''),
            (''status'', JStr ''online''), (''last_seen'', JStr ''2026-02-15T22:00:00Z''),
            (''capabilities'', JList (map JStr [''chat'', ''browser'', ''voice'']))],
      JObj [(''id'', JStr ''agent-smith''), (''name'', JStr ''Agent Smith (Windows)''), (''platform'', JStr ''windows''),
            (''status'', JStr ''online''), (''last_seen'', JStr ''2026-02-15T22:00:00Z''),
            (''capabilities'', JList (map JStr [''chat'', ''comfyui'', ''code'']))]]"

definition list_nodes :: json where
  "list_nodes = JObj [(''nodes'', JList NODES)]"

definition invoke_node :: "string \<Rightarrow> json \<Rightarrow> json" where
  "invoke_node node_id command = JObj [(''status'', JStr ''ok''), (''result'', JStr ''Command executed'')]"

definition get_session :: "string \<Rightarrow> json" where
  "get_session session_id =
     JObj [(''id'', JStr session_id), (''agent_id'', JStr ''main''), (''channel'', JStr ''telegram''),
           (''status'', JStr ''active'')]"

definition get_agent :: "string \<Rightarrow> json" where
  "get_agent agent_id =
     JObj [(''id'', JStr agent_id), (''name'', JStr ''DuckBot''), (''status'', JStr ''online''),
           (''agent_id'', JStr agent_id), (''workspace'', JStr ''default'')]"

definition get_node :: "string \<Rightarrow> json" where
  "get_node node_id =
     JObj [(''id'', JStr node_id), (''name'', JStr ''Node''), (''platform'', JStr ''linux''), (''status'', JStr ''online'')]"

section \<open>Reading the reports\<close>

text \<open>
  A record fetched by id agrees with the listed record: every field the lookup
  returns is a field of the listed record with the same value.
\<close>

definition agrees :: "json \<Rightarrow> json \<Rightarrow> bool" where
  "agrees listed fetched =
     (case (listed, fetched) of
        (JObj l, JObj f) \<Rightarrow> list_all (\<lambda>kv. map_of l (fst kv) = Some (snd kv)) f
      | _ \<Rightarrow> False)"

definition obj_get :: "string \<Rightarrow> json \<Rightarrow> json" where
  "obj_get k v = (case v of JObj d \<Rightarrow> dict_get d k JNull | _ \<Rightarrow> JNull)"

definition obj_values :: "json \<Rightarrow> json list" where
  "obj_values v = (case v of JObj d \<Rightarrow> map snd d | _ \<Rightarrow> [])"

definition int_val :: "json \<Rightarrow> int" where
  "int_val v = (case v of JInt i \<Rightarrow> i | _ \<Rightarrow> 0)"

section \<open>Lemmas\<close>

lemma filter_level_subseq: "subseq (filter_level level logs) logs"
  by (simp add: filter_level_def split: option.splits)

lemma filter_source_subseq: "subseq (filter_source source logs) logs"
  by (simp add: filter_source_def split: option.splits)

lemma filter_level_sat:
  "list_all (\<lambda>l. case level of Some lv \<Rightarrow> lv = [] \<or> entry_str ''level'' l = lv | None \<Rightarrow> True) (filter_level level logs)"
  by (auto simp: filter_level_def list_all_iff split: option.splits)

lemma filter_source_sat:
  "list_all (\<lambda>l. case source of Some src \<Rightarrow> src = [] \<or> py_contains src (entry_str ''source'' l) | None \<Rightarrow> True)
     (filter_source source logs)"
  by (auto simp: filter_source_def list_all_iff split: option.splits)

lemma filter_source_level_sat:
  "list_all (\<lambda>l. case level of Some lv \<Rightarrow> lv = [] \<or> entry_str ''level'' l = lv | None \<Rightarrow> True)
     (filter_source source (filter_level level logs))"
  using filter_level_sat [of level logs]
  by (auto simp: filter_source_def list_all_iff split: option.splits)

text \<open>
  C31. The logs endpoint answers only for \<open>limit <= 1000\<close>, with entries of its
  sample in their order, each matching the requested level and containing the
  requested source, and at most \<open>limit\<close> of them when \<open>limit\<close> is not negative.
\<close>

theorem get_logs_filters:
  assumes "get_logs now limit level source = Inr r"
  shows "\<exists>ls. r = JObj [(''logs'', JList ls)] \<and> limit \<le> 1000 \<and> subseq ls (sample_logs now) \<and>
           list_all (\<lambda>l. case level of Some lv \<Rightarrow> lv = [] \<or> entry_str ''level'' l = lv | None \<Rightarrow> True) ls \<and>
           list_all (\<lambda>l. case source of Some src \<Rightarrow> src = [] \<or> py_contains src (entry_str ''source'' l) | None \<Rightarrow> True) ls \<and>
           (0 \<le> limit \<longrightarrow> length ls \<le> nat limit)"
proof -
  let ?fl = "filter_source source (filter_level level (sample_logs now))"
  from assms have r: "r = JObj [(''logs'', JList (py_slice_to ?fl limit))]" and lim: "limit \<le> 1000"
    by (simp_all add: get_logs_def split: if_splits)
  have pre: "prefix (py_slice_to ?fl limit) ?fl" by (rule py_slice_to_prefix)
  have "subseq ?fl (sample_logs now)"
    using filter_source_subseq filter_level_subseq subseq_order.order_trans by blast
  moreover have "subseq (py_slice_to ?fl limit) ?fl" using pre by (rule prefix_imp_subseq)
  ultimately have sub: "subseq (py_slice_to ?fl limit) (sample_logs now)"
    using subseq_order.order_trans by blast
  have lv: "list_all (\<lambda>l. case level of Some lv \<Rightarrow> lv = [] \<or> entry_str ''level'' l = lv | None \<Rightarrow> True) (py_slice_to ?fl limit)"
    using filter_source_level_sat [of level source "sample_logs now"] pre
    by (auto simp: list_all_iff dest: set_mono_prefix)
  have src: "list_all (\<lambda>l. case source of Some src \<Rightarrow> src = [] \<or> py_contains src (entry_str ''source'' l) | None \<Rightarrow> True)
               (py_slice_to ?fl limit)"
    using filter_source_sat [of source "filter_level level (sample_logs now)"] pre
    by (auto simp: list_all_iff dest: set_mono_prefix)
  have "0 \<le> limit \<longrightarrow> length (py_slice_to ?fl limit) \<le> nat limit" by simp
  with r lim sub lv src show ?thesis by blast
qed

theorem get_logs_filters_witness:
  "get_logs ''t0'' 5 (Some ''info'') (Some ''telegram'') =
     Inr (JObj [(''logs'', JList [log_entry ''t0'' ''info'' ''channel:telegram'' ''Telegram channel connected''])]) \<and>
   subseq [log_entry ''t0'' ''info'' ''channel:telegram'' ''Telegram channel connected''] (sample_logs ''t0'')"
proof -
  have r: "get_logs ''t0'' 5 (Some ''info'') (Some ''telegram'') =
     Inr (JObj [(''logs'', JList [log_entry ''t0'' ''info'' ''channel:telegram'' ''Telegram channel connected''])])"
    by (simp add: get_logs_def filter_level_def filter_source_def sample_logs_def log_entry_def entry_str_def)
  from get_logs_filters [OF r] r show ?thesis by simp
qed

text \<open>
  \<open>limit\<close> has an upper bound but no lower one, and \<open>logs[:limit]\<close> reads a
  negative limit from the end: \<open>limit=-1\<close> drops the last entry instead of
  being rejected.
\<close>

lemma get_logs_negative_limit:
  "get_logs now (-1) None None = Inr (JObj [(''logs'', JList [log_entry now ''info'' ''gateway'' ''Gateway started''])])"
  by (simp add: get_logs_def py_slice_to_def filter_level_def filter_source_def sample_logs_def)

text \<open>
  The usage report is consistent: the per-model request and token counts
  add up to the totals, and so do the per-channel request counts.
\<close>

lemma usage_totals_consistent:
  assumes "get_usage period = Inr u"
  shows "sum_list (map (\<lambda>m. int_val (obj_get ''requests'' m)) (obj_values (obj_get ''by_model'' u))) =
           int_val (obj_get ''total_requests'' u) \<and>
         sum_list (map (\<lambda>m. int_val (obj_get ''tokens'' m)) (obj_values (obj_get ''by_model'' u))) =
           int_val (obj_get ''total_tokens'' u) \<and>
         sum_list (map int_val (obj_values (obj_get ''by_channel'' u))) = int_val (obj_get ''total_requests'' u)"
  using assms by (auto simp: get_usage_def obj_get_def obj_values_def int_val_def split: if_splits)

text \<open>
  Listing and lookup agree for sessions and agents: looking up a listed
  session or agent by its id returns fields that all agree with the listing.
\<close>

lemma lookups_agree_with_listings:
  "list_all (\<lambda>x. agrees x (get_session (entry_str ''id'' x))) SESSIONS \<and>
   list_all (\<lambda>x. agrees x (get_agent (entry_str ''id'' x))) AGENTS"
  by (simp add: SESSIONS_def AGENTS_def get_session_def get_agent_def agrees_def entry_str_def)

text \<open>
  The node lookup does not agree with the node listing: it reports every node as
  \<open>Node\<close> on \<open>linux\<close>, so \<open>agent-smith\<close> (listed on \<open>windows\<close>) and even
  \<open>duckbot-linux\<close> (listed as \<open>DuckBot (Linux)\<close>) disagree.
\<close>

lemma node_lookup_disagrees:
  "list_all (\<lambda>x. \<not> agrees x (get_node (entry_str ''id'' x))) NODES"
  by (simp add: NODES_def get_node_def agrees_def entry_str_def)

end
