(* ===== verification/Control_Models.thy ===== *)
theory Control_Models
  imports Control
begin

text \<open>
  The pydantic models the control routers declare (\<open>LogEntry\<close>, \<open>CronJob\<close>,
  \<open>SessionInfo\<close>, \<open>AgentInfo\<close>, \<open>NodeInfo\<close>) as field specifications, and
  \<open>validates\<close>, which reads a JSON object as pydantic v2 validation does: a
  required field must be present with its type, an optional one may be absent or
  null, a field with a default may be absent, extra keys are ignored.  No endpoint
  passes its answer through these models (none is a \<open>response_model\<close>), so
  whether the answers have the declared shapes is a property to prove.
\<close>

datatype pfield = PStr | PStrDflt | PBool | POptStr | PStrListDflt

fun pfield_ok :: "pfield \<Rightarrow> json option \<Rightarrow> bool" where
  "pfield_ok PStr v = (case v of Some (JStr _) \<Rightarrow> True | _ \<Rightarrow> False)"
| "pfield_ok PStrDflt v = (case v of None \<Rightarrow> True | Some (JStr _) \<Rightarrow> True | _ \<Rightarrow> False)"
| "pfield_ok PBool v = (case v of Some (JBool _) \<Rightarrow> True | _ \<Rightarrow> False)"
| "pfield_ok POptStr v = (case v of None \<Rightarrow> True | Some JNull \<Rightarrow> True | Some (JStr _) \<Rightarrow> True | _ \<Rightarrow> False)"
| "pfield_ok PStrListDflt v =
     (case v of None \<Rightarrow> True | Some (JList xs) \<Rightarrow> list_all (\<lambda>x. case x of JStr _ \<Rightarrow> True | _ \<Rightarrow> False) xs
      | _ \<Rightarrow> False)"

definition validates :: "(string \<times> pfield) list \<Rightarrow> json \<Rightarrow> bool" where
  "validates model v = (case v of JObj d \<Rightarrow> list_all (\<lambda>(k, f). pfield_ok f (map_of d k)) model | _ \<Rightarrow> False)"

definition LogEntry :: "(string \<times> pfield) list" where
  "LogEntry = [(''timestamp'', PStr), (''level'', PStr), (''source'', PStr), (''message'', PStr)]"

definition CronJob :: "(string \<times> pfield) list" where
  "CronJob = [(''id'', PStr), (''name'', PStr), (''schedule'', PStr), (''enabled'', PBool),
              (''last_run'', POptStr), (''next_run'', POptStr), (''status'', PStrDflt)]"

definition SessionInfo :: "(string \<times> pfield) list" where
  "SessionInfo = [(''id'', PStr), (''agent_id'', PStr), (''channel'', PStr), (''status'', PStr),
                  (''created_at'', PStr), (''last_activity'', POptStr)]"

definition AgentInfo :: "(string \<times> pfield) list" where
  "AgentInfo = [(''id'', PStr), (''name'', PStr), (''status'', PStr), (''agent_id'', POptStr),
                (''workspace'', POptStr), (''model'', POptStr), (''capabilities'', PStrListDflt)]"

definition NodeInfo :: "(string \<times> pfield) list" where
  "NodeInfo = [(''id'', PStr), (''name'', PStr), (''platform'', PStr), (''status'', PStr),
               (''last_seen'', POptStr), (''capabilities'', PStrListDflt)]"

text \<open>The job list of \<open>list_cron_jobs\<close>.\<close>

definition cron_jobs :: "string \<Rightarrow> json list" where
  "cron_jobs now = (case obj_get ''jobs'' (list_cron_jobs now) of JList js \<Rightarrow> js | _ \<Rightarrow> [])"

section \<open>Lemmas\<close>

text \<open>
  The listings have the shapes their routers declare: every log entry is a
  \<open>LogEntry\<close>, every cron job a \<open>CronJob\<close>, every session a \<open>SessionInfo\<close>,
  every agent an \<open>AgentInfo\<close> and every node a \<open>NodeInfo\<close>, whatever the clock.
\<close>

lemma listings_validate:
  "list_all (validates LogEntry) (sample_logs now) \<and> list_all (validates CronJob) (cron_jobs now) \<and>
   list_all (validates SessionInfo) SESSIONS \<and> list_all (validates AgentInfo) AGENTS \<and>
   list_all (validates NodeInfo) NODES"
  by (simp add: validates_def LogEntry_def CronJob_def SessionInfo_def AgentInfo_def NodeInfo_def
      sample_logs_def log_entry_def cron_jobs_def list_cron_jobs_def obj_get_def SESSIONS_def AGENTS_def NODES_def)

text \<open>
  The session lookup answers with no \<open>created_at\<close>, so its answer is not a
  \<open>SessionInfo\<close>; the agent and node lookups do have their models' shapes.
\<close>

lemma lookups_validate:
  "\<not> validates SessionInfo (get_session s) \<and> validates AgentInfo (get_agent a) \<and> validates NodeInfo (get_node n)"
  by (simp add: validates_def SessionInfo_def AgentInfo_def NodeInfo_def get_session_def get_agent_def get_node_def)

end
