(* ===== verification/Plugin.thy ===== *)
theory Plugin
  imports Client Generative_UI
begin

text \<open>
  Plugin start-up: \<open>init_openclaw_plugin\<close> of \<open>plugins/openclaw/__init__.py\<close>,
  the package \<open>plugins/openclaw/routers/__init__.py\<close> it imports, and
  \<open>init_generative_ui_plugin\<close> of \<open>plugins/generative-ui/__init__.py\<close>.  An
  import statement \<open>from pkg import a, b, ...\<close> is modelled against the modules
  that exist in the package: the first name without a module raises
  \<open>ImportError\<close>; \<open>pkg/__init__.py\<close> runs before any of its names is taken.
\<close>

fun py_import_from :: "string list \<Rightarrow> string list \<Rightarrow> py_exc + unit" where
  "py_import_from modules [] = Inr ()"
| "py_import_from modules (name # names) =
     (if name \<in> set modules then py_import_from modules names else Inl (ImportError name))"

text \<open>The modules of \<open>plugins/openclaw/routers/\<close> besides \<open>__init__\<close>.\<close>

definition ROUTER_MODULES :: "string list" where
  "ROUTER_MODULES = [''models'', ''webmcp'']"

text \<open>The body of \<open>routers/__init__.py\<close>.\<close>

definition routers_package_init :: "py_exc + unit" where
  "routers_package_init =
     py_import_from ROUTER_MODULES [''models'', ''auth'', ''channels'', ''skills'', ''webmcp'']"

definition init_openclaw_plugin :: "py_exc + json" where
  "init_openclaw_plugin =
     (case routers_package_init of
        Inl e \<Rightarrow> Inl e
      | Inr _ \<Rightarrow>
          (case py_import_from ROUTER_MODULES [''models'', ''auth'', ''channels'', ''skills''] of
             Inl e \<Rightarrow> Inl e
           | Inr _ \<Rightarrow> Inr (JObj [(''name'', JStr ''OpenClaw Integration''), (''version'', JStr ''1.0.0''),
                                 (''description'', JStr ''Full OpenClaw compatibility for OpenWebUI''),
                                 (''routers'', JList (map JStr [''models'', ''auth'', ''channels'', ''skills'']))])))"

definition init_generative_ui_plugin ::
  "environ \<Rightarrow> GenerativeUIService option \<Rightarrow> json \<times> GenerativeUIService option" where
  "init_generative_ui_plugin env slot =
     (let (svc, slot') = get_generative_ui_service env slot in (ui_get_status svc, slot'))"

section \<open>Lemmas\<close>

lemma py_import_from_Inr_iff: "py_import_from ms ns = Inr () \<longleftrightarrow> set ns \<subseteq> set ms"
  by (induction ns) auto

text \<open>
  The OpenClaw plugin cannot start: its routers package imports the modules
  \<open>auth\<close>, \<open>channels\<close> and \<open>skills\<close>, which do not exist, so
  \<open>init_openclaw_plugin\<close> (and any import of a router through the package) raises
  \<open>ImportError\<close> at \<open>auth\<close>.
\<close>

lemma init_openclaw_plugin_import_error:
  "routers_package_init = Inl (ImportError ''auth'') \<and> init_openclaw_plugin = Inl (ImportError ''auth'')"
  by (simp add: init_openclaw_plugin_def routers_package_init_def ROUTER_MODULES_def)

text \<open>
  Generative-UI start-up creates the service from the environment once and
  reports its status: enabled unless \<open>GENERATIVE_UI_ENABLED\<close> is set to something
  other than \<open>true\<close> in any letter case, with the configured providers.
\<close>

lemma init_generative_ui_plugin_status:
  "init_generative_ui_plugin env None =
     (JObj [(''enabled'', JBool (py_lower (environ_get env ''GENERATIVE_UI_ENABLED'' ''true'') = ''true'')),
            (''search_provider'', JStr (environ_get env ''DEFAULT_SEARCH_PROVIDER'' ''brave'')),
            (''llm_provider'', JStr (environ_get env ''DEFAULT_LLM_PROVIDER'' ''openclow'')),
            (''features'', JList [JStr ''ai_search'', JStr ''generative_components'', JStr ''ag_ui_protocol''])],
      Some (load_ui_service env)) \<and>
   init_generative_ui_plugin env (Some svc) = (ui_get_status svc, Some svc)"
  by (simp add: init_generative_ui_plugin_def get_generative_ui_service_def ui_get_status_def load_ui_service_def)

end
