(* ===== verification/Spec2Isabelle.thy ===== *)
theory Spec2Isabelle
  imports Proxy Catalog Sync Client_Session Stream_Relay Middleware Webmcp Generative_UI UI_Schema Control Control_Models Plugin
begin

text \<open>
  \<^bold>\<open>Verification development of the OpenClaw gateway compatibility layer.\<close>

  The program is a set of plugins for the Open WebUI backend
  (\<open>src/backend/open_webui/plugins/\<close>).  Its core, \<open>openclaw/\<close>, accepts
  OpenAI-style chat-completion, embedding and model-listing requests, resolves the
  provider of a model name, forwards requests to a configurable upstream gateway
  (streaming chat completions chunk by chunk) and merges the gateway's model
  catalog with a static fallback list.  Around it sit a logging middleware, a
  constant WebMCP tool listing, and the generative-UI plugin that shapes UI
  components from request fields.  Each part is a theory; the theories import each
  other along the code's call graph:

  \<^item> \<open>Prelude\<close>: the Python built-ins the code calls (\<open>str.lower\<close> on ASCII,
    \<open>startswith\<close>, \<open>in\<close> on strings, \<open>or\<close>, \<open>str(int)\<close>), dicts as association
    lists in insertion order (\<open>dict_get\<close>, \<open>dict_set\<close>, \<open>dict_update\<close>), a
    \<open>for\<close> loop whose body may raise (\<open>py_map\<close>), and \<open>py_bind\<close>, which threads
    an exception together with the state reached so far.
  \<^item> \<open>Py_Json\<close>: JSON values, the Python exceptions the handlers raise or catch
    (\<open>py_exc\<close>), truthiness, \<open>.get\<close> on a value that may not be a dict
    (\<open>AttributeError\<close>), iteration and \<open>len\<close> (\<open>TypeError\<close>), pydantic string
    validation.
  \<^item> \<open>Compat\<close> (\<open>openclaw/compat.py\<close>): the configuration read from the
    environment (\<open>load_config\<close>), the provider table and the first-match
    resolver \<open>get_provider_for_model\<close>, the header and URL builders.
  \<^item> \<open>Client\<close> (\<open>openclaw/__init__.py\<close>): \<open>OpenClawClient\<close> as a record, its
    \<open>_make_request\<close> and the endpoint wrappers, and the process-wide client slot
    \<open>_claw_client\<close>.  The network is an oracle from the requests sent so far and
    the next request to a response or an exception; the world records the slot
    and the log of every request sent, so "no request is made" is a statement
    about the log.
  \<^item> \<open>Client_Session\<close>: the client's public methods as a datatype of
    operations, run in sequence on one client object (\<open>run_ops\<close>), and the
    abstract reachability monitor \<open>flag_step\<close> that the flag refines.
  \<^item> \<open>Proxy\<close> (\<open>openclaw/routers/models.py\<close>): \<open>chat_completions\<close> and
    \<open>embeddings\<close>, each a function from network, configuration, world and body
    to the reply or exception and the new world.
  \<^item> \<open>Stream_Relay\<close>: the streaming branch's generator as an inductive step
    relation (yield, skip an empty chunk, finish, fail, be cancelled), with its
    reachability invariant and a fuel measure.
  \<^item> \<open>Catalog\<close> (\<open>openclaw/routers/models.py\<close>): \<open>OpenAIModel\<close>, the
    listing with its fallback and appended entries, the lookup of one model.
  \<^item> \<open>Sync\<close> (\<open>openclaw/sync.py\<close>): model sync records, the status aggregate
    and the connection test, all through the client slot.
  \<^item> \<open>Middleware\<close> (\<open>openclaw/middleware.py\<close>), \<open>Webmcp\<close>
    (\<open>openclaw/routers/webmcp.py\<close>), \<open>Generative_UI\<close>
    (\<open>generative-ui/__init__.py\<close> and its three routers: the dict-keyed
    dispatch to component generators is a datatype of generators, pydantic
    request models are validators returning \<open>ValidationError\<close>).
  \<^item> \<open>UI_Schema\<close> (\<open>generative-ui/routers/agui.py\<close>, \<open>search.py\<close>): the
    AG-UI protocol and component-schema endpoints and the search catalogs; the
    advertised JSON schemas are read with \<open>conforms\<close>, which types generated
    components.
  \<^item> \<open>Control\<close> (\<open>openclaw_control/routers/\<close>): the administrative
    endpoints: log filtering and slicing, usage reports, cron jobs, and the
    listings, lookups and message endpoints of sessions, agents and nodes;
    \<open>Control_Models\<close> holds the pydantic models these routers declare and
    \<open>validates\<close>, which types the listings against them.
  \<^item> \<open>Plugin\<close>: the start-up functions and the imports of the OpenClaw routers
    package, checked against the modules the package contains.

  \<^bold>\<open>What is proved.\<close>  For the proxy: the buffered success path, the rewriting
  of every upstream error status to 500, the 503 guard that sends nothing, the
  allow-list of forwarded parameters, that embeddings ignore the upstream status,
  and (here, across theories) that the streamed reply is the output of a
  completed relay run and that the upstream request carries the prefix-stripped
  model.  For the resolver: first-match semantics and the default; the
  URL builders are one reference base plus a path, which \<open>get_model_url\<close>
  agrees with exactly when routing through the gateway or resolving to OpenAI.  For the client: over any sequence of
  calls the flag is the abstract monitor run over the outcomes and the rest of
  the object is unchanged; every call sends exactly its own request in call
  order, and a sequence that raises has sent the requests up to and including the
  raising call and nothing after it; the flag never gates a call; the slot is
  created once and every later call works on the object the previous one left.
  For the catalog: the listing is never empty, falls back exactly when the
  gateway has no models, is exactly the live models plus the appended ones when
  the gateway lists some, and agrees with the lookup of each listed id (a round
  trip).  For sync: no request when disabled, the order of the status requests,
  and a connection test that reports the abstract monitor's step on its own
  status request.  For the relay: order preservation and completion.  For the
  rest: the component generator honours its type, the batch endpoint is the
  single endpoint mapped over the items, generated components have the types of
  the advertised AG-UI schemas, and the logs endpoint filters and bounds its
  answer.  Plain lemmas beside these record facts about constant tables and
  generic wrappers (the relay's runs are finite and a cancelled run keeps the
  upstream open, the middleware passes every response through, the component
  catalogue matches the generators, the usage totals add up, the listings have
  their declared shapes, and the OpenClaw plugin's start-up fails with an
  \<open>ImportError\<close>).  Further lemmas
  next to each component record where the code departs from its evident intent
  (e.g. router defaults shadowing generator defaults, an empty bearer token).

  \<^bold>\<open>Bounds and fuel.\<close>  No loop of the code is unbounded: every loop runs over a
  finite list (a provider table, a response's models, a body's chunks), so all
  definitions are structural recursion.  The stream relay's runs are bounded by
  \<open>relay_fuel\<close>, one more than the number of pending chunks, which every step
  decreases.

  \<^bold>\<open>Not modelled.\<close>  FastAPI routing and authentication, logging, HTTP
  transport (abstracted by the network oracle), the timing of \<open>created\<close>
  timestamps, non-ASCII case folding, and pydantic's lax coercions other than string
  validation.  Reading the environment at import time is modelled as reading it
  when the configuration or service is built; the client's defaults, which the
  code imports from \<open>open_webui.env\<close> (outside the sources), are taken from
  the same configuration as \<open>compat.py\<close>'s.  The lines of the sources that no definition
  translates are module docstrings, imports, logger and router objects and the
  export list \<open>__all__\<close> of \<open>compat.py\<close>, which have no behaviour to model.
\<close>

section \<open>Properties across components\<close>

text \<open>
  C7. Refinement of the streaming proxy by the relay machine: when the gateway
  accepts a streamed chat completion, the chunks the client receives are exactly
  what a run of the relay from the upstream's chunks emits when it reaches the
  finished state, with the upstream connection released.
\<close>

theorem stream_reply_refines_relay:
  assumes "OPENCLAW_ENABLED cfg"
    and "dict_get d ''model'' (JStr ''openclaw:gpt-5.2'') = JStr m"
    and "py_truthy (dict_get d ''stream'' (JBool False))"
    and "net (sent w) (chat_request cfg (strip_openclaw_prefix m) d) = Received r"
  shows "\<exists>t. relay_step\<^sup>*\<^sup>* (relay_init (body_chunks r) True) t \<and> gen t = Finished \<and> \<not> upstream_open t \<and>
             fst (chat_completions net cfg w (JObj d)) = Inr (StreamReply (emitted t))"
proof -
  let ?s = "relay_init (body_chunks r) True"
  have "gen ?s = Running" by (simp add: relay_init_def)
  from relay_runs_to_end [OF this] have run:
    "relay_step\<^sup>*\<^sup>* ?s (?s\<lparr>pending := [], emitted := relay_chunks (body_chunks r), gen := Finished,
                          upstream_open := False\<rparr>)"
    by (simp add: relay_init_def)
  have "fst (chat_completions net cfg w (JObj d)) = Inr (StreamReply (relay_chunks (body_chunks r)))"
    using assms by (simp add: chat_completions_enabled chat_outcome_def)
  with run show ?thesis by fastforce
qed

theorem stream_reply_refines_relay_witness:
  "\<exists>t. relay_step\<^sup>*\<^sup>* (relay_init [''a'', [], ''b''] True) t \<and> gen t = Finished \<and> \<not> upstream_open t \<and>
       fst (chat_completions (\<lambda>_ _. Received \<lparr>status_code = 200, body_json = Inl (JSONDecodeError ''s''),
              body_text = [], body_chunks = [''a'', [], ''b'']\<rparr>)
            (load_config Map.empty) \<lparr>claw_slot = None, sent = []\<rparr>
            (JObj [(''stream'', JBool True)])) = Inr (StreamReply (emitted t))"
  using stream_reply_refines_relay
    [where cfg = "load_config Map.empty" and d = "[(''stream'', JBool True)]"
       and m = "''openclaw:gpt-5.2''" and w = "\<lparr>claw_slot = None, sent = []\<rparr>"
       and net = "\<lambda>_ _. Received \<lparr>status_code = 200, body_json = Inl (JSONDecodeError ''s''),
                    body_text = [], body_chunks = [''a'', [], ''b'']\<rparr>"
       and r = "\<lparr>status_code = 200, body_json = Inl (JSONDecodeError ''s''),
                    body_text = [], body_chunks = [''a'', [], ''b'']\<rparr>"]
  by (simp add: load_config_defaults)

text \<open>
  C8. An enabled chat completion with a string model sends exactly one request,
  to the configured gateway's \<open>/v1/chat/completions\<close>, whose payload names the
  model with its \<open>openclaw:\<close> prefix removed (\<open>gpt-5.2\<close> when the body names
  none); the process-wide client slot is not touched.
\<close>

theorem proxy_forwards_stripped_model:
  assumes "OPENCLAW_ENABLED cfg"
    and "dict_get d ''model'' (JStr ''openclaw:gpt-5.2'') = JStr m"
  shows "\<exists>req p. sent (snd (chat_completions net cfg w (JObj d))) = sent w @ [req] \<and>
           claw_slot (snd (chat_completions net cfg w (JObj d))) = claw_slot w \<and>
           rq_url req = OPENCLAW_GATEWAY_URL cfg @ ''/v1/chat/completions'' \<and>
           rq_json req = Some (JObj p) \<and> dict_get p ''model'' JNull = JStr (strip_openclaw_prefix m)"
  using assms chat_payload_model
  by (simp add: chat_completions_enabled chat_request_def get_chat_completion_url_def)

theorem proxy_forwards_stripped_model_witness:
  "\<exists>req p. sent (snd (chat_completions (\<lambda>_ _. Raised (RequestException ''down'')) (load_config Map.empty)
                 \<lparr>claw_slot = None, sent = []\<rparr> (JObj []))) = [req] \<and>
     claw_slot (snd (chat_completions (\<lambda>_ _. Raised (RequestException ''down'')) (load_config Map.empty)
                 \<lparr>claw_slot = None, sent = []\<rparr> (JObj []))) = None \<and>
     rq_url req = ''http://localhost:18789/v1/chat/completions'' \<and>
     rq_json req = Some (JObj p) \<and> dict_get p ''model'' JNull = JStr ''gpt-5.2''"
  using proxy_forwards_stripped_model
    [where cfg = "load_config Map.empty" and d = "[]" and m = "''openclaw:gpt-5.2''"
       and w = "\<lparr>claw_slot = None, sent = []\<rparr>" and net = "\<lambda>_ _. Raised (RequestException ''down'')"]
  by (simp add: load_config_defaults strip_openclaw_prefix_def)

text \<open>
  The catalog and the proxy agree on the fallback models: selecting a fallback
  entry's id makes the proxy forward that entry's root model name.
\<close>

lemma fallback_models_forward_root:
  "list_all (\<lambda>md. strip_openclaw_prefix (om_id md) = om_root md) FALLBACK_MODELS"
  by (simp add: FALLBACK_MODELS_def mk_model_def strip_openclaw_prefix_def)

text \<open>
  The control routers and the model catalog agree: the model of every listed
  agent, and every model of the usage reports, is a model that every successful
  listing of the catalog contains.
\<close>

lemma control_models_in_catalog:
  assumes "list_openclaw_models net cfg w = (Inr ml, w')"
  shows "list_all (\<lambda>m. m \<in> set (map om_id (ml_data ml)))
           (map (entry_str ''model'') AGENTS @
            (case get_usage ''day'' of Inr u \<Rightarrow> (case obj_get ''by_model'' u of JObj d \<Rightarrow> map fst d | _ \<Rightarrow> [])
             | Inl _ \<Rightarrow> []) @
            (case obj_get ''models'' get_model_usage of JList ms \<Rightarrow> map (entry_str ''id'') ms | _ \<Rightarrow> []))"
proof -
  have "set (map om_id APPENDED_MODELS) \<subseteq> set (map om_id (ml_data ml))"
    using list_openclaw_models_appended [OF assms] by auto
  moreover have "list_all (\<lambda>m. m \<in> set (map om_id APPENDED_MODELS))
           (map (entry_str ''model'') AGENTS @
            (case get_usage ''day'' of Inr u \<Rightarrow> (case obj_get ''by_model'' u of JObj d \<Rightarrow> map fst d | _ \<Rightarrow> [])
             | Inl _ \<Rightarrow> []) @
            (case obj_get ''models'' get_model_usage of JList ms \<Rightarrow> map (entry_str ''id'') ms | _ \<Rightarrow> []))"
    by (simp add: APPENDED_MODELS_def AGENTS_def get_usage_def USAGE_PERIODS_def get_model_usage_def
        obj_get_def entry_str_def)
  moreover have "\<And>xs A B. A \<subseteq> B \<Longrightarrow> list_all (\<lambda>m. m \<in> A) xs \<Longrightarrow> list_all (\<lambda>m. m \<in> B) xs"
    by (auto simp: list_all_iff)
  ultimately show ?thesis by blast
qed

text \<open>
  C25. The connection test reports the abstract reachability monitor: it sends
  exactly one \<open>GET /api/status\<close> from the process-wide client (creating it if
  needed, whether or not the integration is enabled) and answers the monitor's
  step from the client's previous flag (\<open>False\<close> for a new client) on that
  request's outcome.
\<close>

theorem test_connection_reports_monitor:
  "fst (test_connection net cfg w) =
     JBool (flag_step (case claw_slot w of None \<Rightarrow> False | Some c \<Rightarrow> connected c)
                      (net (sent w) (slot_request cfg w ''/api/status''))) \<and>
   sent (snd (test_connection net cfg w)) = sent w @ [slot_request cfg w ''/api/status'']"
proof -
  have val: "fst (test_connection net cfg w) =
     JBool (flag_step (case claw_slot w of None \<Rightarrow> False | Some c \<Rightarrow> connected c)
                      (net (sent w) (slot_request cfg w ''/api/status'')))"
    by (cases "claw_slot w")
       (auto simp: test_connection_def with_claw_client_def get_claw_client_def get_status_eq make_request_eq
          slot_request_def new_client_def Let_def split: http_outcome.split)
  have "sent (snd (test_connection net cfg w)) = sent (snd (with_claw_client cfg (get_status net) w))"
    by (simp add: test_connection_def case_prod_beta)
  with val status_step(1) show ?thesis by simp
qed

end
